(* ===== verification/Prelude.thy ===== *)
theory Prelude
  imports Complex_Main "HOL-Library.Multiset" "HOL-Library.Char_ord" "HOL-Library.List_Lexorder"
begin

text \<open>
  Shared vocabulary of the development: the JSON values a request body carries
  (as Express' body parsers hand them to the route handlers), JavaScript's
  truthiness test used by every validation \<open>if (!x || \<dots>)\<close> of the routes, and
  the ordering primitives that model SQL \<open>ORDER BY \<dots> DESC\<close> and the stable
  \<open>Array.prototype.sort\<close>. Generic lemmas on these are collected here and
  declared \<open>[simp]\<close> or into the \<open>model_simps\<close> collection.
\<close>

named_theorems model_simps "equations that evaluate the handlers of the model"

section \<open>JSON values and JavaScript truthiness\<close>

text \<open>
  JSON numbers are kept as \<open>int\<close>: the routes only test them for truthiness (a
  number is falsy iff it is \<open>0\<close>; JSON has no \<open>NaN\<close>) and store them in integer
  columns. \<open>JUndef\<close> is a field absent from the body (\<open>undefined\<close> in the
  destructuring \<open>const { a, b } = req.body\<close>); \<open>JObj\<close> is any array or object,
  which JavaScript always treats as truthy.
\<close>

datatype jval = JUndef | JNull | JBool bool | JNum int | JStr string | JObj

fun truthy :: "jval \<Rightarrow> bool" where
  "truthy JUndef = False"
| "truthy JNull = False"
| "truthy (JBool b) = b"
| "truthy (JNum n) = (n \<noteq> 0)"
| "truthy (JStr s) = (s \<noteq> [])"
| "truthy JObj = True"

lemma truthy_iff [simp]:
  "truthy v \<longleftrightarrow> v \<noteq> JUndef \<and> v \<noteq> JNull \<and> v \<noteq> JBool False \<and> v \<noteq> JNum 0 \<and> v \<noteq> JStr []"
  by (cases v) auto

type_synonym row_id = int
type_synonym sql_date = string

section \<open>ORDER BY key DESC\<close>

text \<open>
  \<open>ORDER BY k DESC\<close> fixes the order only up to ties; the model takes the
  stable choice: an insertion sort that puts an element before the first one
  whose key is not greater (so among equal keys the table order is kept).
\<close>

fun insort_desc :: "('a \<Rightarrow> 'k::linorder) \<Rightarrow> 'a \<Rightarrow> 'a list \<Rightarrow> 'a list" where
  "insort_desc f x [] = [x]"
| "insort_desc f x (y # ys) =
     (if f y \<le> f x then x # y # ys else y # insort_desc f x ys)"

definition sort_desc :: "('a \<Rightarrow> 'k::linorder) \<Rightarrow> 'a list \<Rightarrow> 'a list" where
  "sort_desc f xs = foldr (insort_desc f) xs []"

definition sorted_desc :: "('a \<Rightarrow> 'k::linorder) \<Rightarrow> 'a list \<Rightarrow> bool" where
  "sorted_desc f xs \<longleftrightarrow> sorted_wrt (\<lambda>a b. f b \<le> f a) xs"

text \<open>
  The contract of \<open>SELECT \<dots> ORDER BY k DESC\<close> over a set of result rows:
  the same rows, in non-increasing key order, ties in any order.
\<close>

definition order_by_desc :: "('a \<Rightarrow> 'k::linorder) \<Rightarrow> 'a list \<Rightarrow> 'a list \<Rightarrow> bool" where
  "order_by_desc f xs ys \<longleftrightarrow> mset ys = mset xs \<and> sorted_desc f ys"

section \<open>Tables with a key column as maps\<close>

text \<open>
  The rows of a table read as a map from their key to the row: the first row
  with a key answers a lookup, as \<open>SELECT \<dots> WHERE key = ? LIMIT 1\<close> would.
\<close>

definition keyed :: "('a \<Rightarrow> 'k) \<Rightarrow> 'a list \<Rightarrow> 'k \<rightharpoonup> 'a" where
  "keyed k rs = map_of (map (\<lambda>r. (k r, r)) rs)"

lemma sort_desc_simps [simp]:
  "sort_desc f [] = []"
  "sort_desc f (x # xs) = insort_desc f x (sort_desc f xs)"
  by (simp_all add: sort_desc_def)

lemma mset_insort_desc [simp]: "mset (insort_desc f x xs) = add_mset x (mset xs)"
  by (induction xs) auto

lemma mset_sort_desc [simp]: "mset (sort_desc f xs) = mset xs"
  by (induction xs) auto

lemma set_sort_desc [simp]: "set (sort_desc f xs) = set xs"
  by (metis mset_sort_desc set_mset_mset)

lemma length_sort_desc [simp]: "length (sort_desc f xs) = length xs"
  by (metis mset_sort_desc size_mset)

lemma sort_desc_eq_Nil [simp]: "sort_desc f xs = [] \<longleftrightarrow> xs = []"
  by (metis length_0_conv length_sort_desc)

lemma set_insort_desc: "set (insort_desc f x xs) = insert x (set xs)"
  by (metis mset_insort_desc set_mset_add_mset_insert set_mset_mset)

lemma sorted_desc_Cons [simp]:
  "sorted_desc f (x # xs) \<longleftrightarrow> (\<forall>y \<in> set xs. f y \<le> f x) \<and> sorted_desc f xs"
  by (simp add: sorted_desc_def)

lemma sorted_desc_Nil [simp]: "sorted_desc f []"
  by (simp add: sorted_desc_def)

lemma sorted_desc_insort_desc:
  "sorted_desc f xs \<Longrightarrow> sorted_desc f (insort_desc f x xs)"
  by (induction xs) (auto simp: set_insort_desc)

lemma sorted_desc_sort_desc [simp]: "sorted_desc f (sort_desc f xs)"
  by (induction xs) (auto intro: sorted_desc_insort_desc)

lemma filter_insort_desc_key:
  "filter (\<lambda>y. f y = k) (insort_desc f x xs) =
     (if f x = k then x # filter (\<lambda>y. f y = k) xs else filter (\<lambda>y. f y = k) xs)"
  by (induction xs) auto

text \<open>Stability: the elements of one key keep the order they had in the table.\<close>

lemma sort_desc_stable:
  "filter (\<lambda>y. f y = k) (sort_desc f xs) = filter (\<lambda>y. f y = k) xs"
  by (induction xs) (simp_all add: filter_insort_desc_key)

lemma insort_desc_max:
  "\<forall>y \<in> set ys. f y \<le> f x \<Longrightarrow> insort_desc f x ys = x # ys"
  by (cases ys) auto

lemma filter_insort_desc:
  "sorted_desc f ys \<Longrightarrow>
   filter P (insort_desc f x ys) = (if P x then insort_desc f x (filter P ys) else filter P ys)"
proof (induction ys)
  case Nil
  then show ?case by simp
next
  case (Cons a ys)
  show ?case
  proof (cases "f a \<le> f x")
    case True
    with Cons.prems have "\<forall>y \<in> set (filter P ys). f y \<le> f x"
      by (auto intro: order_trans)
    with True show ?thesis by (simp add: insort_desc_max)
  next
    case False
    with Cons show ?thesis by simp
  qed
qed

lemma sort_desc_filter:
  "sort_desc f (filter P xs) = filter P (sort_desc f xs)"
  by (induction xs) (simp_all add: filter_insort_desc)

lemma hd_sort_desc_max:
  "xs \<noteq> [] \<Longrightarrow> f (hd (sort_desc f xs)) = Max (f ` set xs)"
proof -
  assume ne: "xs \<noteq> []"
  obtain y ys where eq: "sort_desc f xs = y # ys"
    using ne by (cases "sort_desc f xs") auto
  have "sorted_desc f (y # ys)" using sorted_desc_sort_desc [of f xs] eq by simp
  moreover have "set xs = insert y (set ys)" using set_sort_desc [of f xs] eq by simp
  ultimately show ?thesis using eq by (auto intro: Max_eqI [symmetric])
qed

lemma sort_desc_order_by_desc: "order_by_desc f xs (sort_desc f xs)"
  by (simp add: order_by_desc_def)

section \<open>Lists\<close>

text \<open>A key that is unique in a table selects exactly one row.\<close>

lemma filter_unique_key:
  "distinct (map f xs) \<Longrightarrow> x \<in> set xs \<Longrightarrow> filter (\<lambda>y. f y = f x) xs = [x]"
proof (induction xs)
  case Nil
  then show ?case by simp
next
  case (Cons a xs)
  show ?case
  proof (cases "a = x")
    case True
    with Cons.prems have "filter (\<lambda>y. f y = f x) xs = []"
      by (auto simp: filter_empty_conv image_iff)
    with True show ?thesis by simp
  next
    case False
    with Cons.prems have "x \<in> set xs" and "f a \<noteq> f x" by auto
    with Cons show ?thesis by simp
  qed
qed

lemma filter_unique_key':
  "distinct (map f xs) \<Longrightarrow> x \<in> set xs \<Longrightarrow> f x = k \<Longrightarrow> filter (\<lambda>y. f y = k) xs = [x]"
  using filter_unique_key [of f xs x] by simp

lemma filter_absent_key:
  "k \<notin> f ` set xs \<Longrightarrow> filter (\<lambda>y. f y \<noteq> k) xs = xs"
  by (induction xs) auto

lemma filter_map_fst_distinct:
  "distinct (map f xs) \<Longrightarrow> distinct (map f (filter P xs))"
  by (induction xs) auto

text \<open>
  Updating one row of a table with unique keys, or deleting it, changes a
  filtered view by exactly that row.
\<close>

lemma filter_map_update_one:
  assumes "distinct (map g xs)" and "x \<in> set xs" and "\<forall>y \<in> set xs. g y \<noteq> g x \<longrightarrow> f y = y"
    and "P (f x)" and "\<not> P x"
  shows "mset (filter P (map f xs)) = add_mset (f x) (mset (filter P xs))"
  using assms
proof (induction xs)
  case Nil
  then show ?case by simp
next
  case (Cons a xs)
  show ?case
  proof (cases "a = x")
    case True
    with Cons.prems(1) have "\<forall>y \<in> set xs. g y \<noteq> g x" by (auto simp: image_iff)
    with Cons.prems(3) have "map f xs = xs" by (simp add: map_idI)
    with True Cons.prems(4,5) show ?thesis by simp
  next
    case False
    with Cons.prems(1,2) have "g a \<noteq> g x" by (auto simp: image_iff)
    with Cons.prems(3) have fa: "f a = a" by simp
    from False Cons.prems have "mset (filter P (map f xs)) = add_mset (f x) (mset (filter P xs))"
      by (intro Cons.IH) auto
    with fa show ?thesis by simp
  qed
qed

lemma filter_delete_one:
  assumes "distinct (map g xs)" and "x \<in> set xs" and "P x"
  shows "Suc (length (filter P (filter (\<lambda>r. g r \<noteq> g x) xs))) = length (filter P xs)"
  using assms
proof (induction xs)
  case Nil
  then show ?case by simp
next
  case (Cons a xs)
  show ?case
  proof (cases "a = x")
    case True
    with Cons.prems(1) have "filter (\<lambda>r. g r \<noteq> g x) xs = xs"
      by (auto simp: filter_absent_key)
    with True Cons.prems(3) show ?thesis by simp
  next
    case False
    with Cons.prems(1,2) have "g a \<noteq> g x" by (auto simp: image_iff)
    with False Cons show ?thesis by auto
  qed
qed
lemma mset_add_sum_length:
  "mset ys = add_mset z (mset zs) \<Longrightarrow>
   sum_list (map (q :: 'a \<Rightarrow> 'b::comm_monoid_add) ys) = q z + sum_list (map q zs) \<and>
   length ys = Suc (length zs)"
proof -
  assume m: "mset ys = add_mset z (mset zs)"
  have "sum_list (map q ys) = sum_mset (image_mset q (mset ys))"
    by (metis mset_map sum_mset_sum_list)
  also have "\<dots> = q z + sum_mset (image_mset q (mset zs))" using m by simp
  also have "sum_mset (image_mset q (mset zs)) = sum_list (map q zs)"
    by (metis mset_map sum_mset_sum_list)
  finally have "sum_list (map q ys) = q z + sum_list (map q zs)" .
  moreover have "length ys = Suc (length zs)" using m by (metis size_add_mset size_mset)
  ultimately show ?thesis by simp
qed

section \<open>Keyed tables\<close>

lemma keyed_Nil [simp]: "keyed k [] = Map.empty"
  by (simp add: keyed_def)

lemma keyed_Cons [simp]: "keyed k (r # rs) = (keyed k rs)(k r \<mapsto> r)"
  by (simp add: keyed_def)

lemma keyed_snoc:
  "k x \<notin> k ` set rs \<Longrightarrow> keyed k (rs @ [x]) = (keyed k rs)(k x \<mapsto> x)"
  by (induction rs) (auto simp: fun_upd_twist)

lemma keyed_filter_key:
  "keyed k (filter (\<lambda>r. k r \<noteq> i) rs) = (keyed k rs)(i := None)"
  by (induction rs) (auto simp: fun_upd_twist)

lemma keyed_map_at_key:
  assumes "\<And>r. k (g r) = k r" and "\<And>r. k r \<noteq> i \<Longrightarrow> g r = r"
  shows "keyed k (map g rs) = (keyed k rs)(i := map_option g (keyed k rs i))"
  using assms by (induction rs) (auto simp: fun_eq_iff)

end
