(* ===== verification/Store.thy ===== *)
theory Store
  imports Prelude "HOL-Library.Monad_Syntax"
begin

text \<open>
  The relational store the routes query through \<open>config/database.js\<close> (a
  \<open>mysql2\<close> pool). Its tables are lists of row records in table order; the
  schema itself is not part of \<open>src/\<close>, so the columns are those the routes
  read and write. The column conversions \<open>sql_int\<close>, \<open>sql_text\<close> model how
  the store (MySQL in strict mode, fed through \<open>mysql2\<close>'s parameter
  escaping) turns a JSON value into a column value, \<open>None\<close> being a rejected
  statement; they are modelled from the documented behaviour of the store.
  The response envelope \<open>{success, message, data}\<close> with its HTTP status is
  the record \<open>response\<close>.
\<close>

section \<open>Rows\<close>

datatype status = Pending | Approved | Rejected | Completed

record user_row =
  u_id :: row_id
  u_name :: string
  u_email :: string
  u_password :: string
  u_phone :: string
  u_blood_type :: string
  u_address :: string

record bank_row =
  bb_id :: row_id
  bb_name :: string
  latitude :: real
  longitude :: real
  bb_address :: string

record stock_row =
  st_bank_id :: row_id
  st_blood_type :: string
  st_quantity :: int

record donation_row =
  d_id :: row_id
  d_user_id :: row_id
  d_bank_id :: row_id
  d_date :: sql_date
  d_blood_type :: string
  d_quantity :: int
  d_status :: status
  d_notes :: "string option"

text \<open>
  The database: the four tables and the \<open>AUTO_INCREMENT\<close> counters of the two
  tables the routes insert into.
\<close>

record db =
  users :: "user_row list"
  blood_banks :: "bank_row list"
  blood_stock :: "stock_row list"
  donations :: "donation_row list"
  next_user_id :: row_id
  next_donation_id :: row_id

text \<open>
  A fresh database: the given users, blood banks and stock, no donation, and
  both \<open>AUTO_INCREMENT\<close> counters at 1.
\<close>

definition initial_db :: "user_row list \<Rightarrow> bank_row list \<Rightarrow> stock_row list \<Rightarrow> db" where
  "initial_db us bs ss =
     \<lparr>users = us, blood_banks = bs, blood_stock = ss, donations = [],
      next_user_id = 1, next_donation_id = 1\<rparr>"

section \<open>Column conversions\<close>

fun digit_val :: "char \<Rightarrow> nat option" where
  "digit_val c =
     (let n = of_char c :: nat in if 48 \<le> n \<and> n \<le> 57 then Some (n - 48) else None)"

fun digits_acc :: "nat \<Rightarrow> string \<Rightarrow> nat option" where
  "digits_acc acc [] = Some acc"
| "digits_acc acc (c # cs) =
     (case digit_val c of None \<Rightarrow> None | Some d \<Rightarrow> digits_acc (10 * acc + d) cs)"

definition parse_nat_text :: "string \<Rightarrow> nat option" where
  "parse_nat_text s = (if s = [] then None else digits_acc 0 s)"

text \<open>
  The white space the store's string-to-number conversion skips around a
  literal (tab, line feed, vertical tab, form feed, carriage return, space).
\<close>

definition sql_space :: "char \<Rightarrow> bool" where
  "sql_space c \<longleftrightarrow> (of_char c :: nat) \<in> {9, 10, 11, 12, 13, 32}"

definition trim_sql_space :: "string \<Rightarrow> string" where
  "trim_sql_space s = rev (dropWhile sql_space (rev (dropWhile sql_space s)))"

text \<open>
  An integer literal: white space around an optional sign and decimal digits.
  A fraction or an exponent is rejected here (the store rounds or rejects
  them depending on the column and mode, which the program does not fix).
\<close>

definition parse_int_text :: "string \<Rightarrow> int option" where
  "parse_int_text s =
     (let t = trim_sql_space s in
      if t \<noteq> [] \<and> hd t = CHR ''-'' then map_option (\<lambda>n. - int n) (parse_nat_text (tl t))
      else if t \<noteq> [] \<and> hd t = CHR ''+'' then map_option int (parse_nat_text (tl t))
      else map_option int (parse_nat_text t))"

fun nat_text :: "nat \<Rightarrow> string" where
  "nat_text n =
     (if n < 10 then [''0123456789'' ! n] else nat_text (n div 10) @ [''0123456789'' ! (n mod 10)])"

definition int_text :: "int \<Rightarrow> string" where
  "int_text i = (if i < 0 then CHR ''-'' # nat_text (nat (- i)) else nat_text (nat i))"

text \<open>
  An integer column accepts a number, a boolean (\<open>true\<close> is 1) or a string
  that is a decimal literal; NULL, objects and other strings are rejected.
\<close>

fun sql_int :: "jval \<Rightarrow> int option" where
  "sql_int (JNum i) = Some i"
| "sql_int (JBool b) = Some (if b then 1 else 0)"
| "sql_int (JStr s) = parse_int_text s"
| "sql_int _ = None"

text \<open>A text (or date) column takes strings as they are and prints numbers.\<close>

fun sql_text :: "jval \<Rightarrow> string option" where
  "sql_text (JStr s) = Some s"
| "sql_text (JNum i) = Some (int_text i)"
| "sql_text (JBool b) = Some (if b then ''1'' else ''0'')"
| "sql_text _ = None"

text \<open>A nullable text column: \<open>undefined\<close> and \<open>null\<close> are both written as NULL.\<close>

definition sql_nullable_text :: "jval \<Rightarrow> string option option" where
  "sql_nullable_text v =
     (case v of JUndef \<Rightarrow> Some None | JNull \<Rightarrow> Some None | _ \<Rightarrow> map_option Some (sql_text v))"

section \<open>Responses\<close>

record 'a response =
  http_status :: nat
  success :: "bool option"
  message :: "string option"
  data :: "'a option"

definition ok_data :: "nat \<Rightarrow> 'a \<Rightarrow> 'a response" where
  "ok_data c x = \<lparr>http_status = c, success = Some True, message = None, data = Some x\<rparr>"

definition ok_msg :: "nat \<Rightarrow> string \<Rightarrow> 'a response" where
  "ok_msg c m = \<lparr>http_status = c, success = Some True, message = Some m, data = None\<rparr>"

definition ok_msg_data :: "nat \<Rightarrow> string \<Rightarrow> 'a \<Rightarrow> 'a response" where
  "ok_msg_data c m x = \<lparr>http_status = c, success = Some True, message = Some m, data = Some x\<rparr>"

definition fail :: "nat \<Rightarrow> string \<Rightarrow> 'a response" where
  "fail c m = \<lparr>http_status = c, success = Some False, message = Some m, data = None\<rparr>"

text \<open>
  A JSON answer: its HTTP status, its \<open>success\<close> field (\<open>None\<close> when the object
  has none), \<open>message\<close> and \<open>data\<close>. The envelope the specification promises
  for every answer: a status among those the routes send, a \<open>success\<close> field
  that is true exactly for the 2xx statuses, and a failure carries a message
  and no data.
\<close>

definition wf_response :: "'a response \<Rightarrow> bool" where
  "wf_response r \<longleftrightarrow>
     http_status r \<in> set [200, 201, 400, 401, 404, 500] \<and> success r = Some (http_status r < 400) \<and>
     (http_status r < 400 \<or> data r = None \<and> message r \<noteq> None)"

lemmas parse_int_text_defs = parse_int_text_def trim_sql_space_def sql_space_def parse_nat_text_def Let_def

lemmas response_defs [model_simps] = ok_data_def ok_msg_def ok_msg_data_def fail_def

lemma wf_response_intros [simp]:
  "wf_response (ok_data 200 x)"
  "wf_response (ok_msg 200 m)"
  "c \<in> set [200, 201] \<Longrightarrow> wf_response (ok_msg_data c m x)"
  "c \<in> set [400, 401, 404, 500] \<Longrightarrow> wf_response (fail c m)"
  by (auto simp: wf_response_def response_defs)

lemma nat_text_ne [simp]: "nat_text n \<noteq> []"
  by (subst nat_text.simps) simp

lemma int_text_ne [simp]: "int_text i \<noteq> []"
  by (simp add: int_text_def)

lemma sql_nullable_text_simps [simp]:
  "sql_nullable_text JUndef = Some None"
  "sql_nullable_text JNull = Some None"
  "sql_nullable_text (JStr s) = Some (Some s)"
  "sql_nullable_text JObj = None"
  by (simp_all add: sql_nullable_text_def)

end
