(* ===== verification/Donations.thy ===== *)
theory Donations
  imports Store
begin

text \<open>
  The donation routes of \<open>routes/donations.js\<close>: the history of a user, the
  creation of a request, the status update, the detail view and the delete.
  Each handler is a function from the database (and the parsed request) to the
  response and the new database; \<open>donation_handle\<close> dispatches a request to its
  handler, and \<open>donation_step\<close> adds the store failures of the \<open>catch\<close> blocks
  as a second kind of step. The lifecycle the file's header comment describes
  (pending, then approved or rejected, then completed) is the relation
  \<open>lifecycle\<close>, against which the status update is compared.
\<close>

section \<open>Statuses\<close>

definition valid_statuses :: "string list" where
  "valid_statuses = [''pending'', ''approved'', ''rejected'', ''completed'']"

fun status_name :: "status \<Rightarrow> string" where
  "status_name Pending = ''pending''"
| "status_name Approved = ''approved''"
| "status_name Rejected = ''rejected''"
| "status_name Completed = ''completed''"

definition status_of_name :: "string \<Rightarrow> status option" where
  "status_of_name s = find (\<lambda>t. status_name t = s) [Pending, Approved, Rejected, Completed]"

text \<open>
  \<open>validStatuses.includes(status)\<close>: \<open>includes\<close> compares with SameValueZero, so
  only a string equal to one of the entries is found.
\<close>

definition js_includes :: "string list \<Rightarrow> jval \<Rightarrow> bool" where
  "js_includes xs v = (case v of JStr s \<Rightarrow> s \<in> set xs | _ \<Rightarrow> False)"

definition status_of_jval :: "jval \<Rightarrow> status option" where
  "status_of_jval v = (case v of JStr s \<Rightarrow> status_of_name s | _ \<Rightarrow> None)"

text \<open>The intended lifecycle of a request, from the header comment of the file.\<close>

inductive lifecycle :: "status \<Rightarrow> status \<Rightarrow> bool" where
  approve: "lifecycle Pending Approved"
| reject: "lifecycle Pending Rejected"
| complete: "lifecycle Approved Completed"

section \<open>Requests and views\<close>

record create_body =
  cb_user_id :: jval
  cb_blood_bank_id :: jval
  cb_donation_date :: jval
  cb_blood_type :: jval
  cb_quantity :: jval
  cb_notes :: jval

datatype donation_data =
    DHistory "(donation_row \<times> string) list"
  | DCreated row_id
  | DDetail "donation_row \<times> string \<times> string"

text \<open>\<open>if (!user_id || !blood_bank_id || !donation_date || !blood_type || !quantity)\<close>\<close>

definition required_present :: "create_body \<Rightarrow> bool" where
  "required_present b \<longleftrightarrow>
     truthy (cb_user_id b) \<and> truthy (cb_blood_bank_id b) \<and> truthy (cb_donation_date b) \<and>
     truthy (cb_blood_type b) \<and> truthy (cb_quantity b)"

text \<open>
  The \<open>INSERT \<dots> VALUES (?, ?, ?, ?, ?, 'pending', ?)\<close>: the row the store builds
  from the body, or \<open>None\<close> when it rejects a value.
\<close>

definition donation_of_body :: "row_id \<Rightarrow> create_body \<Rightarrow> donation_row option" where
  "donation_of_body i b = do {
     u \<leftarrow> sql_int (cb_user_id b);
     k \<leftarrow> sql_int (cb_blood_bank_id b);
     dt \<leftarrow> sql_text (cb_donation_date b);
     bt \<leftarrow> sql_text (cb_blood_type b);
     q \<leftarrow> sql_int (cb_quantity b);
     n \<leftarrow> sql_nullable_text (cb_notes b);
     Some \<lparr>d_id = i, d_user_id = u, d_bank_id = k, d_date = dt, d_blood_type = bt,
           d_quantity = q, d_status = Pending, d_notes = n\<rparr>
   }"

section \<open>Handlers\<close>

text \<open>
  \<open>GET /user/:userId\<close>: \<open>donation_history JOIN blood_banks \<dots> WHERE user_id = ?
  ORDER BY donation_date DESC\<close>.
\<close>

definition history_join :: "db \<Rightarrow> row_id \<Rightarrow> (donation_row \<times> string) list" where
  "history_join s uid =
     [(r, bb_name b). r \<leftarrow> filter (\<lambda>r. d_user_id r = uid) (donations s),
                      b \<leftarrow> filter (\<lambda>b. bb_id b = d_bank_id r) (blood_banks s)]"

definition get_user_donations :: "db \<Rightarrow> row_id \<Rightarrow> donation_data response" where
  "get_user_donations s uid =
     ok_data 200 (DHistory (sort_desc (\<lambda>x. d_date (fst x)) (history_join s uid)))"

text \<open>\<open>POST /\<close>: validation, then the insert with status \<open>pending\<close>.\<close>

definition create_donation :: "db \<Rightarrow> create_body \<Rightarrow> donation_data response \<times> db" where
  "create_donation s b =
     (if \<not> required_present b then (fail 400 ''Data tidak lengkap'', s)
      else case donation_of_body (next_donation_id s) b of
        None \<Rightarrow> (fail 500 ''Gagal membuat permintaan donor'', s)
      | Some r \<Rightarrow>
          (ok_msg_data 201 ''Permintaan donor berhasil dibuat'' (DCreated (d_id r)),
           s\<lparr>donations := donations s @ [r], next_donation_id := next_donation_id s + 1\<rparr>))"

text \<open>\<open>UPDATE donation_history SET status = ?, notes = ? WHERE id = ?\<close>\<close>

definition set_status :: "row_id \<Rightarrow> status \<Rightarrow> string option \<Rightarrow> donation_row \<Rightarrow> donation_row" where
  "set_status i t n r = (if d_id r = i then r\<lparr>d_status := t, d_notes := n\<rparr> else r)"

text \<open>\<open>PUT /:id/status\<close>\<close>

definition update_donation_status ::
  "db \<Rightarrow> row_id \<Rightarrow> jval \<Rightarrow> jval \<Rightarrow> donation_data response \<times> db" where
  "update_donation_status s i st notes =
     (if \<not> js_includes valid_statuses st then (fail 400 ''Status tidak valid'', s)
      else case (status_of_jval st, sql_nullable_text notes) of
        (Some t, Some n) \<Rightarrow>
          (ok_msg 200 ''Status donor berhasil diupdate'',
           s\<lparr>donations := map (set_status i t n) (donations s)\<rparr>)
      | _ \<Rightarrow> (fail 500 ''Gagal mengupdate status donor'', s))"

text \<open>\<open>GET /:id\<close>: the row joined with its blood bank's and its user's names.\<close>

definition detail_join :: "db \<Rightarrow> row_id \<Rightarrow> (donation_row \<times> string \<times> string) list" where
  "detail_join s i =
     [(r, bb_name b, u_name u). r \<leftarrow> filter (\<lambda>r. d_id r = i) (donations s),
        b \<leftarrow> filter (\<lambda>b. bb_id b = d_bank_id r) (blood_banks s),
        u \<leftarrow> filter (\<lambda>u. u_id u = d_user_id r) (users s)]"

definition get_donation :: "db \<Rightarrow> row_id \<Rightarrow> donation_data response" where
  "get_donation s i =
     (case detail_join s i of
        [] \<Rightarrow> fail 404 ''Riwayat donor tidak ditemukan''
      | x # _ \<Rightarrow> ok_data 200 (DDetail x))"

text \<open>\<open>DELETE /:id\<close>: \<open>DELETE FROM donation_history WHERE id = ?\<close>, unconditionally.\<close>

definition delete_donation :: "db \<Rightarrow> row_id \<Rightarrow> donation_data response \<times> db" where
  "delete_donation s i =
     (ok_msg 200 ''Riwayat donor berhasil dihapus'',
      s\<lparr>donations := filter (\<lambda>r. d_id r \<noteq> i) (donations s)\<rparr>)"

section \<open>The router and its steps\<close>

datatype donation_req =
    ReqHistory row_id
  | ReqCreate create_body
  | ReqUpdateStatus row_id jval jval
  | ReqGet row_id
  | ReqDelete row_id

fun donation_handle :: "db \<Rightarrow> donation_req \<Rightarrow> donation_data response \<times> db" where
  "donation_handle s (ReqHistory u) = (get_user_donations s u, s)"
| "donation_handle s (ReqCreate b) = create_donation s b"
| "donation_handle s (ReqUpdateStatus i st n) = update_donation_status s i st n"
| "donation_handle s (ReqGet i) = (get_donation s i, s)"
| "donation_handle s (ReqDelete i) = delete_donation s i"

text \<open>
  Whether a request reaches the store: validation happens before the query,
  so a rejected body never meets a store failure.
\<close>

fun reaches_store :: "donation_req \<Rightarrow> bool" where
  "reaches_store (ReqCreate b) = required_present b"
| "reaches_store (ReqUpdateStatus _ st _) = js_includes valid_statuses st"
| "reaches_store _ = True"

fun fault_message :: "donation_req \<Rightarrow> string" where
  "fault_message (ReqHistory _) = ''Gagal mengambil riwayat donor''"
| "fault_message (ReqCreate _) = ''Gagal membuat permintaan donor''"
| "fault_message (ReqUpdateStatus _ _ _) = ''Gagal mengupdate status donor''"
| "fault_message (ReqGet _) = ''Gagal mengambil data donor''"
| "fault_message (ReqDelete _) = ''Gagal menghapus riwayat donor''"

text \<open>
  One request: the handler's result, or the store fails on the handler's single
  statement, which (being one statement) leaves the database unchanged, and the
  \<open>catch\<close> answers 500.
\<close>

inductive donation_step :: "db \<Rightarrow> donation_req \<Rightarrow> donation_data response \<Rightarrow> db \<Rightarrow> bool" where
  handled: "donation_handle s rq = (r, s') \<Longrightarrow> donation_step s rq r s'"
| store_fault: "reaches_store rq \<Longrightarrow> donation_step s rq (fail 500 (fault_message rq)) s"

inductive donation_reachable :: "db \<Rightarrow> bool" where
  init: "donation_reachable (initial_db us bs ss)"
| step: "donation_reachable s \<Longrightarrow> donation_step s rq r s' \<Longrightarrow> donation_reachable s'"

text \<open>
  The invariant of the table: identifiers are distinct, positive and below the
  \<open>AUTO_INCREMENT\<close> counter.
\<close>

definition donation_inv :: "db \<Rightarrow> bool" where
  "donation_inv s \<longleftrightarrow>
     0 < next_donation_id s \<and> distinct (map d_id (donations s)) \<and>
     (\<forall>r \<in> set (donations s). 0 < d_id r \<and> d_id r < next_donation_id s)"

inductive_cases donation_stepE: "donation_step s rq r s'"

text \<open>A small database used to run the theorems below on examples.\<close>

definition example_db :: db where
  "example_db =
     \<lparr>users = [\<lparr>u_id = 7, u_name = ''Sari'', u_email = ''sari@example.com'', u_password = ''h'',
                u_phone = ''0812'', u_blood_type = ''O+'', u_address = ''Bandung''\<rparr>],
      blood_banks = [\<lparr>bb_id = 3, bb_name = ''PMI Kota'', latitude = 0, longitude = 0, bb_address = ''Jl''\<rparr>],
      blood_stock = [],
      donations = [\<lparr>d_id = 1, d_user_id = 7, d_bank_id = 3, d_date = ''2024-01-05'',
        d_blood_type = ''O+'', d_quantity = 350, d_status = Completed, d_notes = None\<rparr>,
        \<lparr>d_id = 2, d_user_id = 8, d_bank_id = 3, d_date = ''2024-02-01'',
        d_blood_type = ''A+'', d_quantity = 250, d_status = Pending, d_notes = None\<rparr>,
        \<lparr>d_id = 3, d_user_id = 7, d_bank_id = 3, d_date = ''2024-03-01'',
        d_blood_type = ''O+'', d_quantity = 350, d_status = Pending, d_notes = None\<rparr>],
      next_user_id = 9, next_donation_id = 4\<rparr>"

section \<open>The table as a map\<close>

text \<open>
  The abstract view of the donation table: a map from request id to row, with
  the next \<open>AUTO_INCREMENT\<close> value. On it a create adds the new id, a status
  update rewrites the status and notes at one id, a delete removes one id, and
  reads change nothing; the validation and the store's conversions decide, as
  in the routes, whether a write happens.
\<close>

type_synonym donation_table = "(row_id \<rightharpoonup> donation_row) \<times> row_id"

definition donation_abs :: "db \<Rightarrow> donation_table" where
  "donation_abs s = (keyed d_id (donations s), next_donation_id s)"

fun donation_spec :: "donation_req \<Rightarrow> donation_table \<Rightarrow> donation_table" where
  "donation_spec (ReqCreate b) (m, n) =
     (if required_present b then
        (case donation_of_body n b of None \<Rightarrow> (m, n) | Some r \<Rightarrow> (m(n \<mapsto> r), n + 1))
      else (m, n))"
| "donation_spec (ReqUpdateStatus i st notes) (m, n) =
     (if js_includes valid_statuses st then
        (case (status_of_jval st, sql_nullable_text notes) of
           (Some t, Some x) \<Rightarrow> (m(i := map_option (\<lambda>r. r\<lparr>d_status := t, d_notes := x\<rparr>) (m i)), n)
         | _ \<Rightarrow> (m, n))
      else (m, n))"
| "donation_spec (ReqDelete i) (m, n) = (m(i := None), n)"
| "donation_spec (ReqHistory u) t = t"
| "donation_spec (ReqGet i) t = t"

section \<open>Lemmas on the building blocks\<close>

lemma status_of_name_status_name [simp]: "status_of_name (status_name t) = Some t"
  by (cases t) (simp_all add: status_of_name_def)

lemma js_includes_valid_statuses:
  "js_includes valid_statuses v \<longleftrightarrow> (\<exists>t. v = JStr (status_name t))"
proof
  assume "js_includes valid_statuses v"
  then obtain x where v: "v = JStr x" and "x \<in> set valid_statuses"
    by (cases v) (auto simp: js_includes_def)
  then have "x = status_name Pending \<or> x = status_name Approved \<or>
             x = status_name Rejected \<or> x = status_name Completed"
    by (auto simp: valid_statuses_def)
  with v show "\<exists>t. v = JStr (status_name t)" by blast
next
  assume "\<exists>t. v = JStr (status_name t)"
  then obtain t where "v = JStr (status_name t)" by blast
  then show "js_includes valid_statuses v"
    by (cases t) (simp_all add: js_includes_def valid_statuses_def)
qed

lemma status_of_jval_valid [simp]: "status_of_jval (JStr (status_name t)) = Some t"
  by (simp add: status_of_jval_def)

lemma d_id_set_status [simp]: "d_id (set_status i t n r) = d_id r"
  by (simp add: set_status_def)

lemma comp_d_id_set_status [simp]: "d_id \<circ> set_status i t n = d_id"
  by (rule ext) simp

lemma set_status_other [simp]: "d_id r \<noteq> i \<Longrightarrow> set_status i t n r = r"
  by (simp add: set_status_def)

lemma d_notes_set_status: "d_notes (set_status i t n r) = (if d_id r = i then n else d_notes r)"
  by (simp add: set_status_def)

lemma map_set_status_absent:
  "i \<notin> d_id ` set rs \<Longrightarrow> map (set_status i t n) rs = rs"
  by (induction rs) auto

lemma donation_of_body_Some:
  "donation_of_body i b = Some r \<Longrightarrow> d_id r = i \<and> d_status r = Pending"
  by (auto simp: donation_of_body_def split: bind_split_asm)

lemma update_valid_status:
  "update_donation_status s i (JStr (status_name t)) n =
     (case sql_nullable_text n of
        Some m \<Rightarrow> (ok_msg 200 ''Status donor berhasil diupdate'',
                   s\<lparr>donations := map (set_status i t m) (donations s)\<rparr>)
      | None \<Rightarrow> (fail 500 ''Gagal mengupdate status donor'', s))"
  by (auto simp: update_donation_status_def js_includes_valid_statuses split: option.split)

lemma wf_donation_handle: "wf_response (fst (donation_handle s rq))"
  by (cases rq) (simp_all add: get_user_donations_def create_donation_def update_donation_status_def
     get_donation_def delete_donation_def split: option.split list.split prod.split)

lemma donation_step_cases:
  assumes "donation_step s rq r s'"
  obtains "donation_handle s rq = (r, s')"
        | "reaches_store rq" "r = fail 500 (fault_message rq)" "s' = s"
  using assms by (auto elim: donation_stepE)

lemma donation_step_handle:
  "donation_step s rq (fst (donation_handle s rq)) (snd (donation_handle s rq))"
  by (rule donation_step.handled) simp

lemma donation_reachable_handle:
  "donation_reachable s \<Longrightarrow> donation_reachable (snd (donation_handle s rq))"
  by (erule donation_reachable.step) (rule donation_step_handle)

lemma create_donation_created:
  assumes "create_donation s b = (r, s')" and "data r = Some (DCreated k)"
  shows "k = next_donation_id s \<and> next_donation_id s' = next_donation_id s + 1 \<and>
         (\<exists>row. donations s' = donations s @ [row] \<and> d_id row = k \<and> d_status row = Pending)"
proof -
  from assms obtain row where "required_present b"
      and row: "donation_of_body (next_donation_id s) b = Some row"
    by (auto simp: create_donation_def fail_def split: if_splits option.splits)
  with assms have "k = d_id row"
      and "s' = s\<lparr>donations := donations s @ [row], next_donation_id := next_donation_id s + 1\<rparr>"
    by (auto simp: create_donation_def ok_msg_data_def)
  with donation_of_body_Some [OF row] show ?thesis by simp
qed

section \<open>The table invariant\<close>

lemma donation_inv_initial: "donation_inv (initial_db us bs ss)"
  by (simp add: donation_inv_def initial_db_def)

lemma create_donation_inv:
  assumes inv: "donation_inv s" and eq: "create_donation s b = (r, s')"
  shows "donation_inv s'"
proof (cases "required_present b \<and> donation_of_body (next_donation_id s) b \<noteq> None")
  case True
  then obtain row where row: "donation_of_body (next_donation_id s) b = Some row" by auto
  then have id: "d_id row = next_donation_id s" by (simp add: donation_of_body_Some)
  from True row eq have s': "s' = s\<lparr>donations := donations s @ [row],
                               next_donation_id := next_donation_id s + 1\<rparr>"
    by (simp add: create_donation_def)
  from inv id have "d_id row \<notin> set (map d_id (donations s))"
    by (auto simp: donation_inv_def)
  with inv id s' show ?thesis by (auto simp: donation_inv_def)
next
  case False
  with eq have "s' = s" by (auto simp: create_donation_def split: option.splits if_splits)
  with inv show ?thesis by simp
qed

lemma update_donation_status_inv:
  "donation_inv s \<Longrightarrow> update_donation_status s i st n = (r, s') \<Longrightarrow> donation_inv s'"
  by (auto simp: update_donation_status_def donation_inv_def split: option.splits prod.splits if_splits)

lemma delete_donation_inv:
  "donation_inv s \<Longrightarrow> delete_donation s i = (r, s') \<Longrightarrow> donation_inv s'"
  by (auto simp: delete_donation_def donation_inv_def filter_map_fst_distinct)

lemma donation_handle_inv:
  "donation_inv s \<Longrightarrow> donation_handle s rq = (r, s') \<Longrightarrow> donation_inv s'"
  by (cases rq) (auto intro: create_donation_inv update_donation_status_inv delete_donation_inv)

lemma donation_step_inv:
  "donation_step s rq r s' \<Longrightarrow> donation_inv s \<Longrightarrow> donation_inv s'"
  by (erule donation_step_cases) (auto intro: donation_handle_inv)

lemma reachable_donation_inv: "donation_reachable s \<Longrightarrow> donation_inv s"
proof (induction rule: donation_reachable.induct)
  case (init us bs ss)
  show ?case by (rule donation_inv_initial)
next
  case (step s rq r s')
  then show ?case by (blast intro: donation_step_inv)
qed

section \<open>Evaluation bundle\<close>

lemmas donation_defs [model_simps] =
  required_present_def donation_of_body_def history_join_def get_user_donations_def
  create_donation_def update_donation_status_def detail_join_def get_donation_def
  delete_donation_def initial_db_def js_includes_def status_of_jval_def valid_statuses_def

section \<open>Properties of the donation routes\<close>

text \<open>
  C1. A create request that is answered 201 appended exactly one row to the
  table, with the identifier the counter held and status \<open>pending\<close>, advanced
  the counter, and reported that identifier.
\<close>

theorem create_donation_pending:
  assumes "create_donation s b = (r, s')" and "http_status r = 201"
  shows "\<exists>row. donations s' = donations s @ [row] \<and> d_id row = next_donation_id s \<and>
           d_status row = Pending \<and> next_donation_id s' = next_donation_id s + 1 \<and>
           data r = Some (DCreated (next_donation_id s))"
proof -
  from assms obtain k where "data r = Some (DCreated k)"
    by (auto simp: create_donation_def fail_def ok_msg_data_def split: if_splits option.splits)
  with create_donation_created [OF assms(1) this] show ?thesis by auto
qed

theorem create_donation_pending_witness:
  "http_status (fst (create_donation (initial_db [] [] [])
      \<lparr>cb_user_id = JNum 1, cb_blood_bank_id = JNum 2, cb_donation_date = JStr ''2024-01-05'',
       cb_blood_type = JStr ''A+'', cb_quantity = JNum 350, cb_notes = JStr ''first''\<rparr>)) = 201 \<and>
   (\<exists>row. donations (snd (create_donation (initial_db [] [] [])
      \<lparr>cb_user_id = JNum 1, cb_blood_bank_id = JNum 2, cb_donation_date = JStr ''2024-01-05'',
       cb_blood_type = JStr ''A+'', cb_quantity = JNum 350, cb_notes = JStr ''first''\<rparr>)) = [row] \<and>
      d_id row = 1 \<and> d_status row = Pending)"
proof -
  let ?b = "\<lparr>cb_user_id = JNum 1, cb_blood_bank_id = JNum 2, cb_donation_date = JStr ''2024-01-05'',
       cb_blood_type = JStr ''A+'', cb_quantity = JNum 350, cb_notes = JStr ''first''\<rparr>"
  let ?s = "initial_db [] [] []"
  have eq: "create_donation ?s ?b = (fst (create_donation ?s ?b), snd (create_donation ?s ?b))"
    by simp
  have st: "http_status (fst (create_donation ?s ?b)) = 201"
    by (simp add: model_simps)
  show ?thesis
    using st create_donation_pending [OF eq st] by (auto simp: initial_db_def)
qed

text \<open>
  C2. A create request with a missing or falsy required field (an absent field,
  \<open>null\<close>, \<open>0\<close>, \<open>false\<close> or the empty string) is answered 400 and leaves the
  database unchanged; validation precedes the store, so not even a store
  failure can occur.
\<close>

theorem create_missing_field_rejected:
  assumes "\<not> required_present b" and "donation_step s (ReqCreate b) r s'"
  shows "s' = s \<and> r = fail 400 ''Data tidak lengkap''"
  using assms(2)
proof (rule donation_step_cases)
  assume "donation_handle s (ReqCreate b) = (r, s')"
  with assms(1) show ?thesis by (simp add: create_donation_def)
next
  assume "reaches_store (ReqCreate b)"
  with assms(1) show ?thesis by simp
qed

theorem create_missing_field_rejected_witness:
  "snd (create_donation (initial_db [] [] [])
      \<lparr>cb_user_id = JNum 1, cb_blood_bank_id = JNum 2, cb_donation_date = JStr ''2024-01-05'',
       cb_blood_type = JStr ''A+'', cb_quantity = JNum 0, cb_notes = JUndef\<rparr>) = initial_db [] [] [] \<and>
   fst (create_donation (initial_db [] [] [])
      \<lparr>cb_user_id = JNum 1, cb_blood_bank_id = JNum 2, cb_donation_date = JStr ''2024-01-05'',
       cb_blood_type = JStr ''A+'', cb_quantity = JNum 0, cb_notes = JUndef\<rparr>) = fail 400 ''Data tidak lengkap''"
proof -
  let ?b = "\<lparr>cb_user_id = JNum 1, cb_blood_bank_id = JNum 2, cb_donation_date = JStr ''2024-01-05'',
       cb_blood_type = JStr ''A+'', cb_quantity = JNum 0, cb_notes = JUndef\<rparr>"
  let ?s = "initial_db [] [] []"
  have np: "\<not> required_present ?b" by (simp add: required_present_def)
  have "donation_step ?s (ReqCreate ?b) (fst (create_donation ?s ?b)) (snd (create_donation ?s ?b))"
    by (intro donation_step.handled) simp
  from create_missing_field_rejected [OF np this] show ?thesis by simp
qed

text \<open>
  C3. A status update whose status is not one of the four valid strings is
  answered 400 and leaves the database unchanged (no store failure can
  intervene, the check precedes the query).
\<close>

theorem update_invalid_status_rejected:
  assumes "\<not> js_includes valid_statuses st" and "donation_step s (ReqUpdateStatus i st n) r s'"
  shows "s' = s \<and> r = fail 400 ''Status tidak valid''"
  using assms(2)
proof (rule donation_step_cases)
  assume "donation_handle s (ReqUpdateStatus i st n) = (r, s')"
  with assms(1) show ?thesis by (simp add: update_donation_status_def)
next
  assume "reaches_store (ReqUpdateStatus i st n)"
  with assms(1) show ?thesis by simp
qed

theorem update_invalid_status_rejected_witness:
  "snd (update_donation_status (initial_db [] [] []) 1 (JStr ''invalid_value'') JUndef) = initial_db [] [] [] \<and>
   fst (update_donation_status (initial_db [] [] []) 1 (JStr ''invalid_value'') JUndef) = fail 400 ''Status tidak valid''"
proof -
  let ?s = "initial_db [] [] []"
  have ni: "\<not> js_includes valid_statuses (JStr ''invalid_value'')"
    by (simp add: js_includes_def valid_statuses_def)
  have "donation_step ?s (ReqUpdateStatus 1 (JStr ''invalid_value'') JUndef)
          (fst (update_donation_status ?s 1 (JStr ''invalid_value'') JUndef))
          (snd (update_donation_status ?s 1 (JStr ''invalid_value'') JUndef))"
    by (intro donation_step.handled) simp
  from update_invalid_status_rejected [OF ni this] show ?thesis by simp
qed

text \<open>
  C4. The status update does not look at the current status: for a row with the
  given id, any valid target status is written, whatever the row's status was
  (a \<open>completed\<close> or \<open>rejected\<close> request can be moved back to \<open>pending\<close>), and
  the notes are overwritten with the request's notes.
\<close>

theorem update_status_ignores_current:
  assumes "x \<in> set (donations s)" and "d_id x = i" and "sql_nullable_text n = Some m"
    and "update_donation_status s i (JStr (status_name t)) n = (r, s')"
  shows "http_status r = 200 \<and> x\<lparr>d_status := t, d_notes := m\<rparr> \<in> set (donations s')"
proof -
  from assms(3,4) have "r = ok_msg 200 ''Status donor berhasil diupdate''"
      and s': "s' = s\<lparr>donations := map (set_status i t m) (donations s)\<rparr>"
    by (simp_all add: update_valid_status)
  moreover have "set_status i t m x \<in> set (map (set_status i t m) (donations s))"
    using assms(1) by simp
  ultimately show ?thesis using assms(2) by (simp add: set_status_def ok_msg_def)
qed

theorem update_status_ignores_current_witness:
  "http_status (fst (update_donation_status
      ((initial_db [] [] [])\<lparr>donations := [\<lparr>d_id = 1, d_user_id = 1, d_bank_id = 1,
         d_date = ''2024-01-05'', d_blood_type = ''A+'', d_quantity = 350, d_status = Completed,
         d_notes = None\<rparr>]\<rparr>) 1 (JStr (status_name Pending)) JUndef)) = 200 \<and>
   \<lparr>d_id = 1, d_user_id = 1, d_bank_id = 1, d_date = ''2024-01-05'', d_blood_type = ''A+'',
      d_quantity = 350, d_status = Pending, d_notes = None\<rparr> \<in>
   set (donations (snd (update_donation_status
      ((initial_db [] [] [])\<lparr>donations := [\<lparr>d_id = 1, d_user_id = 1, d_bank_id = 1,
         d_date = ''2024-01-05'', d_blood_type = ''A+'', d_quantity = 350, d_status = Completed,
         d_notes = None\<rparr>]\<rparr>) 1 (JStr (status_name Pending)) JUndef)))"
proof -
  let ?x = "\<lparr>d_id = 1, d_user_id = 1, d_bank_id = 1, d_date = ''2024-01-05'', d_blood_type = ''A+'',
      d_quantity = 350, d_status = Completed, d_notes = None\<rparr>"
  let ?s = "(initial_db [] [] [])\<lparr>donations := [?x]\<rparr>"
  have "?x \<in> set (donations ?s)" by simp
  from update_status_ignores_current [OF this _ _ prod.collapse [symmetric], of 1 JUndef None Pending]
  show ?thesis by simp
qed

text \<open>
  C25. The history of a user refines the contract of its query: it is answered
  200 with the user's rows joined with their blood bank's name, every row of the
  user whose blood bank exists appears with that name, and the list satisfies
  \<open>ORDER BY donation_date DESC\<close> (same rows, newest first).
\<close>

theorem user_history_refines:
  "\<exists>xs. get_user_donations s u = ok_data 200 (DHistory xs) \<and>
     order_by_desc (\<lambda>x. d_date (fst x)) (history_join s u) xs \<and>
     (\<forall>x \<in> set xs. fst x \<in> set (donations s) \<and> d_user_id (fst x) = u) \<and>
     (\<forall>r \<in> set (donations s). \<forall>b \<in> set (blood_banks s).
        d_user_id r = u \<and> bb_id b = d_bank_id r \<longrightarrow> (r, bb_name b) \<in> set xs)"
proof -
  let ?xs = "sort_desc (\<lambda>x. d_date (fst x)) (history_join s u)"
  have "set (history_join s u) =
          {(r, bb_name b) | r b. r \<in> set (donations s) \<and> b \<in> set (blood_banks s) \<and>
                                 d_user_id r = u \<and> bb_id b = d_bank_id r}"
    by (auto simp: history_join_def)
  then show ?thesis
    by (intro exI [of _ ?xs]) (auto simp: get_user_donations_def sort_desc_order_by_desc)
qed

theorem user_history_refines_witness:
  "get_user_donations example_db 7 =
     ok_data 200 (DHistory [(\<lparr>d_id = 3, d_user_id = 7, d_bank_id = 3, d_date = ''2024-03-01'',
        d_blood_type = ''O+'', d_quantity = 350, d_status = Pending, d_notes = None\<rparr>, ''PMI Kota''),
      (\<lparr>d_id = 1, d_user_id = 7, d_bank_id = 3, d_date = ''2024-01-05'',
        d_blood_type = ''O+'', d_quantity = 350, d_status = Completed, d_notes = None\<rparr>, ''PMI Kota'')]) \<and>
   order_by_desc (\<lambda>x. d_date (fst x)) (history_join example_db 7)
     [(\<lparr>d_id = 3, d_user_id = 7, d_bank_id = 3, d_date = ''2024-03-01'',
        d_blood_type = ''O+'', d_quantity = 350, d_status = Pending, d_notes = None\<rparr>, ''PMI Kota''),
      (\<lparr>d_id = 1, d_user_id = 7, d_bank_id = 3, d_date = ''2024-01-05'',
        d_blood_type = ''O+'', d_quantity = 350, d_status = Completed, d_notes = None\<rparr>, ''PMI Kota'')]"
proof -
  let ?L = "[(\<lparr>d_id = 3, d_user_id = 7, d_bank_id = 3, d_date = ''2024-03-01'',
        d_blood_type = ''O+'', d_quantity = 350, d_status = Pending, d_notes = None\<rparr>, ''PMI Kota''),
      (\<lparr>d_id = 1, d_user_id = 7, d_bank_id = 3, d_date = ''2024-01-05'',
        d_blood_type = ''O+'', d_quantity = 350, d_status = Completed, d_notes = None\<rparr>, ''PMI Kota'')]"
  have eq: "get_user_donations example_db 7 = ok_data 200 (DHistory ?L)"
    by (simp add: get_user_donations_def history_join_def example_db_def)
  from user_history_refines [of example_db 7] obtain xs
    where "get_user_donations example_db 7 = ok_data 200 (DHistory xs)"
      and ord: "order_by_desc (\<lambda>x. d_date (fst x)) (history_join example_db 7) xs"
    by blast
  with eq have "xs = ?L" by (simp add: ok_data_def)
  with eq ord show ?thesis by simp
qed

text \<open>
  The detail view of an existing request whose blood bank and user exist
  (identifiers being primary keys) is answered 200 with that row and the two
  names.
\<close>

theorem get_donation_found:
  assumes "distinct (map d_id (donations s))" and "distinct (map bb_id (blood_banks s))"
    and "distinct (map u_id (users s))"
    and "x \<in> set (donations s)" and "b \<in> set (blood_banks s)" and "u \<in> set (users s)"
    and "bb_id b = d_bank_id x" and "u_id u = d_user_id x"
  shows "get_donation s (d_id x) = ok_data 200 (DDetail (x, bb_name b, u_name u))"
proof -
  have "filter (\<lambda>r. d_id r = d_id x) (donations s) = [x]"
    using assms(1,4) by (rule filter_unique_key)
  moreover have "filter (\<lambda>c. bb_id c = d_bank_id x) (blood_banks s) = [b]"
    using assms(2,5,7) by (rule filter_unique_key')
  moreover have "filter (\<lambda>v. u_id v = d_user_id x) (users s) = [u]"
    using assms(3,6,8) by (rule filter_unique_key')
  ultimately show ?thesis by (simp add: get_donation_def detail_join_def)
qed

theorem get_donation_found_witness:
  "get_donation example_db 1 =
   ok_data 200 (DDetail (\<lparr>d_id = 1, d_user_id = 7, d_bank_id = 3, d_date = ''2024-01-05'',
        d_blood_type = ''O+'', d_quantity = 350, d_status = Completed, d_notes = None\<rparr>,
        ''PMI Kota'', ''Sari''))"
  using get_donation_found [of example_db "\<lparr>d_id = 1, d_user_id = 7, d_bank_id = 3, d_date = ''2024-01-05'',
        d_blood_type = ''O+'', d_quantity = 350, d_status = Completed, d_notes = None\<rparr>"
    "\<lparr>bb_id = 3, bb_name = ''PMI Kota'', latitude = 0, longitude = 0, bb_address = ''Jl''\<rparr>"
    "\<lparr>u_id = 7, u_name = ''Sari'', u_email = ''sari@example.com'', u_password = ''h'',
       u_phone = ''0812'', u_blood_type = ''O+'', u_address = ''Bandung''\<rparr>"]
  by (simp add: example_db_def)

text \<open>
  Delete removes the row with the given id whatever its status (a
  \<open>completed\<close> or \<open>approved\<close> record included), keeps every other row, and
  reports success.
\<close>

theorem delete_removes_any_status:
  assumes "x \<in> set (donations s)" and "delete_donation s (d_id x) = (r, s')"
  shows "success r = Some True \<and> x \<notin> set (donations s') \<and>
         (\<forall>y \<in> set (donations s). d_id y \<noteq> d_id x \<longrightarrow> y \<in> set (donations s'))"
  using assms by (auto simp: delete_donation_def ok_msg_def)

theorem delete_removes_any_status_witness:
  "success (fst (delete_donation ((initial_db [] [] [])\<lparr>donations := [\<lparr>d_id = 1, d_user_id = 1,
      d_bank_id = 1, d_date = ''2024-01-05'', d_blood_type = ''A+'', d_quantity = 350,
      d_status = Completed, d_notes = None\<rparr>]\<rparr>) 1)) = Some True \<and>
   \<lparr>d_id = 1, d_user_id = 1, d_bank_id = 1, d_date = ''2024-01-05'', d_blood_type = ''A+'',
      d_quantity = 350, d_status = Completed, d_notes = None\<rparr> \<notin>
   set (donations (snd (delete_donation ((initial_db [] [] [])\<lparr>donations := [\<lparr>d_id = 1, d_user_id = 1,
      d_bank_id = 1, d_date = ''2024-01-05'', d_blood_type = ''A+'', d_quantity = 350,
      d_status = Completed, d_notes = None\<rparr>]\<rparr>) 1)))"
proof -
  let ?x = "\<lparr>d_id = 1, d_user_id = 1, d_bank_id = 1, d_date = ''2024-01-05'', d_blood_type = ''A+'',
      d_quantity = 350, d_status = Completed, d_notes = None\<rparr>"
  let ?s = "(initial_db [] [] [])\<lparr>donations := [?x]\<rparr>"
  have "?x \<in> set (donations ?s)" by simp
  from delete_removes_any_status [OF this prod.collapse [symmetric]] show ?thesis by simp
qed

text \<open>
  Deleting an id that no row has still answers 200 with the success
  message, and changes nothing: the route never reports "not found".
\<close>

theorem delete_missing_succeeds:
  assumes "i \<notin> d_id ` set (donations s)"
  shows "delete_donation s i = (ok_msg 200 ''Riwayat donor berhasil dihapus'', s)"
  using assms by (simp add: delete_donation_def filter_absent_key)

theorem delete_missing_succeeds_witness:
  "delete_donation (initial_db [] [] []) 42 =
     (ok_msg 200 ''Riwayat donor berhasil dihapus'', initial_db [] [] [])"
  by (rule delete_missing_succeeds) (simp add: initial_db_def)

text \<open>
  Updating the status of an id that no row has answers 200 with the
  success message and changes nothing: the route never reports "not found".
\<close>

theorem update_missing_succeeds:
  assumes "i \<notin> d_id ` set (donations s)" and "sql_nullable_text n = Some m"
  shows "update_donation_status s i (JStr (status_name t)) n =
           (ok_msg 200 ''Status donor berhasil diupdate'', s)"
  using assms by (simp add: update_valid_status map_set_status_absent)

theorem update_missing_succeeds_witness:
  "update_donation_status (initial_db [] [] []) 42 (JStr (status_name Approved)) JUndef =
     (ok_msg 200 ''Status donor berhasil diupdate'', initial_db [] [] [])"
  by (rule update_missing_succeeds) (simp_all add: initial_db_def)

text \<open>
  C28. A status update that carries no notes erases the notes the request had:
  \<open>notes = ?\<close> is bound to \<open>undefined\<close>, which the store writes as NULL.
\<close>

theorem update_clears_notes:
  assumes "update_donation_status s i st JUndef = (r, s')" and "http_status r = 200"
  shows "\<forall>x \<in> set (donations s'). d_id x = i \<longrightarrow> d_notes x = None"
proof -
  from assms have "js_includes valid_statuses st"
    by (auto simp: update_donation_status_def fail_def split: if_splits)
  then obtain t where "st = JStr (status_name t)"
    by (auto simp: js_includes_valid_statuses)
  with assms(1) have "s' = s\<lparr>donations := map (set_status i t None) (donations s)\<rparr>"
    by (simp add: update_valid_status)
  then show ?thesis by (auto simp: d_notes_set_status)
qed

theorem update_clears_notes_witness:
  "http_status (fst (update_donation_status ((initial_db [] [] [])\<lparr>donations := [\<lparr>d_id = 1,
      d_user_id = 1, d_bank_id = 1, d_date = ''2024-01-05'', d_blood_type = ''A+'', d_quantity = 350,
      d_status = Pending, d_notes = Some ''bring ID''\<rparr>]\<rparr>) 1 (JStr (status_name Approved)) JUndef)) = 200 \<and>
   map d_notes (donations (snd (update_donation_status ((initial_db [] [] [])\<lparr>donations := [\<lparr>d_id = 1,
      d_user_id = 1, d_bank_id = 1, d_date = ''2024-01-05'', d_blood_type = ''A+'', d_quantity = 350,
      d_status = Pending, d_notes = Some ''bring ID''\<rparr>]\<rparr>) 1 (JStr (status_name Approved)) JUndef))) =
     [None]"
proof -
  let ?s = "((initial_db [] [] [])\<lparr>donations := [\<lparr>d_id = 1,
      d_user_id = 1, d_bank_id = 1, d_date = ''2024-01-05'', d_blood_type = ''A+'', d_quantity = 350,
      d_status = Pending, d_notes = Some ''bring ID''\<rparr>]\<rparr>)"
  let ?u = "update_donation_status ?s 1 (JStr (status_name Approved)) JUndef"
  have st: "http_status (fst ?u) = 200"
    by (simp only: update_valid_status) (simp add: ok_msg_def)
  have ids: "map d_id (donations (snd ?u)) = [1]"
    by (simp only: update_valid_status) simp
  then obtain x where xs: "donations (snd ?u) = [x]" and "d_id x = 1"
    by (auto simp: map_eq_Cons_conv)
  moreover from update_clears_notes [OF prod.collapse [symmetric] st]
  have "\<forall>y \<in> set (donations (snd ?u)). d_id y = 1 \<longrightarrow> d_notes y = None" .
  ultimately have "d_notes x = None" by simp
  with st xs show ?thesis by simp
qed

text \<open>
  A quantity sent as the string \<open>"0"\<close> (as an urlencoded form sends every
  field) is truthy, passes validation, and is stored as a donation of 0 ml.
\<close>

theorem create_zero_quantity_text:
  "create_donation s
      \<lparr>cb_user_id = JNum 1, cb_blood_bank_id = JNum 1, cb_donation_date = JStr ''2024-01-05'',
       cb_blood_type = JStr ''A+'', cb_quantity = JStr ''0'', cb_notes = JUndef\<rparr> =
   (ok_msg_data 201 ''Permintaan donor berhasil dibuat'' (DCreated (next_donation_id s)),
    s\<lparr>donations := donations s @ [\<lparr>d_id = next_donation_id s, d_user_id = 1, d_bank_id = 1,
         d_date = ''2024-01-05'', d_blood_type = ''A+'', d_quantity = 0, d_status = Pending,
         d_notes = None\<rparr>],
      next_donation_id := next_donation_id s + 1\<rparr>)"
  by (simp add: create_donation_def required_present_def donation_of_body_def parse_int_text_defs)

text \<open>
  In every reachable database, the identifier a successful create reports
  is fresh before the request and names the new row after it.
\<close>

theorem created_id_fresh:
  assumes "donation_reachable s" and "create_donation s b = (r, s')"
    and "data r = Some (DCreated k)"
  shows "k \<notin> d_id ` set (donations s) \<and> k \<in> d_id ` set (donations s')"
proof -
  from reachable_donation_inv [OF assms(1)]
  have "\<forall>x \<in> set (donations s). d_id x < next_donation_id s" by (simp add: donation_inv_def)
  moreover from create_donation_created [OF assms(2,3)]
  obtain row where "k = next_donation_id s" and "donations s' = donations s @ [row]" and "d_id row = k"
    by blast
  ultimately show ?thesis by force
qed

theorem created_id_fresh_witness:
  "1 \<notin> d_id ` set (donations (initial_db [] [] [])) \<and>
   1 \<in> d_id ` set (donations (snd (create_donation (initial_db [] [] [])
      \<lparr>cb_user_id = JNum 1, cb_blood_bank_id = JNum 2, cb_donation_date = JStr ''2024-01-05'',
       cb_blood_type = JStr ''A+'', cb_quantity = JNum 350, cb_notes = JUndef\<rparr>)))"
proof -
  let ?b = "\<lparr>cb_user_id = JNum 1, cb_blood_bank_id = JNum 2, cb_donation_date = JStr ''2024-01-05'',
       cb_blood_type = JStr ''A+'', cb_quantity = JNum 350, cb_notes = JUndef\<rparr>"
  let ?s = "initial_db [] [] []"
  have "data (fst (create_donation ?s ?b)) = Some (DCreated 1)"
    by (simp add: create_donation_def required_present_def donation_of_body_def initial_db_def
                  ok_msg_data_def)
  from created_id_fresh [OF donation_reachable.init prod.collapse [symmetric] this] show ?thesis .
qed

lemma donation_handle_abs:
  assumes "donation_inv s"
  shows "donation_abs (snd (donation_handle s rq)) = donation_spec rq (donation_abs s)"
proof (cases rq)
  case (ReqCreate b)
  show ?thesis
  proof (cases "required_present b \<and> donation_of_body (next_donation_id s) b \<noteq> None")
    case True
    then obtain row where row: "donation_of_body (next_donation_id s) b = Some row" by auto
    then have id: "d_id row = next_donation_id s" by (simp add: donation_of_body_Some)
    with assms have "d_id row \<notin> d_id ` set (donations s)" by (auto simp: donation_inv_def)
    with True row id ReqCreate show ?thesis
      by (simp add: create_donation_def donation_abs_def keyed_snoc)
  next
    case False
    with ReqCreate show ?thesis
      by (auto simp: create_donation_def donation_abs_def split: option.split)
  qed
next
  case (ReqUpdateStatus i st nt)
  have "keyed d_id (map (set_status i t x) rs) =
          (keyed d_id rs)(i := map_option (\<lambda>r. r\<lparr>d_status := t, d_notes := x\<rparr>) (keyed d_id rs i))"
    for t x rs
  proof -
    have "keyed d_id rs i = Some r \<Longrightarrow> d_id r = i" for r
      by (induction rs) (auto split: if_splits)
    then show ?thesis
      by (subst keyed_map_at_key [where i = i]) (auto simp: set_status_def fun_eq_iff intro: option.map_cong)
  qed
  with ReqUpdateStatus show ?thesis
    by (simp add: update_donation_status_def donation_abs_def split: option.split)
qed (simp_all add: donation_abs_def delete_donation_def keyed_filter_key)

text \<open>
  C10. Data refinement: on a table satisfying its invariant, every donation
  request changes the rows exactly as the abstract map operation does (the
  list of rows read as a map from id to row), and the counter as the
  abstract counter.
\<close>

theorem donation_handle_refines:
  assumes "donation_inv s"
  shows "donation_abs (snd (donation_handle s rq)) = donation_spec rq (donation_abs s)"
  using assms by (rule donation_handle_abs)

theorem donation_handle_refines_witness:
  "donation_abs (snd (donation_handle example_db (ReqDelete 2))) =
     donation_spec (ReqDelete 2) (donation_abs example_db)"
  by (rule donation_handle_refines) (simp add: example_db_def donation_inv_def)

text \<open>
  C29. What the create route does not validate: a request with any non-empty
  blood type (the eight ABO/Rh types are never checked) and any non-zero
  quantity, negative ones included, is stored as sent; a quantity sent as the
  string \<open>"0"\<close> is truthy and stored as 0 ml; a non-numeric quantity passes
  the route's validation and is answered 500 by the store's rejection rather
  than 400.
\<close>

theorem create_validation_gaps:
  assumes "bt \<noteq> []" and "q \<noteq> 0"
  shows "create_donation s
      \<lparr>cb_user_id = JNum 1, cb_blood_bank_id = JNum 1, cb_donation_date = JStr ''2024-01-05'',
       cb_blood_type = JStr bt, cb_quantity = JNum q, cb_notes = JUndef\<rparr> =
    (ok_msg_data 201 ''Permintaan donor berhasil dibuat'' (DCreated (next_donation_id s)),
     s\<lparr>donations := donations s @ [\<lparr>d_id = next_donation_id s, d_user_id = 1, d_bank_id = 1,
          d_date = ''2024-01-05'', d_blood_type = bt, d_quantity = q, d_status = Pending,
          d_notes = None\<rparr>],
       next_donation_id := next_donation_id s + 1\<rparr>) \<and>
    create_donation s
      \<lparr>cb_user_id = JNum 1, cb_blood_bank_id = JNum 1, cb_donation_date = JStr ''2024-01-05'',
       cb_blood_type = JStr bt, cb_quantity = JStr ''0'', cb_notes = JUndef\<rparr> =
    (ok_msg_data 201 ''Permintaan donor berhasil dibuat'' (DCreated (next_donation_id s)),
     s\<lparr>donations := donations s @ [\<lparr>d_id = next_donation_id s, d_user_id = 1, d_bank_id = 1,
          d_date = ''2024-01-05'', d_blood_type = bt, d_quantity = 0, d_status = Pending,
          d_notes = None\<rparr>],
       next_donation_id := next_donation_id s + 1\<rparr>) \<and>
    create_donation s
      \<lparr>cb_user_id = JNum 1, cb_blood_bank_id = JNum 1, cb_donation_date = JStr ''2024-01-05'',
       cb_blood_type = JStr bt, cb_quantity = JStr ''abc'', cb_notes = JUndef\<rparr> =
    (fail 500 ''Gagal membuat permintaan donor'', s)"
  using assms
  by (simp add: create_donation_def required_present_def donation_of_body_def
                parse_int_text_defs)

theorem create_validation_gaps_witness:
  "create_donation example_db
      \<lparr>cb_user_id = JNum 1, cb_blood_bank_id = JNum 1, cb_donation_date = JStr ''2024-01-05'',
       cb_blood_type = JStr ''XYZ'', cb_quantity = JNum (-5), cb_notes = JUndef\<rparr> =
   (ok_msg_data 201 ''Permintaan donor berhasil dibuat'' (DCreated 4),
    example_db\<lparr>donations := donations example_db @ [\<lparr>d_id = 4, d_user_id = 1, d_bank_id = 1,
         d_date = ''2024-01-05'', d_blood_type = ''XYZ'', d_quantity = -5, d_status = Pending,
         d_notes = None\<rparr>],
      next_donation_id := 5\<rparr>)"
  using create_validation_gaps [of "''XYZ''" "-5" example_db]
  by (simp add: example_db_def)

text \<open>
  C27. An id that no row has is not an error for the writes: the status update
  and the delete both answer 200 with their success message and change
  nothing, where the specification lists NotFound.
\<close>

theorem missing_id_reports_success:
  assumes "i \<notin> d_id ` set (donations s)" and "sql_nullable_text n = Some m"
  shows "update_donation_status s i (JStr (status_name t)) n =
           (ok_msg 200 ''Status donor berhasil diupdate'', s) \<and>
         delete_donation s i = (ok_msg 200 ''Riwayat donor berhasil dihapus'', s)"
  using assms by (simp add: update_valid_status map_set_status_absent delete_donation_def filter_absent_key)

theorem missing_id_reports_success_witness:
  "update_donation_status example_db 42 (JStr (status_name Completed)) JNull =
     (ok_msg 200 ''Status donor berhasil diupdate'', example_db) \<and>
   delete_donation example_db 42 = (ok_msg 200 ''Riwayat donor berhasil dihapus'', example_db)"
  by (rule missing_id_reports_success) (simp_all add: example_db_def)

end
