(* ===== verification/BloodBanks.thy ===== *)
theory BloodBanks
  imports Store
begin

text \<open>
  The blood-bank routes of \<open>routes/bloodBanks.js\<close>: \<open>calculateDistance\<close> (the
  haversine formula over reals, JavaScript's doubles taken as exact), the list
  of blood banks optionally ranked by distance from the user, the detail view
  with its stock, and the stock list. \<open>parseFloat\<close>, which the list route
  applies to the query parameters, is modelled on the decimal notation
  (white space, sign, digits, fraction, exponent); \<open>None\<close> is \<open>NaN\<close>.
\<close>

section \<open>Distance\<close>

text \<open>
  \<open>Math.atan2\<close> as ECMAScript defines it on non-zero-signed reals.
\<close>

definition js_atan2 :: "real \<Rightarrow> real \<Rightarrow> real" where
  "js_atan2 y x =
     (if 0 < x then arctan (y / x)
      else if x < 0 then (if 0 \<le> y then arctan (y / x) + pi else arctan (y / x) - pi)
      else if 0 < y then pi / 2 else if y < 0 then - (pi / 2) else 0)"

text \<open>The haversine term \<open>a\<close> of \<open>calculateDistance\<close>.\<close>

definition haversine_a :: "real \<Rightarrow> real \<Rightarrow> real \<Rightarrow> real \<Rightarrow> real" where
  "haversine_a lat1 lon1 lat2 lon2 =
     (let dLat = (lat2 - lat1) * pi / 180; dLon = (lon2 - lon1) * pi / 180
      in sin (dLat / 2) * sin (dLat / 2) +
         cos (lat1 * pi / 180) * cos (lat2 * pi / 180) * sin (dLon / 2) * sin (dLon / 2))"

text \<open>\<open>calculateDistance(lat1, lon1, lat2, lon2)\<close>, Earth radius 6371 km.\<close>

definition calculate_distance :: "real \<Rightarrow> real \<Rightarrow> real \<Rightarrow> real \<Rightarrow> real" where
  "calculate_distance lat1 lon1 lat2 lon2 =
     (let r = 6371; a = haversine_a lat1 lon1 lat2 lon2;
          c = 2 * js_atan2 (sqrt a) (sqrt (1 - a))
      in r * c)"

section \<open>parseFloat\<close>

text \<open>
  \<open>parseFloat\<close> skips leading white space (the ASCII and Latin-1 white space
  characters of ECMAScript), reads an optional sign, a decimal literal with an
  optional fraction and an optional exponent, and ignores the rest; \<open>NaN\<close>
  (here \<open>None\<close>) when no digit is read. A literal \<open>Infinity\<close> is parsed by
  JavaScript as an infinite number, from which \<open>calculateDistance\<close> computes
  \<open>NaN\<close> for every bank; it is modelled as \<open>None\<close>, which gives the route the
  same result.
\<close>

definition js_space :: "char \<Rightarrow> bool" where
  "js_space c \<longleftrightarrow> (of_char c :: nat) \<in> {9, 10, 11, 12, 13, 32, 160}"

fun take_digits :: "string \<Rightarrow> nat \<times> nat \<times> string" where
  "take_digits [] = (0, 0, [])"
| "take_digits (c # cs) =
     (case digit_val c of
        None \<Rightarrow> (0, 0, c # cs)
      | Some d \<Rightarrow> (case take_digits cs of (v, n, r) \<Rightarrow> (d * 10 ^ n + v, Suc n, r)))"

definition js_sign :: "string \<Rightarrow> int \<times> string" where
  "js_sign s = (case s of CHR ''-'' # t \<Rightarrow> (-1, t) | CHR ''+'' # t \<Rightarrow> (1, t) | _ \<Rightarrow> (1, s))"

text \<open>The exponent part \<open>e\<close>/\<open>E\<close>, sign, digits; 0 when absent or without digits.\<close>

definition parse_exponent :: "string \<Rightarrow> int" where
  "parse_exponent r =
     (case r of
        c # t \<Rightarrow>
          if c = CHR ''e'' \<or> c = CHR ''E'' then
            (case js_sign t of (sg, t') \<Rightarrow>
               (case take_digits t' of (v, n, _) \<Rightarrow> if n = 0 then 0 else sg * int v))
          else 0
      | [] \<Rightarrow> 0)"

definition scale10 :: "real \<Rightarrow> int \<Rightarrow> real" where
  "scale10 x e = (if 0 \<le> e then x * 10 ^ nat e else x / 10 ^ nat (- e))"

definition parse_float :: "string \<Rightarrow> real option" where
  "parse_float s =
     (case js_sign (dropWhile js_space s) of (sg, s1) \<Rightarrow>
        if take 8 s1 = ''Infinity'' then None
        else case take_digits s1 of (ip, ni, r1) \<Rightarrow>
          (case (case r1 of CHR ''.'' # t \<Rightarrow> take_digits t | _ \<Rightarrow> (0, 0, r1)) of (fp, nf, r2) \<Rightarrow>
             if ni + nf = 0 then None
             else Some (scale10 (real_of_int sg * (real ip + real fp / 10 ^ nf)) (parse_exponent r2))))"

section \<open>Routes\<close>

text \<open>
  The \<open>distance\<close> field of a listed bank: absent (no location given), \<open>NaN\<close>
  (the location did not parse; JSON prints it as \<open>null\<close>), or a number.
\<close>

datatype bank_dist = NoDistance | DistNaN | Dist real

datatype bank_data =
    BList "(bank_row \<times> bank_dist) list"
  | BDetail "bank_row \<times> (string \<times> int) list"
  | BStock "stock_row list"

text \<open>
  The distances as JavaScript numbers: a real, or \<open>NaN\<close> (\<open>None\<close>). Every
  arithmetic operation and every \<open>Math\<close> function of \<open>calculateDistance\<close>
  gives \<open>NaN\<close> on a \<open>NaN\<close> argument, so the distance from a user location
  with an unparsed coordinate is \<open>NaN\<close>. The bank's own coordinates are
  \<open>parseFloat\<close> of the stored decimal value, which is that value.
\<close>

definition js_distance :: "real option \<Rightarrow> real option \<Rightarrow> real \<Rightarrow> real \<Rightarrow> real option" where
  "js_distance ula ulo lat lon =
     (case (ula, ulo) of (Some a, Some b) \<Rightarrow> Some (calculate_distance a b lat lon) | _ \<Rightarrow> None)"

text \<open>\<open>a.distance - b.distance\<close>: \<open>NaN\<close> when either is \<open>NaN\<close>.\<close>

definition js_sub :: "real option \<Rightarrow> real option \<Rightarrow> real option" where
  "js_sub x y = (case (x, y) of (Some a, Some b) \<Rightarrow> Some (a - b) | _ \<Rightarrow> None)"

text \<open>
  \<open>Array.prototype.sort(comparefn)\<close>: a comparator result of \<open>NaN\<close> counts as
  \<open>+0\<close> (SortCompare), and the sort is stable (ES2019). For a consistent
  comparator every stable sort gives the same result, here an insertion sort
  that puts an element before the first later one it does not exceed.
\<close>

definition cmp_le :: "real option \<Rightarrow> bool" where
  "cmp_le v = (case v of None \<Rightarrow> True | Some d \<Rightarrow> d \<le> 0)"

fun js_insort :: "('a \<Rightarrow> 'a \<Rightarrow> real option) \<Rightarrow> 'a \<Rightarrow> 'a list \<Rightarrow> 'a list" where
  "js_insort cmp x [] = [x]"
| "js_insort cmp x (y # ys) = (if cmp_le (cmp x y) then x # y # ys else y # js_insort cmp x ys)"

definition js_sort :: "('a \<Rightarrow> 'a \<Rightarrow> real option) \<Rightarrow> 'a list \<Rightarrow> 'a list" where
  "js_sort cmp xs = foldr (js_insort cmp) xs []"

text \<open>
  \<open>bloodBanks.forEach(bank => bank.distance = \<dots>)\<close> followed by
  \<open>bloodBanks.sort((a, b) => a.distance - b.distance)\<close>.
\<close>

definition rank_banks :: "(bank_row \<Rightarrow> real option) \<Rightarrow> bank_row list \<Rightarrow> (bank_row \<times> real option) list" where
  "rank_banks key banks = js_sort (\<lambda>x y. js_sub (snd x) (snd y)) (map (\<lambda>b. (b, key b)) banks)"

text \<open>The \<open>distance\<close> field in the JSON: \<open>NaN\<close> is printed as \<open>null\<close>.\<close>

definition with_distance :: "(bank_row \<times> real option) list \<Rightarrow> (bank_row \<times> bank_dist) list" where
  "with_distance ys = map (\<lambda>(b, d). (b, case d of None \<Rightarrow> DistNaN | Some x \<Rightarrow> Dist x)) ys"

text \<open>\<open>GET /?lat=&lng=\<close>: \<open>if (lat && lng)\<close> on the query strings.\<close>

definition list_blood_banks :: "db \<Rightarrow> string option \<Rightarrow> string option \<Rightarrow> bank_data response" where
  "list_blood_banks s lat lng =
     (case (lat, lng) of
        (Some la, Some lo) \<Rightarrow>
          if la \<noteq> [] \<and> lo \<noteq> [] then
            ok_data 200 (BList (with_distance (rank_banks
              (\<lambda>b. js_distance (parse_float la) (parse_float lo) (latitude b) (longitude b)) (blood_banks s))))
          else ok_data 200 (BList (map (\<lambda>b. (b, NoDistance)) (blood_banks s)))
      | _ \<Rightarrow> ok_data 200 (BList (map (\<lambda>b. (b, NoDistance)) (blood_banks s))))"

text \<open>\<open>GET /:id\<close>: the bank and \<open>SELECT blood_type, quantity FROM blood_stock WHERE blood_bank_id = ?\<close>.\<close>

definition bank_stock :: "db \<Rightarrow> row_id \<Rightarrow> (string \<times> int) list" where
  "bank_stock s i = map (\<lambda>r. (st_blood_type r, st_quantity r)) (filter (\<lambda>r. st_bank_id r = i) (blood_stock s))"

definition get_blood_bank :: "db \<Rightarrow> row_id \<Rightarrow> bank_data response" where
  "get_blood_bank s i =
     (case filter (\<lambda>b. bb_id b = i) (blood_banks s) of
        [] \<Rightarrow> fail 404 ''PMI tidak ditemukan''
      | b # _ \<Rightarrow> ok_data 200 (BDetail (b, bank_stock s i)))"

text \<open>\<open>GET /:id/stock\<close>: \<open>\<dots> WHERE blood_bank_id = ? ORDER BY blood_type\<close> (stable choice for ties).\<close>

definition get_blood_stock :: "db \<Rightarrow> row_id \<Rightarrow> bank_data response" where
  "get_blood_stock s i =
     ok_data 200 (BStock (sort_key st_blood_type (filter (\<lambda>r. st_bank_id r = i) (blood_stock s))))"

section \<open>Lemmas on parseFloat\<close>

lemma wf_bank_routes:
  "wf_response (list_blood_banks s la lo)"
  "wf_response (get_blood_bank s i)"
  "wf_response (get_blood_stock s i)"
  by (simp_all add: list_blood_banks_def get_blood_bank_def get_blood_stock_def
      split: option.split list.split)


lemmas parse_float_defs = parse_float_def js_sign_def js_space_def parse_exponent_def scale10_def

lemma parse_float_Nil [simp]: "parse_float [] = None"
  by (simp add: parse_float_defs)

text \<open>White space, sign, fraction, exponent and trailing text, as \<open>parseFloat\<close> reads them.\<close>

lemma parse_float_examples:
  "parse_float '' -1.5e2x'' = Some (-150)"
  "parse_float ''.5'' = Some (1/2)"
  "parse_float ''2E-1'' = Some (1/5)"
  "parse_float ''Infinity'' = None"
  "parse_float ''abc'' = None"
  by (simp_all add: parse_float_defs)

section \<open>Lemmas on the distance\<close>

lemma sin_half_sq: "sin (x / 2) * sin (x / 2) = (1 - cos x) / (2::real)"
proof -
  have "cos x = cos (2 * (x / 2))" by simp
  also have "\<dots> = 1 - 2 * (sin (x / 2))\<^sup>2" by (rule cos_double_sin)
  finally show ?thesis by (simp add: power2_eq_square)
qed

lemma haversine_alg:
  "(1 - (b * a + d * c)) / 2 + a * b * ((1 - k) / 2) = (1 - c * d - a * b * k) / (2::real)"
  by (simp add: field_simps)

lemma haversine_a_eq:
  "haversine_a lat1 lon1 lat2 lon2 =
     (1 - sin (lat1 * pi / 180) * sin (lat2 * pi / 180)
        - cos (lat1 * pi / 180) * cos (lat2 * pi / 180) * cos ((lon2 - lon1) * pi / 180)) / 2"
proof -
  let ?p = "lat1 * pi / 180" and ?q = "lat2 * pi / 180" and ?l = "(lon2 - lon1) * pi / 180"
  have d: "(lat2 - lat1) * pi / 180 = ?q - ?p" by (simp add: algebra_simps diff_divide_distrib)
  have "haversine_a lat1 lon1 lat2 lon2 =
          sin ((?q - ?p) / 2) * sin ((?q - ?p) / 2) + cos ?p * cos ?q * (sin (?l / 2) * sin (?l / 2))"
    by (simp add: haversine_a_def Let_def d mult.assoc)
  also have "\<dots> = (1 - cos (?q - ?p)) / 2 + cos ?p * cos ?q * ((1 - cos ?l) / 2)"
    by (simp only: sin_half_sq)
  also have "\<dots> = (1 - (cos ?q * cos ?p + sin ?q * sin ?p)) / 2 + cos ?p * cos ?q * ((1 - cos ?l) / 2)"
    by (simp only: cos_diff)
  also have "\<dots> = (1 - sin ?p * sin ?q - cos ?p * cos ?q * cos ?l) / 2"
    by (rule haversine_alg)
  finally show ?thesis .
qed

lemma abs_prod_le: "\<bar>a * b\<bar> \<le> (a\<^sup>2 + b\<^sup>2) / (2::real)"
proof -
  have "0 \<le> (\<bar>a\<bar> - \<bar>b\<bar>)\<^sup>2" by simp
  then have "2 * (\<bar>a\<bar> * \<bar>b\<bar>) \<le> \<bar>a\<bar>\<^sup>2 + \<bar>b\<bar>\<^sup>2" by (simp add: power2_diff)
  then show ?thesis by (simp add: abs_mult)
qed

lemma cos_sin_bound:
  "\<bar>sin p * sin q + cos p * cos q * k\<bar> \<le> 1" if "\<bar>k\<bar> \<le> 1" for p q k :: real
proof -
  have "\<bar>cos p * cos q * k\<bar> \<le> \<bar>cos p * cos q\<bar>"
    using that by (simp add: abs_mult mult_left_le)
  moreover have "\<bar>cos p * cos q\<bar> \<le> ((cos p)\<^sup>2 + (cos q)\<^sup>2) / 2" by (rule abs_prod_le)
  moreover have "\<bar>sin p * sin q\<bar> \<le> ((sin p)\<^sup>2 + (sin q)\<^sup>2) / 2" by (rule abs_prod_le)
  moreover have "(sin p)\<^sup>2 + (cos p)\<^sup>2 = 1" "(sin q)\<^sup>2 + (cos q)\<^sup>2 = 1" by simp_all
  moreover have "\<bar>sin p * sin q + cos p * cos q * k\<bar> \<le> \<bar>sin p * sin q\<bar> + \<bar>cos p * cos q * k\<bar>"
    by (rule abs_triangle_ineq)
  ultimately show ?thesis by argo
qed

lemma haversine_a_bounds: "0 \<le> haversine_a lat1 lon1 lat2 lon2 \<and> haversine_a lat1 lon1 lat2 lon2 \<le> 1"
proof -
  have "\<bar>sin (lat1 * pi / 180) * sin (lat2 * pi / 180) +
          cos (lat1 * pi / 180) * cos (lat2 * pi / 180) * cos ((lon2 - lon1) * pi / 180)\<bar> \<le> 1"
    by (rule cos_sin_bound) simp
  then show ?thesis by (simp add: haversine_a_eq abs_le_iff)
qed

lemma haversine_a_same: "haversine_a lat lon lat lon = 0"
  by (simp add: haversine_a_def)

lemma haversine_a_sym: "haversine_a lat1 lon1 lat2 lon2 = haversine_a lat2 lon2 lat1 lon1"
proof -
  have "cos ((lon1 - lon2) * pi / 180) = cos ((lon2 - lon1) * pi / 180)"
    by (metis cos_minus minus_diff_eq minus_divide_left mult_minus_left)
  then show ?thesis by (simp add: haversine_a_eq mult.commute mult.left_commute)
qed

lemma js_atan2_nonneg_bounds:
  assumes "0 \<le> y" and "0 \<le> x" and "0 < x \<or> 0 < y"
  shows "0 \<le> js_atan2 y x \<and> js_atan2 y x \<le> pi / 2"
proof (cases "0 < x")
  case True
  with assms(1) have "0 \<le> y / x" by simp
  then have "0 \<le> arctan (y / x)" by (simp add: zero_le_arctan_iff)
  moreover have "arctan (y / x) < pi / 2" using arctan_bounded by blast
  ultimately show ?thesis using True by (simp add: js_atan2_def)
next
  case False
  with assms have "x = 0" and "0 < y" by auto
  then show ?thesis by (simp add: js_atan2_def)
qed

text \<open>
  The \<open>atan2\<close> form of the code is the \<open>arcsin\<close> form of the haversine
  formula on every haversine term in [0, 1].
\<close>

lemma js_atan2_haversine:
  assumes "0 \<le> a" and "a \<le> 1"
  shows "js_atan2 (sqrt a) (sqrt (1 - a)) = arcsin (sqrt a)"
proof (cases "a < 1")
  case True
  have s1: "sqrt a < 1" using assms True by simp
  have "0 \<le> sqrt a" using assms(1) by simp
  then have s: "sqrt a < 1" "-1 < sqrt a" using s1 by linarith+
  have "(sqrt a)\<^sup>2 = a" using assms(1) by simp
  then have "arcsin (sqrt a) = arctan (sqrt a / sqrt (1 - a))"
    using arcsin_arctan [OF s(2) s(1)] by simp
  moreover have "0 < sqrt (1 - a)" using True by simp
  ultimately show ?thesis by (simp add: js_atan2_def)
next
  case False
  with assms(2) have "a = 1" by simp
  then show ?thesis by (simp add: js_atan2_def)
qed

text \<open>
  The distance from a point to itself is 0.
\<close>

theorem distance_same_point: "calculate_distance lat lon lat lon = 0"
  by (simp add: calculate_distance_def haversine_a_same js_atan2_def)

text \<open>
  The distance is symmetric in its two points.
\<close>

theorem distance_symmetric:
  "calculate_distance lat1 lon1 lat2 lon2 = calculate_distance lat2 lon2 lat1 lon1"
  by (simp add: calculate_distance_def haversine_a_sym [of lat1 lon1 lat2 lon2])

text \<open>
  C19. The code's formula is the haversine great-circle distance: for every
  input, even coordinates outside the ranges of latitudes and longitudes, the
  haversine term \<open>a\<close> lies in [0, 1] (so \<open>Math.sqrt\<close> never sees a negative
  argument), \<open>R * 2 * atan2(sqrt a, sqrt (1 - a))\<close> equals \<open>2 R arcsin (sqrt a)\<close>,
  and the distance lies between 0 and half the Earth's circumference,
  6371\<pi> km.
\<close>

theorem distance_bounds:
  "0 \<le> haversine_a lat1 lon1 lat2 lon2 \<and> haversine_a lat1 lon1 lat2 lon2 \<le> 1 \<and>
   calculate_distance lat1 lon1 lat2 lon2 = 2 * 6371 * arcsin (sqrt (haversine_a lat1 lon1 lat2 lon2)) \<and>
   0 \<le> calculate_distance lat1 lon1 lat2 lon2 \<and> calculate_distance lat1 lon1 lat2 lon2 \<le> 6371 * pi"
proof -
  let ?a = "haversine_a lat1 lon1 lat2 lon2"
  have a: "0 \<le> ?a" "?a \<le> 1" using haversine_a_bounds by auto
  have d: "calculate_distance lat1 lon1 lat2 lon2 = 2 * 6371 * arcsin (sqrt ?a)"
    using js_atan2_haversine [OF a] by (simp add: calculate_distance_def Let_def)
  have "0 \<le> sqrt ?a" "sqrt ?a \<le> 1" using a by simp_all
  then have "0 \<le> arcsin (sqrt ?a) \<and> arcsin (sqrt ?a) \<le> pi / 2"
    using arcsin_le_mono [of 0 "sqrt ?a"] arcsin_le_mono [of "sqrt ?a" 1] by simp
  with a d show ?thesis by simp
qed

section \<open>Lemmas on the ranking\<close>

text \<open>On numbers the JavaScript comparator orders as \<open>\<le>\<close>: the sort is \<open>sort_key\<close>.\<close>

lemma js_insort_num:
  "js_insort (\<lambda>x y. js_sub (snd x) (snd y)) (b, Some d) (map (\<lambda>(b, d). (b, Some d)) ys) =
     map (\<lambda>(b, d). (b, Some d)) (insort_key snd (b, d) ys)"
  by (induction ys) (auto simp: js_sub_def cmp_le_def)

lemma js_sort_num:
  "js_sort (\<lambda>x y. js_sub (snd x) (snd y)) (map (\<lambda>(b, d). (b, Some d)) xs) =
     map (\<lambda>(b, d). (b, Some d)) (sort_key snd xs)"
  by (induction xs) (auto simp: js_sort_def js_insort_num [symmetric])

lemma rank_banks_num:
  "rank_banks (\<lambda>b. Some (k b)) banks = map (\<lambda>(b, d). (b, Some d)) (sort_key snd (map (\<lambda>b. (b, k b)) banks))"
proof -
  have "map (\<lambda>b. (b, Some (k b))) banks = map (\<lambda>(b, d). (b, Some d)) (map (\<lambda>b. (b, k b)) banks)"
    by simp
  then show ?thesis by (simp only: rank_banks_def js_sort_num)
qed

text \<open>A comparator that is \<open>NaN\<close> on every pair leaves the order as it is.\<close>

lemma js_sort_all_nan:
  "(\<And>x y. x \<in> set xs \<Longrightarrow> y \<in> set xs \<Longrightarrow> cmp x y = None) \<Longrightarrow> js_sort cmp xs = xs"
proof (induction xs)
  case (Cons x xs)
  then have "js_sort cmp xs = xs" by simp
  with Cons.prems show ?case by (cases xs) (simp_all add: js_sort_def cmp_le_def)
qed (simp add: js_sort_def)

lemma with_distance_num: "with_distance (map (\<lambda>(b, d). (b, Some d)) ys) = map (\<lambda>(b, d). (b, Dist d)) ys"
  by (induction ys) (auto simp: with_distance_def)

lemma mset_rank_key: "image_mset fst (mset (sort_key snd (map (\<lambda>b. (b, k b)) banks))) = mset banks"
  by (simp add: multiset.map_comp comp_def)

lemma rank_key_dist: "(b, d) \<in> set (sort_key snd (map (\<lambda>b. (b, k b)) banks)) \<Longrightarrow> d = k b"
  by auto

lemma rank_key_stable:
  "filter (\<lambda>x. snd x = v) (sort_key snd (map (\<lambda>b. (b, k b)) banks)) =
     filter (\<lambda>x. snd x = v) (map (\<lambda>b. (b, k b)) banks)"
  by (rule sort_key_stable)

section \<open>Properties of the blood-bank routes\<close>

text \<open>
  C18. With both query parameters present and parsed, the list holds every blood
  bank once, each with its distance from the user, in non-decreasing distance
  order; banks at the same distance keep their table order.
\<close>

theorem list_blood_banks_ranked:
  assumes "parse_float la = Some x" and "parse_float lo = Some y"
  shows "\<exists>ys. list_blood_banks s (Some la) (Some lo) = ok_data 200 (BList (map (\<lambda>(b, d). (b, Dist d)) ys)) \<and>
           sorted (map snd ys) \<and> mset (map fst ys) = mset (blood_banks s) \<and>
           (\<forall>(b, d) \<in> set ys. d = calculate_distance x y (latitude b) (longitude b)) \<and>
           (\<forall>k. filter (\<lambda>v. snd v = k) ys =
                 filter (\<lambda>v. snd v = k) (map (\<lambda>b. (b, calculate_distance x y (latitude b) (longitude b))) (blood_banks s)))"
proof -
  let ?key = "\<lambda>b. calculate_distance x y (latitude b) (longitude b)"
  have ne: "la \<noteq> []" "lo \<noteq> []" using assms parse_float_Nil by auto
  let ?ys = "sort_key snd (map (\<lambda>b. (b, ?key b)) (blood_banks s))"
  have eq: "(\<lambda>b. js_distance (parse_float la) (parse_float lo) (latitude b) (longitude b)) = (\<lambda>b. Some (?key b))"
    using assms by (simp add: js_distance_def)
  have "list_blood_banks s (Some la) (Some lo) = ok_data 200 (BList (with_distance (rank_banks
          (\<lambda>b. js_distance (parse_float la) (parse_float lo) (latitude b) (longitude b)) (blood_banks s))))"
    using ne by (simp add: list_blood_banks_def)
  also have "\<dots> = ok_data 200 (BList (map (\<lambda>(b, d). (b, Dist d)) ?ys))"
    by (simp only: eq rank_banks_num with_distance_num)
  finally have "list_blood_banks s (Some la) (Some lo) = ok_data 200 (BList (map (\<lambda>(b, d). (b, Dist d)) ?ys))" .
  then show ?thesis
    by (intro exI [of _ ?ys]) (auto simp: multiset.map_comp comp_def rank_key_stable dest: rank_key_dist)
qed

theorem list_blood_banks_ranked_witness:
  "\<exists>ys. list_blood_banks \<lparr>users = [], blood_banks = [\<lparr>bb_id = 1, bb_name = ''PMI Kota'', latitude = -6.9, longitude = 107.6, bb_address = ''Jl. Aceh''\<rparr>], blood_stock = [], donations = [], next_user_id = 1, next_donation_id = 1\<rparr> (Some ''-6.2'') (Some ''106.8'') =
        ok_data 200 (BList (map (\<lambda>(b, d). (b, Dist d)) ys)) \<and> sorted (map snd ys)"
  using list_blood_banks_ranked [of "''-6.2''" "-6.2" "''106.8''" "106.8" "\<lparr>users = [], blood_banks = [\<lparr>bb_id = 1, bb_name = ''PMI Kota'', latitude = -6.9, longitude = 107.6, bb_address = ''Jl. Aceh''\<rparr>], blood_stock = [], donations = [], next_user_id = 1, next_donation_id = 1\<rparr>"]
  by (auto simp: parse_float_defs)

text \<open>
  The ranking step on the example of the specification: banks at distances
  5, 1 and 3 km (in table order) are listed at 1, 3 and 5 km.
\<close>

theorem rank_banks_example:
  "map (\<lambda>(b, d). (bb_id b, d))
     (rank_banks (\<lambda>b. Some (if bb_id b = 1 then 5 else if bb_id b = 2 then 1 else 3))
       [\<lparr>bb_id = 1, bb_name = ''A'', latitude = 0, longitude = 0, bb_address = ''a''\<rparr>,
        \<lparr>bb_id = 2, bb_name = ''B'', latitude = 0, longitude = 0, bb_address = ''b''\<rparr>,
        \<lparr>bb_id = 3, bb_name = ''C'', latitude = 0, longitude = 0, bb_address = ''c''\<rparr>]) =
   [(2, Some 1), (3, Some 3), (1, Some 5)]"
  by (simp add: rank_banks_def js_sort_def js_sub_def cmp_le_def)

text \<open>
  Without a location (a parameter absent or empty) the banks are listed in
  table order with no distance field.
\<close>

theorem list_blood_banks_no_location:
  "list_blood_banks s None lng = ok_data 200 (BList (map (\<lambda>b. (b, NoDistance)) (blood_banks s))) \<and>
   list_blood_banks s lat None = ok_data 200 (BList (map (\<lambda>b. (b, NoDistance)) (blood_banks s))) \<and>
   list_blood_banks s (Some []) lng = ok_data 200 (BList (map (\<lambda>b. (b, NoDistance)) (blood_banks s)))"
  by (auto simp: list_blood_banks_def split: option.split)

text \<open>
  C31. A location that does not parse as a number (e.g. \<open>lat=abc\<close>) is not
  rejected: every distance is \<open>NaN\<close> (\<open>null\<close> in the JSON), the comparator
  is \<open>NaN\<close> on every pair, which \<open>sort\<close> counts as equal, and the stable
  sort leaves the banks in table order.
\<close>

theorem list_blood_banks_unparsable:
  assumes "la \<noteq> []" and "lo \<noteq> []" and "parse_float la = None"
  shows "list_blood_banks s (Some la) (Some lo) = ok_data 200 (BList (map (\<lambda>b. (b, DistNaN)) (blood_banks s)))"
proof -
  have "rank_banks (\<lambda>b. js_distance (parse_float la) (parse_float lo) (latitude b) (longitude b)) (blood_banks s) =
          map (\<lambda>b. (b, None)) (blood_banks s)"
  proof -
    have "js_distance (parse_float la) (parse_float lo) lat lon = None" for lat lon
      using assms(3) by (simp add: js_distance_def)
    moreover have "js_sort (\<lambda>x y. js_sub (snd x) (snd y)) (map (\<lambda>b. (b, None)) (blood_banks s)) =
                     map (\<lambda>b. (b, None :: real option)) (blood_banks s)"
      by (rule js_sort_all_nan) (auto simp: js_sub_def)
    ultimately show ?thesis by (simp add: rank_banks_def)
  qed
  then show ?thesis using assms(1,2) by (simp add: list_blood_banks_def with_distance_def comp_def)
qed

theorem list_blood_banks_unparsable_witness:
  "list_blood_banks \<lparr>users = [], blood_banks = [\<lparr>bb_id = 1, bb_name = ''PMI Kota'', latitude = -6.9, longitude = 107.6, bb_address = ''Jl. Aceh''\<rparr>], blood_stock = [], donations = [], next_user_id = 1, next_donation_id = 1\<rparr> (Some ''abc'') (Some ''106.8'') =
   ok_data 200 (BList [(\<lparr>bb_id = 1, bb_name = ''PMI Kota'', latitude = -6.9, longitude = 107.6, bb_address = ''Jl. Aceh''\<rparr>, DistNaN)])"
  using list_blood_banks_unparsable [of "''abc''" "''106.8''" "\<lparr>users = [], blood_banks = [\<lparr>bb_id = 1, bb_name = ''PMI Kota'', latitude = -6.9, longitude = 107.6, bb_address = ''Jl. Aceh''\<rparr>], blood_stock = [], donations = [], next_user_id = 1, next_donation_id = 1\<rparr>"] by (simp add: parse_float_defs)

text \<open>
  The detail view of a blood bank (ids being primary keys) answers 200 with
  the bank and the blood type and quantity of each of its stock rows, in table
  order; an id no bank has is answered 404.
\<close>

theorem get_blood_bank_cases:
  assumes "distinct (map bb_id (blood_banks s))"
  shows "(b \<in> set (blood_banks s) \<longrightarrow>
            get_blood_bank s (bb_id b) = ok_data 200 (BDetail (b,
              map (\<lambda>r. (st_blood_type r, st_quantity r)) (filter (\<lambda>r. st_bank_id r = bb_id b) (blood_stock s))))) \<and>
         (i \<notin> bb_id ` set (blood_banks s) \<longrightarrow> get_blood_bank s i = fail 404 ''PMI tidak ditemukan'')"
proof (intro conjI impI)
  assume "b \<in> set (blood_banks s)"
  with assms have "filter (\<lambda>c. bb_id c = bb_id b) (blood_banks s) = [b]"
    by (rule filter_unique_key)
  then show "get_blood_bank s (bb_id b) = ok_data 200 (BDetail (b,
              map (\<lambda>r. (st_blood_type r, st_quantity r)) (filter (\<lambda>r. st_bank_id r = bb_id b) (blood_stock s))))"
    by (simp add: get_blood_bank_def bank_stock_def)
next
  assume "i \<notin> bb_id ` set (blood_banks s)"
  then have "filter (\<lambda>c. bb_id c = i) (blood_banks s) = []"
    by (auto simp: filter_empty_conv)
  then show "get_blood_bank s i = fail 404 ''PMI tidak ditemukan''"
    by (simp add: get_blood_bank_def)
qed

theorem get_blood_bank_cases_witness:
  "get_blood_bank \<lparr>users = [], blood_banks = [\<lparr>bb_id = 1, bb_name = ''PMI Kota'', latitude = -6.9, longitude = 107.6, bb_address = ''Jl. Aceh''\<rparr>], blood_stock = [\<lparr>st_bank_id = 1, st_blood_type = ''O+'', st_quantity = 30\<rparr>, \<lparr>st_bank_id = 1, st_blood_type = ''A+'', st_quantity = 12\<rparr>], donations = [], next_user_id = 1, next_donation_id = 1\<rparr> 1 = ok_data 200 (BDetail (\<lparr>bb_id = 1, bb_name = ''PMI Kota'', latitude = -6.9, longitude = 107.6, bb_address = ''Jl. Aceh''\<rparr>, [(''O+'', 30), (''A+'', 12)])) \<and>
   get_blood_bank \<lparr>users = [], blood_banks = [\<lparr>bb_id = 1, bb_name = ''PMI Kota'', latitude = -6.9, longitude = 107.6, bb_address = ''Jl. Aceh''\<rparr>], blood_stock = [\<lparr>st_bank_id = 1, st_blood_type = ''O+'', st_quantity = 30\<rparr>, \<lparr>st_bank_id = 1, st_blood_type = ''A+'', st_quantity = 12\<rparr>], donations = [], next_user_id = 1, next_donation_id = 1\<rparr> 2 = fail 404 ''PMI tidak ditemukan''"
  using get_blood_bank_cases [of "\<lparr>users = [], blood_banks = [\<lparr>bb_id = 1, bb_name = ''PMI Kota'', latitude = -6.9, longitude = 107.6, bb_address = ''Jl. Aceh''\<rparr>], blood_stock = [\<lparr>st_bank_id = 1, st_blood_type = ''O+'', st_quantity = 30\<rparr>, \<lparr>st_bank_id = 1, st_blood_type = ''A+'', st_quantity = 12\<rparr>], donations = [], next_user_id = 1, next_donation_id = 1\<rparr>" "\<lparr>bb_id = 1, bb_name = ''PMI Kota'', latitude = -6.9, longitude = 107.6, bb_address = ''Jl. Aceh''\<rparr>" 2] by simp

text \<open>
  C32. The stock list answers 200 with exactly the stock rows of the bank, in
  ascending blood-type order (the \<open>ORDER BY blood_type\<close> contract); for an id
  with no stock rows, whether or not such a bank exists, it answers 200 with
  an empty list rather than "not found".
\<close>

theorem get_blood_stock_refines:
  "\<exists>rs. get_blood_stock s i = ok_data 200 (BStock rs) \<and>
     sorted (map st_blood_type rs) \<and> mset rs = mset (filter (\<lambda>r. st_bank_id r = i) (blood_stock s)) \<and>
     (i \<notin> st_bank_id ` set (blood_stock s) \<longrightarrow> rs = [])"
proof -
  let ?rs = "sort_key st_blood_type (filter (\<lambda>r. st_bank_id r = i) (blood_stock s))"
  have "i \<notin> st_bank_id ` set (blood_stock s) \<Longrightarrow> filter (\<lambda>r. st_bank_id r = i) (blood_stock s) = []"
    by (auto simp: filter_empty_conv)
  then show ?thesis
    by (intro exI [of _ ?rs]) (auto simp: get_blood_stock_def simp del: mset_filter)
qed

theorem get_blood_stock_refines_witness:
  "get_blood_stock \<lparr>users = [], blood_banks = [\<lparr>bb_id = 1, bb_name = ''PMI Kota'', latitude = -6.9, longitude = 107.6, bb_address = ''Jl. Aceh''\<rparr>], blood_stock = [\<lparr>st_bank_id = 1, st_blood_type = ''O+'', st_quantity = 30\<rparr>, \<lparr>st_bank_id = 1, st_blood_type = ''A+'', st_quantity = 12\<rparr>], donations = [], next_user_id = 1, next_donation_id = 1\<rparr> 1 = ok_data 200 (BStock [\<lparr>st_bank_id = 1, st_blood_type = ''A+'', st_quantity = 12\<rparr>, \<lparr>st_bank_id = 1, st_blood_type = ''O+'', st_quantity = 30\<rparr>]) \<and>
   get_blood_stock \<lparr>users = [], blood_banks = [\<lparr>bb_id = 1, bb_name = ''PMI Kota'', latitude = -6.9, longitude = 107.6, bb_address = ''Jl. Aceh''\<rparr>], blood_stock = [\<lparr>st_bank_id = 1, st_blood_type = ''O+'', st_quantity = 30\<rparr>, \<lparr>st_bank_id = 1, st_blood_type = ''A+'', st_quantity = 12\<rparr>], donations = [], next_user_id = 1, next_donation_id = 1\<rparr> 5 = ok_data 200 (BStock [])"
proof -
  have "get_blood_stock \<lparr>users = [], blood_banks = [\<lparr>bb_id = 1, bb_name = ''PMI Kota'', latitude = -6.9, longitude = 107.6, bb_address = ''Jl. Aceh''\<rparr>], blood_stock = [\<lparr>st_bank_id = 1, st_blood_type = ''O+'', st_quantity = 30\<rparr>, \<lparr>st_bank_id = 1, st_blood_type = ''A+'', st_quantity = 12\<rparr>], donations = [], next_user_id = 1, next_donation_id = 1\<rparr> 1 = ok_data 200 (BStock [\<lparr>st_bank_id = 1, st_blood_type = ''A+'', st_quantity = 12\<rparr>, \<lparr>st_bank_id = 1, st_blood_type = ''O+'', st_quantity = 30\<rparr>])"
    by (simp add: get_blood_stock_def)
  moreover obtain rs where "get_blood_stock \<lparr>users = [], blood_banks = [\<lparr>bb_id = 1, bb_name = ''PMI Kota'', latitude = -6.9, longitude = 107.6, bb_address = ''Jl. Aceh''\<rparr>], blood_stock = [\<lparr>st_bank_id = 1, st_blood_type = ''O+'', st_quantity = 30\<rparr>, \<lparr>st_bank_id = 1, st_blood_type = ''A+'', st_quantity = 12\<rparr>], donations = [], next_user_id = 1, next_donation_id = 1\<rparr> 5 = ok_data 200 (BStock rs)"
      and "5 \<notin> st_bank_id ` set (blood_stock \<lparr>users = [], blood_banks = [\<lparr>bb_id = 1, bb_name = ''PMI Kota'', latitude = -6.9, longitude = 107.6, bb_address = ''Jl. Aceh''\<rparr>], blood_stock = [\<lparr>st_bank_id = 1, st_blood_type = ''O+'', st_quantity = 30\<rparr>, \<lparr>st_bank_id = 1, st_blood_type = ''A+'', st_quantity = 12\<rparr>], donations = [], next_user_id = 1, next_donation_id = 1\<rparr>) \<longrightarrow> rs = []"
    using get_blood_stock_refines [of "\<lparr>users = [], blood_banks = [\<lparr>bb_id = 1, bb_name = ''PMI Kota'', latitude = -6.9, longitude = 107.6, bb_address = ''Jl. Aceh''\<rparr>], blood_stock = [\<lparr>st_bank_id = 1, st_blood_type = ''O+'', st_quantity = 30\<rparr>, \<lparr>st_bank_id = 1, st_blood_type = ''A+'', st_quantity = 12\<rparr>], donations = [], next_user_id = 1, next_donation_id = 1\<rparr>" 5] by blast
  ultimately show ?thesis by simp
qed

end
