(* ===== verification/Users.thy ===== *)
theory Users
  imports Store
begin

text \<open>
  The statistics route of \<open>routes/users.js\<close> (\<open>GET /stats/:id\<close>): three queries
  over the completed donations of a user, their count, the \<open>SUM\<close> of their
  quantities and the latest donation date, combined with JavaScript's \<open>||\<close>
  defaults. \<open>SUM\<close> over no rows is SQL \<open>NULL\<close>, modelled as \<open>None\<close>.
\<close>

section \<open>The route\<close>

text \<open>The JSON object the route answers with.\<close>

record stats =
  total_donations :: jval
  total_blood_donated :: jval
  last_donation :: jval

text \<open>\<open>WHERE user_id = ? AND status = "completed"\<close>, shared by the three queries.\<close>

definition completed_rows :: "db \<Rightarrow> row_id \<Rightarrow> donation_row list" where
  "completed_rows s uid = filter (\<lambda>r. d_user_id r = uid \<and> d_status r = Completed) (donations s)"

text \<open>\<open>SELECT COUNT(*)\<close>: a \<open>BIGINT\<close>, which \<open>mysql2\<close> returns as a number.\<close>

definition sql_count :: "'a list \<Rightarrow> jval" where
  "sql_count xs = JNum (int (length xs))"

text \<open>
  \<open>SELECT SUM(quantity)\<close>: \<open>NULL\<close> over no row, otherwise a \<open>DECIMAL\<close>, which
  \<open>mysql2\<close> returns as a string (its default \<open>decimalNumbers: false\<close>).
\<close>

definition sql_sum :: "int list \<Rightarrow> jval" where
  "sql_sum xs = (if xs = [] then JNull else JStr (int_text (sum_list xs)))"

text \<open>JavaScript's \<open>v || d\<close>.\<close>

definition js_or :: "jval \<Rightarrow> jval \<Rightarrow> jval" where
  "js_or v d = (if truthy v then v else d)"

text \<open>
  \<open>SELECT donation_date \<dots> ORDER BY donation_date DESC LIMIT 1\<close>, then
  \<open>lastDonation[0]?.donation_date\<close> (\<open>undefined\<close> when there is no row).
\<close>

definition last_completed :: "db \<Rightarrow> row_id \<Rightarrow> jval" where
  "last_completed s uid =
     (case sort_desc d_date (completed_rows s uid) of [] \<Rightarrow> JUndef | r # _ \<Rightarrow> JStr (d_date r))"

text \<open>
  The three \<open>await db.query(\<dots>)\<close> of the route are separate statements, each
  reading the database as it is when it runs: the count from \<open>s1\<close>, the sum
  from \<open>s2\<close>, the latest date from \<open>s3\<close>, combined into the answer's object.
\<close>

definition stats_reads :: "db \<Rightarrow> db \<Rightarrow> db \<Rightarrow> row_id \<Rightarrow> stats" where
  "stats_reads s1 s2 s3 uid =
     \<lparr>total_donations = js_or (sql_count (completed_rows s1 uid)) (JNum 0),
      total_blood_donated = js_or (sql_sum (map d_quantity (completed_rows s2 uid))) (JNum 0),
      last_donation = js_or (last_completed s3 uid) JNull\<rparr>"

text \<open>The route when no other request runs between its three statements.\<close>

definition user_stats :: "db \<Rightarrow> row_id \<Rightarrow> stats" where
  "user_stats s uid = stats_reads s s s uid"

definition get_user_stats :: "db \<Rightarrow> row_id \<Rightarrow> stats response" where
  "get_user_stats s uid = ok_data 200 (user_stats s uid)"

section \<open>Lemmas\<close>

lemma total_donations_reads [simp]:
  "total_donations (stats_reads s1 s2 s3 u) = JNum (int (length (completed_rows s1 u)))"
  by (simp add: stats_reads_def js_or_def sql_count_def)

lemma total_blood_donated_reads [simp]:
  "total_blood_donated (stats_reads s1 s2 s3 u) =
     (if completed_rows s2 u = [] then JNum 0
      else JStr (int_text (sum_list (map d_quantity (completed_rows s2 u)))))"
  by (simp add: stats_reads_def js_or_def sql_sum_def)

lemma total_donations_eq [simp]:
  "total_donations (user_stats s u) = JNum (int (length (completed_rows s u)))"
  by (simp add: user_stats_def)

lemma total_blood_donated_eq [simp]:
  "total_blood_donated (user_stats s u) =
     (if completed_rows s u = [] then JNum 0
      else JStr (int_text (sum_list (map d_quantity (completed_rows s u)))))"
  by (simp add: user_stats_def)

lemma wf_get_user_stats: "wf_response (get_user_stats s i)"
  by (simp add: get_user_stats_def)

lemma stats_eqI:
  "total_donations x = a \<Longrightarrow> total_blood_donated x = b \<Longrightarrow> last_donation x = c \<Longrightarrow>
   x = \<lparr>total_donations = a, total_blood_donated = b, last_donation = c\<rparr>"
  by (cases x) simp

lemma last_donation_Max:
  assumes "\<forall>r \<in> set (donations s). d_date r \<noteq> []"
  shows "last_donation (user_stats s u) =
           (if completed_rows s u = [] then JNull else JStr (Max (d_date ` set (completed_rows s u))))"
proof (cases "completed_rows s u = []")
  case True
  then show ?thesis by (simp add: user_stats_def stats_reads_def last_completed_def js_or_def)
next
  case False
  then obtain r rs where eq: "sort_desc d_date (completed_rows s u) = r # rs"
    by (cases "sort_desc d_date (completed_rows s u)") auto
  have "r \<in> set (completed_rows s u)" using set_sort_desc [of d_date "completed_rows s u"] eq by auto
  then have "d_date r \<noteq> []" using assms by (auto simp: completed_rows_def)
  moreover have "d_date r = Max (d_date ` set (completed_rows s u))"
    using hd_sort_desc_max [OF False, of d_date] eq by simp
  ultimately show ?thesis using False eq by (simp add: user_stats_def stats_reads_def last_completed_def js_or_def)
qed

section \<open>Properties of the statistics route\<close>

text \<open>
  C17. The statistics refine their specification, in the JSON the route
  answers: the number of the user's completed donations, the sum of their
  quantities (a string, as \<open>mysql2\<close> returns \<open>DECIMAL\<close> sums, or the number 0
  when there is none), and the latest of their dates (\<open>null\<close> when there is
  none); donations of other users and of other statuses do not count. Dates
  are non-empty, as a \<open>DATE\<close> column's values are.
\<close>

theorem stats_refines:
  assumes "\<forall>r \<in> set (donations s). d_date r \<noteq> []"
  shows "get_user_stats s u = ok_data 200
           (let c = [r \<leftarrow> donations s. d_user_id r = u \<and> d_status r = Completed]
            in \<lparr>total_donations = JNum (int (length c)),
                total_blood_donated = (if c = [] then JNum 0 else JStr (int_text (\<Sum>r \<leftarrow> c. d_quantity r))),
                last_donation = (if c = [] then JNull else JStr (Max (d_date ` set c)))\<rparr>)"
proof -
  have "[r \<leftarrow> donations s. d_user_id r = u \<and> d_status r = Completed] = completed_rows s u"
    by (simp add: completed_rows_def)
  moreover have "user_stats s u =
      \<lparr>total_donations = JNum (int (length (completed_rows s u))),
       total_blood_donated = (if completed_rows s u = [] then JNum 0
                              else JStr (int_text (\<Sum>r \<leftarrow> completed_rows s u. d_quantity r))),
       last_donation = (if completed_rows s u = [] then JNull
                        else JStr (Max (d_date ` set (completed_rows s u))))\<rparr>"
    by (rule stats_eqI) (simp_all add: last_donation_Max [OF assms])
  ultimately show ?thesis by (simp add: get_user_stats_def Let_def)
qed

theorem stats_refines_witness:
  "get_user_stats \<lparr>users = [], blood_banks = [], blood_stock = [], donations = [\<lparr>d_id = 1, d_user_id = 7, d_bank_id = 1, d_date = ''2024-01-05'', d_blood_type = ''O+'', d_quantity = 300, d_status = Completed, d_notes = None\<rparr>, \<lparr>d_id = 2, d_user_id = 7, d_bank_id = 1, d_date = ''2024-04-10'', d_blood_type = ''O+'', d_quantity = 200, d_status = Pending, d_notes = None\<rparr>, \<lparr>d_id = 3, d_user_id = 7, d_bank_id = 1, d_date = ''2024-03-01'', d_blood_type = ''O+'', d_quantity = 150, d_status = Completed, d_notes = None\<rparr>, \<lparr>d_id = 4, d_user_id = 8, d_bank_id = 1, d_date = ''2024-02-02'', d_blood_type = ''O+'', d_quantity = 250, d_status = Approved, d_notes = None\<rparr>], next_user_id = 9, next_donation_id = 5\<rparr> 7 = ok_data 200 \<lparr>total_donations = JNum 2, total_blood_donated = JStr ''450'',
      last_donation = JStr ''2024-03-01''\<rparr>"
proof -
  have "\<forall>r \<in> set (donations \<lparr>users = [], blood_banks = [], blood_stock = [], donations = [\<lparr>d_id = 1, d_user_id = 7, d_bank_id = 1, d_date = ''2024-01-05'', d_blood_type = ''O+'', d_quantity = 300, d_status = Completed, d_notes = None\<rparr>, \<lparr>d_id = 2, d_user_id = 7, d_bank_id = 1, d_date = ''2024-04-10'', d_blood_type = ''O+'', d_quantity = 200, d_status = Pending, d_notes = None\<rparr>, \<lparr>d_id = 3, d_user_id = 7, d_bank_id = 1, d_date = ''2024-03-01'', d_blood_type = ''O+'', d_quantity = 150, d_status = Completed, d_notes = None\<rparr>, \<lparr>d_id = 4, d_user_id = 8, d_bank_id = 1, d_date = ''2024-02-02'', d_blood_type = ''O+'', d_quantity = 250, d_status = Approved, d_notes = None\<rparr>], next_user_id = 9, next_donation_id = 5\<rparr>). d_date r \<noteq> []" by simp
  from stats_refines [OF this, of 7] show ?thesis
    by (simp add: Let_def int_text_def)
qed

text \<open>
  The example of the specification: a user with donations completed of
  300 ml, pending of 200 ml and completed of 150 ml has 2 donations and the
  later of the two completed dates as the last donation; the 450 ml total is
  answered as the string \<open>"450"\<close>, not the number the specification shows.
\<close>

theorem stats_example:
  "get_user_stats \<lparr>users = [], blood_banks = [], blood_stock = [], donations = [\<lparr>d_id = 1, d_user_id = 7, d_bank_id = 1, d_date = ''2024-01-05'', d_blood_type = ''O+'', d_quantity = 300, d_status = Completed, d_notes = None\<rparr>, \<lparr>d_id = 2, d_user_id = 7, d_bank_id = 1, d_date = ''2024-04-10'', d_blood_type = ''O+'', d_quantity = 200, d_status = Pending, d_notes = None\<rparr>, \<lparr>d_id = 3, d_user_id = 7, d_bank_id = 1, d_date = ''2024-03-01'', d_blood_type = ''O+'', d_quantity = 150, d_status = Completed, d_notes = None\<rparr>, \<lparr>d_id = 4, d_user_id = 8, d_bank_id = 1, d_date = ''2024-02-02'', d_blood_type = ''O+'', d_quantity = 250, d_status = Approved, d_notes = None\<rparr>], next_user_id = 9, next_donation_id = 5\<rparr> 7 = ok_data 200
     \<lparr>total_donations = JNum 2, total_blood_donated = JStr ''450'', last_donation = JStr ''2024-03-01''\<rparr>"
  by (simp add: get_user_stats_def user_stats_def stats_reads_def completed_rows_def sql_count_def sql_sum_def
                last_completed_def js_or_def int_text_def)

text \<open>
  A user with no completed donation gets 0 donations, 0 ml and a
  \<open>null\<close> last donation, never an error.
\<close>

theorem stats_zero:
  assumes "\<forall>r \<in> set (donations s). d_user_id r = u \<longrightarrow> d_status r \<noteq> Completed"
  shows "get_user_stats s u = ok_data 200 \<lparr>total_donations = JNum 0, total_blood_donated = JNum 0, last_donation = JNull\<rparr>"
proof -
  from assms have "completed_rows s u = []" by (auto simp: completed_rows_def filter_empty_conv)
  then show ?thesis
    by (simp add: get_user_stats_def user_stats_def stats_reads_def sql_count_def sql_sum_def last_completed_def js_or_def)
qed

theorem stats_zero_witness:
  "get_user_stats \<lparr>users = [], blood_banks = [], blood_stock = [], donations = [\<lparr>d_id = 1, d_user_id = 7, d_bank_id = 1, d_date = ''2024-01-05'', d_blood_type = ''O+'', d_quantity = 300, d_status = Completed, d_notes = None\<rparr>, \<lparr>d_id = 2, d_user_id = 7, d_bank_id = 1, d_date = ''2024-04-10'', d_blood_type = ''O+'', d_quantity = 200, d_status = Pending, d_notes = None\<rparr>, \<lparr>d_id = 3, d_user_id = 7, d_bank_id = 1, d_date = ''2024-03-01'', d_blood_type = ''O+'', d_quantity = 150, d_status = Completed, d_notes = None\<rparr>, \<lparr>d_id = 4, d_user_id = 8, d_bank_id = 1, d_date = ''2024-02-02'', d_blood_type = ''O+'', d_quantity = 250, d_status = Approved, d_notes = None\<rparr>], next_user_id = 9, next_donation_id = 5\<rparr> 8 = ok_data 200 \<lparr>total_donations = JNum 0, total_blood_donated = JNum 0, last_donation = JNull\<rparr>"
  by (rule stats_zero) simp

text \<open>
  Read from one database state, the answer is consistent: it reports no
  donation exactly when it reports no blood donated.
\<close>

lemma stats_consistent:
  "total_donations (user_stats s u) = JNum 0 \<longleftrightarrow> total_blood_donated (user_stats s u) = JNum 0"
  by simp

end
