(* ===== verification/Auth.thy ===== *)
theory Auth
  imports Store
begin

text \<open>
  Registration and login (\<open>routes/auth.js\<close>) and the token gate
  \<open>authenticateToken\<close> (\<open>middleware/auth.js\<close>). The two libraries these call are
  interfaces: \<open>bcrypt\<close> is a record of the hash and compare functions of
  \<open>bcryptjs\<close>, \<open>jwt_lib\<close> the sign and verify functions of \<open>jsonwebtoken\<close>; the
  theorems state the parts of their contracts they rely on as hypotheses, at
  the one input where they are used. Registration is split at its
  suspension points into the uniqueness check and the insert, so that the
  interleaving of concurrent registrations can be modelled (theory \<open>Server\<close>);
  \<open>register\<close> composes the two halves as the handler runs them when alone.
\<close>

section \<open>Library interfaces\<close>

record bcrypt =
  bc_hash :: "string \<Rightarrow> string"
  bc_compare :: "string \<Rightarrow> string \<Rightarrow> bool"

text \<open>The payload \<open>{ id, email }\<close> with the \<open>iat\<close> and \<open>exp\<close> fields \<open>jwt.sign\<close> adds.\<close>

record jwt_claims =
  jc_id :: row_id
  jc_email :: string
  jc_iat :: nat
  jc_exp :: nat

record jwt_lib =
  jwt_sign :: "string \<Rightarrow> jwt_claims \<Rightarrow> string"
  jwt_verify :: "string \<Rightarrow> string \<Rightarrow> nat \<Rightarrow> jwt_claims option"

text \<open>\<open>expiresIn: '7d'\<close>, in seconds.\<close>

definition token_lifetime :: nat where
  "token_lifetime = 7 * 24 * 60 * 60"

section \<open>Requests and views\<close>

record reg_body =
  rb_name :: jval
  rb_email :: jval
  rb_password :: jval
  rb_phone :: jval
  rb_blood_type :: jval
  rb_address :: jval

text \<open>A user row without its password, as \<open>delete user.password\<close> leaves it.\<close>

record profile =
  p_id :: row_id
  p_name :: string
  p_email :: string
  p_phone :: string
  p_blood_type :: string
  p_address :: string

definition profile_of :: "user_row \<Rightarrow> profile" where
  "profile_of u = \<lparr>p_id = u_id u, p_name = u_name u, p_email = u_email u, p_phone = u_phone u,
                   p_blood_type = u_blood_type u, p_address = u_address u\<rparr>"

datatype auth_data =
    Registered row_id jval jval jval jval jval
  | LoggedIn profile string

text \<open>\<open>SELECT \<dots> FROM users WHERE email = ?\<close>, in table order.\<close>

definition users_with_email :: "db \<Rightarrow> string \<Rightarrow> user_row list" where
  "users_with_email s e = filter (\<lambda>u. u_email u = e) (users s)"

section \<open>POST /register\<close>

definition register_fields :: "reg_body \<Rightarrow> bool" where
  "register_fields b \<longleftrightarrow>
     truthy (rb_name b) \<and> truthy (rb_email b) \<and> truthy (rb_password b) \<and>
     truthy (rb_phone b) \<and> truthy (rb_blood_type b) \<and> truthy (rb_address b)"

definition register_error :: "auth_data response" where
  "register_error = fail 500 ''Terjadi kesalahan saat registrasi''"

text \<open>
  The handler up to its first suspension point and the \<open>SELECT\<close>: an early
  response, or \<open>None\<close> when the handler goes on to hash and insert.
\<close>

definition register_check :: "db \<Rightarrow> reg_body \<Rightarrow> auth_data response option" where
  "register_check s b =
     (if \<not> register_fields b then Some (fail 400 ''Semua field harus diisi'')
      else case sql_text (rb_email b) of
        None \<Rightarrow> Some register_error
      | Some e \<Rightarrow> if users_with_email s e \<noteq> [] then Some (fail 400 ''Email sudah terdaftar'') else None)"

text \<open>
  \<open>INSERT INTO users \<dots>\<close>: the store builds the row from the values, or rejects
  one. With a \<open>UNIQUE\<close> index on \<open>email\<close> (the schema is not part of the
  sources, so this is a parameter) it also rejects a duplicate email.
\<close>

definition user_of_body :: "row_id \<Rightarrow> string \<Rightarrow> reg_body \<Rightarrow> user_row option" where
  "user_of_body i h b = do {
     n \<leftarrow> sql_text (rb_name b);
     e \<leftarrow> sql_text (rb_email b);
     ph \<leftarrow> sql_text (rb_phone b);
     bt \<leftarrow> sql_text (rb_blood_type b);
     a \<leftarrow> sql_text (rb_address b);
     Some \<lparr>u_id = i, u_name = n, u_email = e, u_password = h, u_phone = ph,
           u_blood_type = bt, u_address = a\<rparr>
   }"

definition insert_user :: "bool \<Rightarrow> db \<Rightarrow> user_row \<Rightarrow> db option" where
  "insert_user uniq s u =
     (if uniq \<and> users_with_email s (u_email u) \<noteq> [] then None
      else Some (s\<lparr>users := users s @ [u], next_user_id := next_user_id s + 1\<rparr>))"

text \<open>
  \<open>bcrypt.hash(password, 10)\<close> (which throws on a non-string) and the insert;
  the response echoes the body's values with the new id.
\<close>

definition register_insert :: "bcrypt \<Rightarrow> bool \<Rightarrow> db \<Rightarrow> reg_body \<Rightarrow> auth_data response \<times> db" where
  "register_insert bc uniq s b =
     (case rb_password b of
        JStr p \<Rightarrow>
          (case user_of_body (next_user_id s) (bc_hash bc p) b of
             None \<Rightarrow> (register_error, s)
           | Some u \<Rightarrow>
               (case insert_user uniq s u of
                  None \<Rightarrow> (register_error, s)
                | Some s' \<Rightarrow>
                    (ok_msg_data 201 ''Registrasi berhasil''
                       (Registered (u_id u) (rb_name b) (rb_email b) (rb_phone b) (rb_blood_type b)
                          (rb_address b)), s')))
      | _ \<Rightarrow> (register_error, s))"

definition register :: "bcrypt \<Rightarrow> bool \<Rightarrow> db \<Rightarrow> reg_body \<Rightarrow> auth_data response \<times> db" where
  "register bc uniq s b =
     (case register_check s b of Some r \<Rightarrow> (r, s) | None \<Rightarrow> register_insert bc uniq s b)"

section \<open>POST /login\<close>

definition login_fail :: "auth_data response" where
  "login_fail = fail 401 ''Email atau password salah''"

definition login_error :: "auth_data response" where
  "login_error = fail 500 ''Terjadi kesalahan saat login''"

text \<open>
  The first row with the email is the user (\<open>users[0]\<close>); \<open>bcrypt.compare\<close>
  throws on a non-string password; \<open>jwt.sign\<close> throws when \<open>JWT_SECRET\<close> is
  unset; \<open>res.json\<close> answers 200.
\<close>

text \<open>
  \<open>process.env.JWT_SECRET\<close> as \<open>jsonwebtoken\<close> takes it: \<open>jwt.sign\<close> throws
  and \<open>jwt.verify\<close> fails when it is unset or empty.
\<close>

definition secret_key :: "string option \<Rightarrow> string option" where
  "secret_key v = (case v of Some k \<Rightarrow> if k = [] then None else Some k | None \<Rightarrow> None)"

definition login ::
  "bcrypt \<Rightarrow> jwt_lib \<Rightarrow> string option \<Rightarrow> nat \<Rightarrow> db \<Rightarrow> jval \<Rightarrow> jval \<Rightarrow> auth_data response" where
  "login bc jw secret now s email password =
     (if \<not> truthy email \<or> \<not> truthy password then fail 400 ''Email dan password harus diisi''
      else case sql_text email of
        None \<Rightarrow> login_error
      | Some e \<Rightarrow>
          (case users_with_email s e of
             [] \<Rightarrow> login_fail
           | u # _ \<Rightarrow>
               (case password of
                  JStr p \<Rightarrow>
                    if \<not> bc_compare bc p (u_password u) then login_fail
                    else (case secret_key secret of
                            None \<Rightarrow> login_error
                          | Some k \<Rightarrow>
                              ok_msg_data 200 ''Login berhasil''
                                (LoggedIn (profile_of u)
                                   (jwt_sign jw k \<lparr>jc_id = u_id u, jc_email = u_email u,
                                                   jc_iat = now, jc_exp = now + token_lifetime\<rparr>)))
                | _ \<Rightarrow> login_error)))"

section \<open>The token gate\<close>

text \<open>\<open>String.prototype.split\<close> with a one-character separator.\<close>

fun js_split :: "char \<Rightarrow> string \<Rightarrow> string list" where
  "js_split c [] = [[]]"
| "js_split c (x # xs) =
     (let ws = js_split c xs in if x = c then [] # ws else (x # hd ws) # tl ws)"

text \<open>\<open>a[i]\<close> on an array: \<open>undefined\<close> (here \<open>None\<close>) out of range.\<close>

definition js_index :: "'a list \<Rightarrow> nat \<Rightarrow> 'a option" where
  "js_index xs i = (if i < length xs then Some (xs ! i) else None)"

text \<open>\<open>authHeader && authHeader.split(' ')[1]\<close>, \<open>None\<close> for a falsy result.\<close>

definition bearer_token :: "string option \<Rightarrow> string option" where
  "bearer_token h =
     (case h of
        None \<Rightarrow> None
      | Some v \<Rightarrow> if v = [] then None
                  else (case js_index (js_split CHR '' '' v) 1 of
                          Some t \<Rightarrow> if t = [] then None else Some t
                        | None \<Rightarrow> None))"

datatype 'c gate = GateReject nat string | GatePass 'c

definition authenticate_token ::
  "jwt_lib \<Rightarrow> string option \<Rightarrow> nat \<Rightarrow> string option \<Rightarrow> jwt_claims gate" where
  "authenticate_token jw secret now h =
     (case bearer_token h of
        None \<Rightarrow> GateReject 401 ''Access token tidak ditemukan''
      | Some t \<Rightarrow>
          (case secret_key secret of
             None \<Rightarrow> GateReject 403 ''Token tidak valid atau expired''
           | Some k \<Rightarrow>
               (case jwt_verify jw k t now of
                  None \<Rightarrow> GateReject 403 ''Token tidak valid atau expired''
                | Some c \<Rightarrow> GatePass c)))"

text \<open>
  A reference for the token extraction, read off the header as a string: the
  run of non-space characters that follows the first space, when there is a
  first space and that run is not empty.
\<close>

definition bearer_ref :: "string option \<Rightarrow> string option" where
  "bearer_ref h =
     (case h of
        None \<Rightarrow> None
      | Some v \<Rightarrow>
          (let rest = dropWhile (\<lambda>x. x \<noteq> CHR '' '') v;
               t = takeWhile (\<lambda>x. x \<noteq> CHR '' '') (drop 1 rest)
           in if rest = [] \<or> t = [] then None else Some t))"

section \<open>Example instances\<close>

text \<open>
  Concrete instances of the two interfaces, used to run the theorems below on
  examples: a salt-free hash that \<open>bc_compare\<close> recomputes, and a JWT
  library that knows one token, valid for seven days from time 0.
\<close>

definition example_bcrypt :: bcrypt where
  "example_bcrypt = \<lparr>bc_hash = \<lambda>p. ''$2a$10$'' @ p, bc_compare = \<lambda>p h. h = ''$2a$10$'' @ p\<rparr>"

definition example_claims :: jwt_claims where
  "example_claims = \<lparr>jc_id = 1, jc_email = ''sari@mail.id'', jc_iat = 0, jc_exp = token_lifetime\<rparr>"

definition example_jwt :: jwt_lib where
  "example_jwt =
     \<lparr>jwt_sign = \<lambda>k c. ''eyJ.'' @ k,
      jwt_verify = \<lambda>k t n. if t = ''eyJ.'' @ k \<and> n < token_lifetime then Some example_claims else None\<rparr>"

definition example_user :: user_row where
  "example_user = \<lparr>u_id = 1, u_name = ''Sari'', u_email = ''sari@mail.id'',
     u_password = ''$2a$10$rahasia'', u_phone = ''0812'', u_blood_type = ''O+'', u_address = ''Bandung''\<rparr>"

definition example_reg :: reg_body where
  "example_reg = \<lparr>rb_name = JStr ''Sari'', rb_email = JStr ''sari@mail.id'', rb_password = JStr ''rahasia'',
     rb_phone = JStr ''0812'', rb_blood_type = JStr ''O+'', rb_address = JStr ''Bandung''\<rparr>"

lemmas auth_example_defs =
  example_bcrypt_def example_claims_def example_jwt_def example_user_def example_reg_def

section \<open>Lemmas\<close>

lemma secret_key_simps [simp]:
  "secret_key None = None"
  "k \<noteq> [] \<Longrightarrow> secret_key (Some k) = Some k"
  by (simp_all add: secret_key_def)

lemma js_split_no_sep: "c \<notin> set w \<Longrightarrow> js_split c w = [w]"
  by (induction w) (auto simp: Let_def)

lemma js_split_append_sep:
  "c \<notin> set w \<Longrightarrow> js_split c (w @ c # r) = w # js_split c r"
  by (induction w) (auto simp: Let_def)

lemma js_split_ne [simp]: "js_split c w \<noteq> []"
  by (induction w) (auto simp: Let_def)

lemma js_split_unfold:
  "js_split c v = takeWhile (\<lambda>x. x \<noteq> c) v #
     (case dropWhile (\<lambda>x. x \<noteq> c) v of [] \<Rightarrow> [] | _ # r \<Rightarrow> js_split c r)"
  by (induction v) (auto simp: Let_def split: list.split)

lemma js_split_nth0: "js_split c v ! 0 = takeWhile (\<lambda>x. x \<noteq> c) v"
  by (subst js_split_unfold) simp

lemma bearer_token_word:
  assumes "CHR '' '' \<notin> set sch" and "CHR '' '' \<notin> set t" and "t \<noteq> []"
  shows "bearer_token (Some (sch @ CHR '' '' # t)) = Some t"
  using assms by (simp add: bearer_token_def js_split_append_sep js_split_no_sep js_index_def)

lemma bearer_token_double_space:
  assumes "CHR '' '' \<notin> set sch"
  shows "bearer_token (Some (sch @ CHR '' '' # CHR '' '' # t)) = None"
  using assms by (simp add: bearer_token_def js_split_append_sep js_index_def)

lemma bearer_token_one_word:
  "CHR '' '' \<notin> set v \<Longrightarrow> bearer_token (Some v) = None"
  by (simp add: bearer_token_def js_split_no_sep js_index_def)

lemma register_check_None:
  "register_check s b = None \<longleftrightarrow>
     register_fields b \<and> (\<exists>e. sql_text (rb_email b) = Some e \<and> users_with_email s e = [])"
  by (auto simp: register_check_def split: option.split)

lemma user_of_body_Some:
  "user_of_body i h b = Some u \<Longrightarrow>
     u_id u = i \<and> u_password u = h \<and> sql_text (rb_email b) = Some (u_email u)"
  by (auto simp: user_of_body_def split: bind_split_asm)

lemma register_created:
  assumes "register bc uniq s b = (r, s')" and "http_status r = 201"
  obtains p u where "register_check s b = None" "rb_password b = JStr p"
    "user_of_body (next_user_id s) (bc_hash bc p) b = Some u"
    "s' = s\<lparr>users := users s @ [u], next_user_id := next_user_id s + 1\<rparr>"
proof -
  have c: "register_check s b = None"
    using assms by (auto simp: register_def register_check_def fail_def register_error_def
                         split: option.splits if_splits)
  then have ins: "register_insert bc uniq s b = (r, s')" using assms(1) by (simp add: register_def)
  then obtain p where p: "rb_password b = JStr p"
    using assms(2) by (cases "rb_password b") (auto simp: register_insert_def register_error_def fail_def)
  with ins assms(2) obtain u where u: "user_of_body (next_user_id s) (bc_hash bc p) b = Some u"
    by (auto simp: register_insert_def register_error_def fail_def split: option.splits)
  with ins p assms(2) have "insert_user uniq s u = Some s'"
    by (auto simp: register_insert_def register_error_def fail_def ok_msg_data_def split: option.splits)
  then have "s' = s\<lparr>users := users s @ [u], next_user_id := next_user_id s + 1\<rparr>"
    by (auto simp: insert_user_def split: if_splits)
  with c p u show ?thesis by (rule that)
qed

text \<open>
  A registration whose email is already in the users table is answered 400
  (\<open>Email sudah terdaftar\<close>) and changes nothing.
\<close>

theorem register_duplicate_rejected:
  assumes "register_fields b" and "sql_text (rb_email b) = Some e" and "users_with_email s e \<noteq> []"
  shows "register bc uniq s b = (fail 400 ''Email sudah terdaftar'', s)"
  using assms by (simp add: register_def register_check_def)

theorem register_duplicate_rejected_witness:
  "register example_bcrypt False (initial_db [example_user] [] []) example_reg =
     (fail 400 ''Email sudah terdaftar'', initial_db [example_user] [] [])"
  by (rule register_duplicate_rejected [of _ "''sari@mail.id''"])
     (simp_all add: auth_example_defs register_fields_def users_with_email_def initial_db_def)

text \<open>
  A registration with a missing or falsy field is answered 400 and changes
  nothing.
\<close>

theorem register_missing_field_rejected:
  assumes "\<not> register_fields b"
  shows "register bc uniq s b = (fail 400 ''Semua field harus diisi'', s)"
  using assms by (simp add: register_def register_check_def)

theorem register_missing_field_rejected_witness:
  "register example_bcrypt False (initial_db [] [] []) (example_reg\<lparr>rb_phone := JStr []\<rparr>) =
     (fail 400 ''Semua field harus diisi'', initial_db [] [] [])"
  by (rule register_missing_field_rejected) (simp add: example_reg_def register_fields_def)

text \<open>
  C20. A registration answered 201 appended exactly one user, with the
  counter's id, the bcrypt hash of the password (never the password itself)
  and an email no earlier user had; the other tables are untouched.
\<close>

theorem register_success:
  assumes "register bc uniq s b = (r, s')" and "http_status r = 201"
  shows "\<exists>p u. rb_password b = JStr p \<and> users s' = users s @ [u] \<and> u_id u = next_user_id s \<and>
           u_password u = bc_hash bc p \<and> sql_text (rb_email b) = Some (u_email u) \<and>
           users_with_email s (u_email u) = [] \<and> next_user_id s' = next_user_id s + 1 \<and>
           donations s' = donations s \<and> blood_banks s' = blood_banks s \<and> blood_stock s' = blood_stock s"
proof -
  from assms obtain p u where c: "register_check s b = None" and p: "rb_password b = JStr p"
      and u: "user_of_body (next_user_id s) (bc_hash bc p) b = Some u"
      and s': "s' = s\<lparr>users := users s @ [u], next_user_id := next_user_id s + 1\<rparr>"
    by (rule register_created)
  from user_of_body_Some [OF u] have u': "u_id u = next_user_id s" "u_password u = bc_hash bc p"
      "sql_text (rb_email b) = Some (u_email u)" by simp_all
  with c have "users_with_email s (u_email u) = []" by (auto simp: register_check_None)
  with p s' u' show ?thesis by auto
qed

theorem register_success_witness:
  "http_status (fst (register example_bcrypt False (initial_db [] [] []) example_reg)) = 201 \<and>
   users (snd (register example_bcrypt False (initial_db [] [] []) example_reg)) =
     [\<lparr>u_id = 1, u_name = ''Sari'', u_email = ''sari@mail.id'', u_password = ''$2a$10$rahasia'',
       u_phone = ''0812'', u_blood_type = ''O+'', u_address = ''Bandung''\<rparr>]"
proof -
  let ?R = "register example_bcrypt False (initial_db [] [] []) example_reg"
  have st: "http_status (fst ?R) = 201"
    by (simp add: register_def register_check_def register_insert_def user_of_body_def insert_user_def
                  auth_example_defs register_fields_def users_with_email_def initial_db_def ok_msg_data_def)
  from register_success [OF prod.collapse [symmetric] st] obtain p u
    where "rb_password example_reg = JStr p" and "users (snd ?R) = users (initial_db [] [] []) @ [u]"
      and "u_id u = next_user_id (initial_db [] [] [])" and "u_password u = bc_hash example_bcrypt p"
      and "sql_text (rb_email example_reg) = Some (u_email u)"
    by blast
  moreover have "users (snd ?R) = [\<lparr>u_id = 1, u_name = ''Sari'', u_email = ''sari@mail.id'', u_password = ''$2a$10$rahasia'',
       u_phone = ''0812'', u_blood_type = ''O+'', u_address = ''Bandung''\<rparr>]"
    by (simp add: register_def register_check_def register_insert_def user_of_body_def insert_user_def
                  auth_example_defs register_fields_def users_with_email_def initial_db_def)
  ultimately show ?thesis using st by simp
qed

text \<open>
  Run alone, registration keeps the emails of the users table distinct:
  the check precedes the insert.
\<close>

theorem register_keeps_emails_unique:
  assumes "distinct (map u_email (users s))" and "register bc uniq s b = (r, s')"
  shows "distinct (map u_email (users s'))"
proof (cases "http_status r = 201")
  case True
  with assms(2) obtain p u where c: "register_check s b = None"
      and u: "user_of_body (next_user_id s) (bc_hash bc p) b = Some u"
      and s': "s' = s\<lparr>users := users s @ [u], next_user_id := next_user_id s + 1\<rparr>"
    by (rule register_created)
  from c user_of_body_Some [OF u] have "users_with_email s (u_email u) = []"
    by (auto simp: register_check_None)
  then have "u_email u \<notin> set (map u_email (users s))"
    by (auto simp: users_with_email_def filter_empty_conv)
  with assms(1) s' show ?thesis by simp
next
  case False
  with assms(2) have "s' = s"
    by (auto simp: register_def register_insert_def ok_msg_data_def split: option.splits jval.splits)
  with assms(1) show ?thesis by simp
qed

theorem register_keeps_emails_unique_witness:
  "distinct (map u_email (users (snd (register example_bcrypt False (initial_db [example_user] [] [])
      (example_reg\<lparr>rb_email := JStr ''budi@mail.id''\<rparr>)))))"
  by (rule register_keeps_emails_unique [OF _ prod.collapse [symmetric]])
     (simp add: initial_db_def)

lemma wf_register: "wf_response (fst (register bc uniq s b))"
  by (simp add: register_def register_check_def register_insert_def register_error_def
           split: option.split jval.split)

lemma wf_login: "wf_response (login bc jw k now s em pw)"
  by (simp add: login_def login_fail_def login_error_def split: option.split list.split jval.split)

lemma login_fields:
  "e \<noteq> [] \<Longrightarrow> p \<noteq> [] \<Longrightarrow>
   login bc jw secret now s (JStr e) (JStr p) =
     (case users_with_email s e of
        [] \<Rightarrow> login_fail
      | u # _ \<Rightarrow>
          if \<not> bc_compare bc p (u_password u) then login_fail
          else (case secret_key secret of
                  None \<Rightarrow> login_error
                | Some k \<Rightarrow>
                    ok_msg_data 200 ''Login berhasil''
                      (LoggedIn (profile_of u)
                         (jwt_sign jw k \<lparr>jc_id = u_id u, jc_email = u_email u,
                                         jc_iat = now, jc_exp = now + token_lifetime\<rparr>))))"
  by (simp add: login_def split: list.split)

text \<open>
  C15. Round trip: with a bcrypt whose compare accepts the hash of a password,
  a login with the email and password of a successful registration succeeds
  for the new user and receives the token signed over its id and email, valid
  for seven days.
\<close>

theorem login_after_register:
  assumes "register bc uniq s b = (r, s')" and "http_status r = 201"
    and "rb_email b = JStr e" and "rb_password b = JStr p" and "bc_compare bc p (bc_hash bc p)"
    and "k \<noteq> []"
  shows "\<exists>u. users s' = users s @ [u] \<and>
           login bc jw (Some k) now s' (JStr e) (JStr p) =
             ok_msg_data 200 ''Login berhasil''
               (LoggedIn (profile_of u)
                  (jwt_sign jw k \<lparr>jc_id = next_user_id s, jc_email = e, jc_iat = now,
                                  jc_exp = now + token_lifetime\<rparr>))"
proof -
  from assms(1,2) obtain q u where c: "register_check s b = None" and q: "rb_password b = JStr q"
      and u: "user_of_body (next_user_id s) (bc_hash bc q) b = Some u"
      and s': "s' = s\<lparr>users := users s @ [u], next_user_id := next_user_id s + 1\<rparr>"
    by (rule register_created)
  from q assms(4) have qp: "q = p" by simp
  from user_of_body_Some [OF u] assms(3) qp
  have u': "u_id u = next_user_id s" "u_password u = bc_hash bc p" "u_email u = e" by simp_all
  from c assms(3,4) have ne: "e \<noteq> []" "p \<noteq> []" and none: "users_with_email s e = []"
    by (auto simp: register_check_None register_fields_def)
  have "users_with_email s' e = [u]"
    using none s' u'(3) by (simp add: users_with_email_def)
  with ne u' assms(5,6) s' show ?thesis by (simp add: login_fields)
qed

theorem login_after_register_witness:
  "\<exists>u. users (snd (register example_bcrypt False (initial_db [] [] []) example_reg)) = [u] \<and>
     login example_bcrypt example_jwt (Some ''s'') 0
        (snd (register example_bcrypt False (initial_db [] [] []) example_reg))
        (JStr ''sari@mail.id'') (JStr ''rahasia'') =
     ok_msg_data 200 ''Login berhasil'' (LoggedIn (profile_of u) ''eyJ.s'')"
proof -
  let ?R = "register example_bcrypt False (initial_db [] [] []) example_reg"
  have st: "http_status (fst ?R) = 201"
    by (simp add: register_def register_check_def register_insert_def user_of_body_def insert_user_def
                  auth_example_defs register_fields_def users_with_email_def initial_db_def ok_msg_data_def)
  from login_after_register [OF prod.collapse [symmetric] st,
      where e = "''sari@mail.id''" and p = "''rahasia''" and jw = example_jwt and k = "''s''" and now = 0]
  show ?thesis by (simp add: auth_example_defs initial_db_def)
qed

text \<open>
  Login does not reveal which emails are registered: an unknown email and
  a wrong password get the same 401 response, and these are the only cases
  answered with it.
\<close>

theorem login_rejects_alike:
  assumes "e \<noteq> []" and "p \<noteq> []"
  shows "login bc jw secret now s (JStr e) (JStr p) = login_fail \<longleftrightarrow>
           (case users_with_email s e of [] \<Rightarrow> True | u # _ \<Rightarrow> \<not> bc_compare bc p (u_password u))"
  using assms
  by (simp add: login_fields login_fail_def login_error_def fail_def ok_msg_data_def
           split: list.split option.split)

theorem login_rejects_alike_witness:
  "login example_bcrypt example_jwt (Some ''s'') 0 (initial_db [example_user] [] [])
     (JStr ''sari@mail.id'') (JStr ''salah'') = login_fail \<and>
   login example_bcrypt example_jwt (Some ''s'') 0 (initial_db [example_user] [] [])
     (JStr ''budi@mail.id'') (JStr ''rahasia'') = login_fail"
  using login_rejects_alike [of "''sari@mail.id''" "''salah''" example_bcrypt example_jwt "Some ''s''" 0
          "initial_db [example_user] [] []"]
        login_rejects_alike [of "''budi@mail.id''" "''rahasia''" example_bcrypt example_jwt "Some ''s''" 0
          "initial_db [example_user] [] []"]
  by (simp add: auth_example_defs users_with_email_def initial_db_def)

lemma authenticate_token_word:
  assumes "CHR '' '' \<notin> set sch" and "CHR '' '' \<notin> set t" and "t \<noteq> []" and "k \<noteq> []"
  shows "authenticate_token jw (Some k) now (Some (sch @ CHR '' '' # t)) =
           (case jwt_verify jw k t now of
              None \<Rightarrow> GateReject 403 ''Token tidak valid atau expired'' | Some c \<Rightarrow> GatePass c)"
  using assms by (simp add: authenticate_token_def bearer_token_word)

text \<open>
  C30. The token gate does not check the scheme word of the Authorization
  header: any word without a space before the token (Basic, Token, the empty
  word) is treated as Bearer.
\<close>

theorem gate_ignores_scheme:
  assumes "CHR '' '' \<notin> set sch" and "CHR '' '' \<notin> set t" and "t \<noteq> []" and "k \<noteq> []"
  shows "authenticate_token jw (Some k) now (Some (sch @ CHR '' '' # t)) =
         authenticate_token jw (Some k) now (Some (''Bearer'' @ CHR '' '' # t))"
  using authenticate_token_word [OF assms] authenticate_token_word [of "''Bearer''" t, OF _ assms(2,3,4)]
  by simp

theorem gate_ignores_scheme_witness:
  "authenticate_token example_jwt (Some ''s'') 0 (Some ''Basic eyJ.s'') =
   authenticate_token example_jwt (Some ''s'') 0 (Some ''Bearer eyJ.s'') \<and>
   authenticate_token example_jwt (Some ''s'') 0 (Some ''Basic eyJ.s'') = GatePass example_claims"
proof -
  have "authenticate_token example_jwt (Some ''s'') 0 (Some (''Basic'' @ CHR '' '' # ''eyJ.s'')) =
        authenticate_token example_jwt (Some ''s'') 0 (Some (''Bearer'' @ CHR '' '' # ''eyJ.s''))"
    by (rule gate_ignores_scheme) simp_all
  moreover have "authenticate_token example_jwt (Some ''s'') 0 (Some ''Bearer eyJ.s'') = GatePass example_claims"
    by (simp add: authenticate_token_def bearer_token_def js_index_def example_jwt_def token_lifetime_def)
  ultimately show ?thesis by simp
qed

text \<open>
  A header with two spaces between the scheme and the token is rejected
  401 as if it had no token, since \<open>split(' ')[1]\<close> is then the
  empty string.
\<close>

theorem gate_double_space:
  assumes "CHR '' '' \<notin> set sch"
  shows "authenticate_token jw secret now (Some (sch @ CHR '' '' # CHR '' '' # t)) =
           GateReject 401 ''Access token tidak ditemukan''"
  using assms by (simp add: authenticate_token_def bearer_token_double_space)

theorem gate_double_space_witness:
  "authenticate_token example_jwt (Some ''s'') 0 (Some ''Bearer  eyJ.s'') =
     GateReject 401 ''Access token tidak ditemukan''"
  using gate_double_space [of "''Bearer''" example_jwt "Some ''s''" 0 "''eyJ.s''"] by simp

text \<open>
  C23. Round trip between login and the gate: given the jsonwebtoken contract
  for the token login issued, the gate accepts it with the user's id and email
  until seven days after the login and rejects it 403 afterwards.
\<close>

theorem login_token_accepted_until_expiry:
  assumes "data (login bc jw (Some k) now s em pw) = Some (LoggedIn pr tok)"
    and "jwt_verify jw k (jwt_sign jw k \<lparr>jc_id = p_id pr, jc_email = p_email pr, jc_iat = now,
            jc_exp = now + token_lifetime\<rparr>) t =
         (if t < now + token_lifetime
          then Some \<lparr>jc_id = p_id pr, jc_email = p_email pr, jc_iat = now, jc_exp = now + token_lifetime\<rparr>
          else None)"
    and "CHR '' '' \<notin> set tok" and "tok \<noteq> []"
  shows "authenticate_token jw (Some k) t (Some (''Bearer '' @ tok)) =
           (if t < now + token_lifetime
            then GatePass \<lparr>jc_id = p_id pr, jc_email = p_email pr, jc_iat = now, jc_exp = now + token_lifetime\<rparr>
            else GateReject 403 ''Token tidak valid atau expired'')"
proof -
  from assms(1) have "k \<noteq> [] \<and> tok = jwt_sign jw k \<lparr>jc_id = p_id pr, jc_email = p_email pr, jc_iat = now,
            jc_exp = now + token_lifetime\<rparr>"
    by (auto simp: login_def login_fail_def login_error_def fail_def ok_msg_data_def profile_of_def
             secret_key_def split: if_splits option.splits list.splits jval.splits)
  with assms(2,3,4) show ?thesis
    using authenticate_token_word [of "''Bearer''" tok k jw t] by simp
qed

theorem login_token_accepted_until_expiry_witness:
  "authenticate_token example_jwt (Some ''s'') 100 (Some (''Bearer '' @ ''eyJ.s'')) = GatePass example_claims \<and>
   data (login example_bcrypt example_jwt (Some ''s'') 0 (initial_db [example_user] [] [])
      (JStr ''sari@mail.id'') (JStr ''rahasia'')) = Some (LoggedIn (profile_of example_user) ''eyJ.s'')"
proof -
  have l: "data (login example_bcrypt example_jwt (Some ''s'') 0 (initial_db [example_user] [] [])
      (JStr ''sari@mail.id'') (JStr ''rahasia'')) = Some (LoggedIn (profile_of example_user) ''eyJ.s'')"
    by (simp add: login_def auth_example_defs users_with_email_def initial_db_def ok_msg_data_def)
  have "authenticate_token example_jwt (Some ''s'') 100 (Some (''Bearer '' @ ''eyJ.s'')) =
          (if 100 < 0 + token_lifetime
           then GatePass \<lparr>jc_id = p_id (profile_of example_user), jc_email = p_email (profile_of example_user),
                          jc_iat = 0, jc_exp = 0 + token_lifetime\<rparr>
           else GateReject 403 ''Token tidak valid atau expired'')"
    by (rule login_token_accepted_until_expiry [OF l])
       (simp_all add: example_jwt_def example_claims_def profile_of_def example_user_def token_lifetime_def)
  with l show ?thesis
    by (simp add: example_claims_def profile_of_def example_user_def token_lifetime_def)
qed

text \<open>
  C24. Token extraction: \<open>authHeader && authHeader.split(' ')[1]\<close>, with an
  empty result read as missing, is the run of non-space characters after the
  first space of the header.
\<close>

theorem bearer_token_equiv: "bearer_token h = bearer_ref h"
proof (cases h)
  case (Some v)
  show ?thesis
  proof (cases "dropWhile (\<lambda>x. x \<noteq> CHR '' '') v")
    case Nil
    then have "CHR '' '' \<notin> set v" by (auto simp: dropWhile_eq_Nil_conv)
    with Some Nil show ?thesis by (simp add: bearer_ref_def bearer_token_one_word)
  next
    case (Cons x r)
    then have "v \<noteq> []" by auto
    moreover have "js_split CHR '' '' v = takeWhile (\<lambda>x. x \<noteq> CHR '' '') v # js_split CHR '' '' r"
      using Cons by (subst js_split_unfold) simp
    ultimately show ?thesis
      using Some Cons by (simp add: bearer_token_def bearer_ref_def js_index_def js_split_nth0 Let_def)
  qed
qed (simp add: bearer_token_def bearer_ref_def)

end
