(* ===== verification/Profile.thy ===== *)
theory Profile
  imports Auth
begin

text \<open>
  The profile and password routes of \<open>routes/users.js\<close>: reading a profile
  (without the password), updating the four editable fields, and changing the
  password after checking the old one with \<open>bcrypt.compare\<close>. None of them
  writes the \<open>email\<close> column, which the file's header promises cannot be
  changed. The \<open>created_at\<close> column the profile query also selects is filled by
  the store and not modelled.
\<close>

section \<open>Requests\<close>

record profile_body =
  pb_name :: jval
  pb_phone :: jval
  pb_blood_type :: jval
  pb_address :: jval

record password_body =
  pw_old :: jval
  pw_new :: jval

datatype user_data = UProfile profile

text \<open>\<open>SELECT \<dots> FROM users WHERE id = ?\<close>\<close>

definition users_with_id :: "db \<Rightarrow> row_id \<Rightarrow> user_row list" where
  "users_with_id s i = filter (\<lambda>u. u_id u = i) (users s)"

section \<open>GET /profile/:id\<close>

definition get_profile :: "db \<Rightarrow> row_id \<Rightarrow> user_data response" where
  "get_profile s i =
     (case users_with_id s i of
        [] \<Rightarrow> fail 404 ''User tidak ditemukan''
      | u # _ \<Rightarrow> ok_data 200 (UProfile (profile_of u)))"

section \<open>PUT /profile/:id\<close>

text \<open>\<open>UPDATE users SET name = ?, phone = ?, blood_type = ?, address = ? WHERE id = ?\<close>\<close>

definition set_profile :: "row_id \<Rightarrow> string \<Rightarrow> string \<Rightarrow> string \<Rightarrow> string \<Rightarrow> user_row \<Rightarrow> user_row" where
  "set_profile i n ph bt a u =
     (if u_id u = i then u\<lparr>u_name := n, u_phone := ph, u_blood_type := bt, u_address := a\<rparr> else u)"

definition update_profile :: "db \<Rightarrow> row_id \<Rightarrow> profile_body \<Rightarrow> user_data response \<times> db" where
  "update_profile s i b =
     (if \<not> truthy (pb_name b) \<or> \<not> truthy (pb_phone b) \<or> \<not> truthy (pb_blood_type b) \<or>
         \<not> truthy (pb_address b)
      then (fail 400 ''Semua field harus diisi'', s)
      else case (sql_text (pb_name b), sql_text (pb_phone b), sql_text (pb_blood_type b),
                 sql_text (pb_address b)) of
        (Some n, Some ph, Some bt, Some a) \<Rightarrow>
          (ok_msg 200 ''Profile berhasil diupdate'', s\<lparr>users := map (set_profile i n ph bt a) (users s)\<rparr>)
      | _ \<Rightarrow> (fail 500 ''Gagal mengupdate profile'', s))"

section \<open>PUT /password/:id\<close>

text \<open>\<open>UPDATE users SET password = ? WHERE id = ?\<close>\<close>

definition set_password :: "row_id \<Rightarrow> string \<Rightarrow> user_row \<Rightarrow> user_row" where
  "set_password i h u = (if u_id u = i then u\<lparr>u_password := h\<rparr> else u)"

text \<open>
  \<open>bcrypt.compare\<close> and \<open>bcrypt.hash\<close> throw on a non-string argument, which
  the \<open>catch\<close> answers 500.
\<close>

definition update_password :: "bcrypt \<Rightarrow> db \<Rightarrow> row_id \<Rightarrow> password_body \<Rightarrow> user_data response \<times> db" where
  "update_password bc s i b =
     (if \<not> truthy (pw_old b) \<or> \<not> truthy (pw_new b)
      then (fail 400 ''Password lama dan baru harus diisi'', s)
      else case users_with_id s i of
        [] \<Rightarrow> (fail 404 ''User tidak ditemukan'', s)
      | u # _ \<Rightarrow>
          (case (pw_old b, pw_new b) of
             (JStr p, JStr q) \<Rightarrow>
               if \<not> bc_compare bc p (u_password u) then (fail 401 ''Password lama salah'', s)
               else (ok_msg 200 ''Password berhasil diupdate'',
                     s\<lparr>users := map (set_password i (bc_hash bc q)) (users s)\<rparr>)
           | (JStr p, _) \<Rightarrow>
               if \<not> bc_compare bc p (u_password u) then (fail 401 ''Password lama salah'', s)
               else (fail 500 ''Gagal mengupdate password'', s)
           | _ \<Rightarrow> (fail 500 ''Gagal mengupdate password'', s)))"

text \<open>
  The route's two phases, between which other requests may run (each
  \<open>await\<close> yields): the check (validation, the \<open>SELECT\<close>, \<open>bcrypt.compare\<close>),
  which answers or lets the request go on, and the write (\<open>bcrypt.hash\<close>
  and the \<open>UPDATE\<close>).
\<close>

definition password_check :: "bcrypt \<Rightarrow> db \<Rightarrow> row_id \<Rightarrow> password_body \<Rightarrow> user_data response option" where
  "password_check bc s i b =
     (if \<not> truthy (pw_old b) \<or> \<not> truthy (pw_new b)
      then Some (fail 400 ''Password lama dan baru harus diisi'')
      else case users_with_id s i of
        [] \<Rightarrow> Some (fail 404 ''User tidak ditemukan'')
      | u # _ \<Rightarrow>
          (case pw_old b of
             JStr p \<Rightarrow> if \<not> bc_compare bc p (u_password u) then Some (fail 401 ''Password lama salah'') else None
           | _ \<Rightarrow> Some (fail 500 ''Gagal mengupdate password'')))"

definition password_write :: "bcrypt \<Rightarrow> db \<Rightarrow> row_id \<Rightarrow> password_body \<Rightarrow> user_data response \<times> db" where
  "password_write bc s i b =
     (case pw_new b of
        JStr q \<Rightarrow> (ok_msg 200 ''Password berhasil diupdate'',
                   s\<lparr>users := map (set_password i (bc_hash bc q)) (users s)\<rparr>)
      | _ \<Rightarrow> (fail 500 ''Gagal mengupdate password'', s))"

section \<open>Lemmas\<close>

lemma set_profile_fields [simp]:
  "u_id (set_profile i n ph bt a u) = u_id u"
  "u_email (set_profile i n ph bt a u) = u_email u"
  "u_password (set_profile i n ph bt a u) = u_password u"
  by (simp_all add: set_profile_def)

lemma set_password_fields [simp]:
  "u_id (set_password i h u) = u_id u"
  "u_email (set_password i h u) = u_email u"
  by (simp_all add: set_password_def)

lemma users_with_id_unique:
  "distinct (map u_id (users s)) \<Longrightarrow> u \<in> set (users s) \<Longrightarrow> users_with_id s (u_id u) = [u]"
  unfolding users_with_id_def by (rule filter_unique_key)

lemma update_profile_users:
  "\<exists>f. snd (update_profile s i b) = s\<lparr>users := map f (users s)\<rparr> \<and>
       (\<forall>u. u_id (f u) = u_id u \<and> u_email (f u) = u_email u)"
proof -
  have "snd (update_profile s i b) = s\<lparr>users := map id (users s)\<rparr> \<or>
        (\<exists>n ph bt a. snd (update_profile s i b) = s\<lparr>users := map (set_profile i n ph bt a) (users s)\<rparr>)"
    by (auto simp: update_profile_def split: option.split)
  then show ?thesis by (metis id_apply set_profile_fields(1,2))
qed

lemma update_password_users:
  "\<exists>f. snd (update_password bc s i b) = s\<lparr>users := map f (users s)\<rparr> \<and>
       (\<forall>u. u_id (f u) = u_id u \<and> u_email (f u) = u_email u)"
proof -
  have "snd (update_password bc s i b) = s\<lparr>users := map id (users s)\<rparr> \<or>
        (\<exists>h. snd (update_password bc s i b) = s\<lparr>users := map (set_password i h) (users s)\<rparr>)"
    by (auto simp: update_password_def split: list.split jval.split)
  then show ?thesis by (metis id_apply set_password_fields(1,2))
qed

lemma wf_user_routes:
  "wf_response (get_profile s i)"
  "wf_response (fst (update_profile s i b))"
  "wf_response (fst (update_password bc s i c))"
  by (simp_all add: get_profile_def update_profile_def update_password_def
      split: option.split list.split jval.split)

lemma users_with_id_map:
  "(\<And>u. u_id (f u) = u_id u) \<Longrightarrow> users_with_id (s\<lparr>users := map f (users s)\<rparr>) i = map f (users_with_id s i)"
  by (simp add: users_with_id_def filter_map comp_def)

lemma users_with_email_map:
  "(\<And>u. u_email (f u) = u_email u) \<Longrightarrow>
   users_with_email (s\<lparr>users := map f (users s)\<rparr>) e = map f (users_with_email s e)"
  by (simp add: users_with_email_def filter_map comp_def)

lemma users_with_email_unique:
  "distinct (map u_email (users s)) \<Longrightarrow> u \<in> set (users s) \<Longrightarrow> users_with_email s (u_email u) = [u]"
  unfolding users_with_email_def by (rule filter_unique_key)

lemma update_password_ok:
  assumes "users_with_id s i = [u]" and "update_password bc s i \<lparr>pw_old = JStr p, pw_new = JStr q\<rparr> = (r, s')"
    and "http_status r = 200"
  shows "p \<noteq> [] \<and> q \<noteq> [] \<and> bc_compare bc p (u_password u) \<and>
         s' = s\<lparr>users := map (set_password i (bc_hash bc q)) (users s)\<rparr>"
  using assms by (auto simp: update_password_def fail_def ok_msg_def split: if_splits)

lemma update_password_split:
  "update_password bc s i b =
     (case password_check bc s i b of Some r \<Rightarrow> (r, s) | None \<Rightarrow> password_write bc s i b)"
  by (simp add: update_password_def password_check_def password_write_def split: list.split jval.split)

lemma users_with_email_set_password:
  assumes "distinct (map u_email (users s))" and "u \<in> set (users s)"
  shows "users_with_email (s\<lparr>users := map (set_password (u_id u) h) (users s)\<rparr>) (u_email u) =
           [u\<lparr>u_password := h\<rparr>]"
  using users_with_email_unique [OF assms]
  by (simp add: users_with_email_map set_password_def)

section \<open>Properties of the profile routes\<close>

text \<open>
  The profile and password routes never change a user's id or email,
  whatever the request: the email stays as registered, as the header of
  \<open>routes/users.js\<close> promises.
\<close>

theorem user_routes_keep_emails:
  "map (\<lambda>u. (u_id u, u_email u)) (users (snd (update_profile s i b))) = map (\<lambda>u. (u_id u, u_email u)) (users s) \<and>
   map (\<lambda>u. (u_id u, u_email u)) (users (snd (update_password bc s j c))) = map (\<lambda>u. (u_id u, u_email u)) (users s)"
proof -
  obtain f where "snd (update_profile s i b) = s\<lparr>users := map f (users s)\<rparr>"
      and "\<forall>u. u_id (f u) = u_id u \<and> u_email (f u) = u_email u"
    using update_profile_users by blast
  moreover obtain g where "snd (update_password bc s j c) = s\<lparr>users := map g (users s)\<rparr>"
      and "\<forall>u. u_id (g u) = u_id u \<and> u_email (g u) = u_email u"
    using update_password_users by blast
  ultimately show ?thesis by simp
qed

text \<open>
  A password change whose old password does not match the stored hash is
  answered 401 and changes nothing.
\<close>

theorem update_password_wrong_old:
  assumes "users_with_id s i = u # us" and "truthy nw" and "p \<noteq> []"
    and "\<not> bc_compare bc p (u_password u)"
  shows "update_password bc s i \<lparr>pw_old = JStr p, pw_new = nw\<rparr> = (fail 401 ''Password lama salah'', s)"
  using assms by (cases nw) (simp_all add: update_password_def)

theorem update_password_wrong_old_witness:
  "update_password example_bcrypt (initial_db [example_user] [] []) 1
     \<lparr>pw_old = JStr ''salah'', pw_new = JStr ''baru123''\<rparr> =
   (fail 401 ''Password lama salah'', initial_db [example_user] [] [])"
  by (rule update_password_wrong_old [of _ _ example_user "[]"])
     (simp_all add: users_with_id_def initial_db_def auth_example_defs)

text \<open>
  A profile update for an id no user has changes nothing and, unless the
  body is incomplete or the store fails, still answers 200 with the success
  message: the route never reports \<open>User tidak ditemukan\<close>.
\<close>

theorem update_profile_missing_succeeds:
  assumes "i \<notin> u_id ` set (users s)" and "update_profile s i b = (r, s')" and "http_status r \<noteq> 500"
  shows "s' = s \<and> (r = ok_msg 200 ''Profile berhasil diupdate'' \<or> r = fail 400 ''Semua field harus diisi'')"
proof -
  have "map (set_profile i n ph bt a) (users s) = users s" for n ph bt a
    using assms(1) by (intro map_idI) (auto simp: set_profile_def)
  then show ?thesis using assms(2,3)
    by (auto simp: update_profile_def fail_def split: option.splits if_splits)
qed

theorem update_profile_missing_succeeds_witness:
  "snd (update_profile (initial_db [example_user] [] []) 2
      \<lparr>pb_name = JStr ''Budi'', pb_phone = JStr ''0813'', pb_blood_type = JStr ''A+'', pb_address = JStr ''Solo''\<rparr>) =
     initial_db [example_user] [] [] \<and>
   fst (update_profile (initial_db [example_user] [] []) 2
      \<lparr>pb_name = JStr ''Budi'', pb_phone = JStr ''0813'', pb_blood_type = JStr ''A+'', pb_address = JStr ''Solo''\<rparr>) =
     ok_msg 200 ''Profile berhasil diupdate''"
proof -
  let ?b = "\<lparr>pb_name = JStr ''Budi'', pb_phone = JStr ''0813'', pb_blood_type = JStr ''A+'', pb_address = JStr ''Solo''\<rparr>"
  let ?s = "initial_db [example_user] [] []"
  have st: "http_status (fst (update_profile ?s 2 ?b)) \<noteq> 500"
    by (simp add: update_profile_def ok_msg_def)
  have "snd (update_profile ?s 2 ?b) = ?s \<and>
        (fst (update_profile ?s 2 ?b) = ok_msg 200 ''Profile berhasil diupdate'' \<or>
         fst (update_profile ?s 2 ?b) = fail 400 ''Semua field harus diisi'')"
    by (rule update_profile_missing_succeeds [OF _ prod.collapse [symmetric] st])
       (simp add: initial_db_def example_user_def)
  moreover have "fst (update_profile ?s 2 ?b) \<noteq> fail 400 ''Semua field harus diisi''"
    by (simp add: update_profile_def ok_msg_def fail_def)
  ultimately show ?thesis by blast
qed

text \<open>
  C16. Round trip: after a successful password change (with unique ids and
  emails and a bcrypt that accepts the new hash), login with the new
  password succeeds for the same profile and login with the old password
  fails with the generic 401.
\<close>

theorem password_change_roundtrip:
  assumes "distinct (map u_id (users s))" and "distinct (map u_email (users s))"
    and "u \<in> set (users s)" and "u_email u \<noteq> []"
    and "update_password bc s (u_id u) \<lparr>pw_old = JStr old, pw_new = JStr new\<rparr> = (r, s')"
    and "http_status r = 200"
    and "bc_compare bc new (bc_hash bc new)" and "\<not> bc_compare bc old (bc_hash bc new)"
    and "k \<noteq> []"
  shows "login bc jw (Some k) now s' (JStr (u_email u)) (JStr new) =
           ok_msg_data 200 ''Login berhasil''
             (LoggedIn (profile_of u)
                (jwt_sign jw k \<lparr>jc_id = u_id u, jc_email = u_email u, jc_iat = now,
                                jc_exp = now + token_lifetime\<rparr>)) \<and>
         login bc jw secret now s' (JStr (u_email u)) (JStr old) = login_fail"
proof -
  let ?f = "set_password (u_id u) (bc_hash bc new)"
  have ok: "old \<noteq> [] \<and> new \<noteq> [] \<and> bc_compare bc old (u_password u) \<and>
            s' = s\<lparr>users := map ?f (users s)\<rparr>"
    using users_with_id_unique [OF assms(1,3)] assms(5,6) by (rule update_password_ok)
  then have "users_with_email s' (u_email u) = map ?f (users_with_email s (u_email u))"
    by (simp add: users_with_email_map)
  also have "\<dots> = [?f u]" using users_with_email_unique [OF assms(2,3)] by simp
  finally have e: "users_with_email s' (u_email u) = [u\<lparr>u_password := bc_hash bc new\<rparr>]"
    by (simp add: set_password_def)
  have p: "profile_of (u\<lparr>u_password := bc_hash bc new\<rparr>) = profile_of u"
    by (simp add: profile_of_def)
  show ?thesis using ok e p assms(4,7,8,9) by (simp add: login_fields)
qed

theorem password_change_roundtrip_witness:
  "login example_bcrypt example_jwt (Some ''s'') 0
      (snd (update_password example_bcrypt (initial_db [example_user] [] []) 1
         \<lparr>pw_old = JStr ''rahasia'', pw_new = JStr ''baru123''\<rparr>)) (JStr ''sari@mail.id'') (JStr ''baru123'') =
     ok_msg_data 200 ''Login berhasil'' (LoggedIn (profile_of example_user) ''eyJ.s'') \<and>
   login example_bcrypt example_jwt (Some ''s'') 0
      (snd (update_password example_bcrypt (initial_db [example_user] [] []) 1
         \<lparr>pw_old = JStr ''rahasia'', pw_new = JStr ''baru123''\<rparr>)) (JStr ''sari@mail.id'') (JStr ''rahasia'') =
     login_fail"
proof -
  let ?s = "initial_db [example_user] [] []"
  let ?b = "\<lparr>pw_old = JStr ''rahasia'', pw_new = JStr ''baru123''\<rparr>"
  have u: "example_user \<in> set (users ?s)" by (simp add: initial_db_def)
  have i: "u_id example_user = 1" and e: "u_email example_user = ''sari@mail.id''"
    by (simp_all add: example_user_def)
  have st: "http_status (fst (update_password example_bcrypt ?s (u_id example_user) ?b)) = 200"
    by (simp add: update_password_def users_with_id_def initial_db_def auth_example_defs ok_msg_def)
  from password_change_roundtrip [OF _ _ u _ prod.collapse [symmetric] st,
      where jw = example_jwt and k = "''s''" and now = 0 and secret = "Some ''s''"]
  show ?thesis by (simp add: i e initial_db_def auth_example_defs)
qed

text \<open>
  Round trip: a complete profile update of an existing user answers 200,
  and reading the profile afterwards returns the new name, phone, blood type
  and address with the unchanged id and email.
\<close>

theorem update_profile_roundtrip:
  assumes "distinct (map u_id (users s))" and "u \<in> set (users s)"
    and "n \<noteq> []" and "ph \<noteq> []" and "bt \<noteq> []" and "a \<noteq> []"
  shows "update_profile s (u_id u) \<lparr>pb_name = JStr n, pb_phone = JStr ph, pb_blood_type = JStr bt,
            pb_address = JStr a\<rparr> =
           (ok_msg 200 ''Profile berhasil diupdate'', s\<lparr>users := map (set_profile (u_id u) n ph bt a) (users s)\<rparr>) \<and>
         get_profile (s\<lparr>users := map (set_profile (u_id u) n ph bt a) (users s)\<rparr>) (u_id u) =
           ok_data 200 (UProfile \<lparr>p_id = u_id u, p_name = n, p_email = u_email u, p_phone = ph,
                                  p_blood_type = bt, p_address = a\<rparr>)"
proof -
  have "users_with_id (s\<lparr>users := map (set_profile (u_id u) n ph bt a) (users s)\<rparr>) (u_id u) =
        [set_profile (u_id u) n ph bt a u]"
    using users_with_id_unique [OF assms(1,2)] by (simp add: users_with_id_map)
  then show ?thesis using assms(3-6)
    by (simp add: update_profile_def get_profile_def set_profile_def profile_of_def)
qed

theorem update_profile_roundtrip_witness:
  "update_profile (initial_db [example_user] [] []) 1
      \<lparr>pb_name = JStr ''Sari W'', pb_phone = JStr ''0899'', pb_blood_type = JStr ''O-'', pb_address = JStr ''Bogor''\<rparr> =
     (ok_msg 200 ''Profile berhasil diupdate'', initial_db [example_user\<lparr>u_name := ''Sari W'', u_phone := ''0899'',
        u_blood_type := ''O-'', u_address := ''Bogor''\<rparr>] [] []) \<and>
   get_profile (initial_db [example_user\<lparr>u_name := ''Sari W'', u_phone := ''0899'',
        u_blood_type := ''O-'', u_address := ''Bogor''\<rparr>] [] []) 1 =
     ok_data 200 (UProfile \<lparr>p_id = 1, p_name = ''Sari W'', p_email = ''sari@mail.id'', p_phone = ''0899'',
                            p_blood_type = ''O-'', p_address = ''Bogor''\<rparr>)"
proof -
  let ?s = "initial_db [example_user] [] []"
  have u: "example_user \<in> set (users ?s)" by (simp add: initial_db_def)
  have m: "?s\<lparr>users := map (set_profile 1 ''Sari W'' ''0899'' ''O-'' ''Bogor'') (users ?s)\<rparr> =
           initial_db [example_user\<lparr>u_name := ''Sari W'', u_phone := ''0899'',
             u_blood_type := ''O-'', u_address := ''Bogor''\<rparr>] [] []"
    by (simp add: initial_db_def set_profile_def example_user_def)
  have i: "u_id example_user = 1" and e: "u_email example_user = ''sari@mail.id''"
    by (simp_all add: example_user_def)
  from update_profile_roundtrip [OF _ u, of "''Sari W''" "''0899''" "''O-''" "''Bogor''"]
  show ?thesis by (simp only: i e m) (simp add: initial_db_def)
qed

text \<open>
  C14. Lost password update: two password changes of one user with the right
  old password, both past their check before either writes, are both answered
  200, and the password of the first is then refused by login; the second
  write silently overrides the first.
\<close>

theorem password_change_race:
  assumes "distinct (map u_id (users s))" and "distinct (map u_email (users s))"
    and "u \<in> set (users s)" and "u_email u \<noteq> []"
    and "bc_compare bc p (u_password u)" and "p \<noteq> []" and "qa \<noteq> []" and "qb \<noteq> []"
    and "\<not> bc_compare bc qa (bc_hash bc qb)"
  shows "password_check bc s (u_id u) \<lparr>pw_old = JStr p, pw_new = JStr qa\<rparr> = None \<and>
         password_check bc s (u_id u) \<lparr>pw_old = JStr p, pw_new = JStr qb\<rparr> = None \<and>
         fst (password_write bc s (u_id u) \<lparr>pw_old = JStr p, pw_new = JStr qa\<rparr>) =
           ok_msg 200 ''Password berhasil diupdate'' \<and>
         fst (password_write bc (snd (password_write bc s (u_id u) \<lparr>pw_old = JStr p, pw_new = JStr qa\<rparr>))
                (u_id u) \<lparr>pw_old = JStr p, pw_new = JStr qb\<rparr>) = ok_msg 200 ''Password berhasil diupdate'' \<and>
         login bc jw secret now
           (snd (password_write bc (snd (password_write bc s (u_id u) \<lparr>pw_old = JStr p, pw_new = JStr qa\<rparr>))
                  (u_id u) \<lparr>pw_old = JStr p, pw_new = JStr qb\<rparr>))
           (JStr (u_email u)) (JStr qa) = login_fail"
proof -
  let ?s1 = "s\<lparr>users := map (set_password (u_id u) (bc_hash bc qa)) (users s)\<rparr>"
  let ?u1 = "set_password (u_id u) (bc_hash bc qa) u"
  have checks: "password_check bc s (u_id u) \<lparr>pw_old = JStr p, pw_new = JStr q\<rparr> = None" if "q \<noteq> []" for q
    using users_with_id_unique [OF assms(1,3)] assms(5,6) that by (simp add: password_check_def)
  have u1: "?u1 \<in> set (users ?s1)" using assms(3) by simp
  have d1: "distinct (map u_email (users ?s1))" using assms(2) by (simp add: comp_def)
  have "users_with_email (?s1\<lparr>users := map (set_password (u_id ?u1) (bc_hash bc qb)) (users ?s1)\<rparr>)
          (u_email ?u1) = [?u1\<lparr>u_password := bc_hash bc qb\<rparr>]"
    by (rule users_with_email_set_password [OF d1 u1])
  then have e: "users_with_email (?s1\<lparr>users := map (set_password (u_id u) (bc_hash bc qb)) (users ?s1)\<rparr>)
          (u_email u) = [?u1\<lparr>u_password := bc_hash bc qb\<rparr>]"
    by simp
  show ?thesis
    using checks assms(4,7,8,9) e by (simp add: password_write_def login_fields)
qed

theorem password_change_race_witness:
  "password_check example_bcrypt (initial_db [example_user] [] []) 1 \<lparr>pw_old = JStr ''rahasia'', pw_new = JStr ''satu''\<rparr> = None \<and>
   password_check example_bcrypt (initial_db [example_user] [] []) 1 \<lparr>pw_old = JStr ''rahasia'', pw_new = JStr ''dua''\<rparr> = None \<and>
   fst (password_write example_bcrypt (initial_db [example_user] [] []) 1 \<lparr>pw_old = JStr ''rahasia'', pw_new = JStr ''satu''\<rparr>) =
     ok_msg 200 ''Password berhasil diupdate'' \<and>
   fst (password_write example_bcrypt (snd (password_write example_bcrypt (initial_db [example_user] [] []) 1
          \<lparr>pw_old = JStr ''rahasia'', pw_new = JStr ''satu''\<rparr>)) 1 \<lparr>pw_old = JStr ''rahasia'', pw_new = JStr ''dua''\<rparr>) =
     ok_msg 200 ''Password berhasil diupdate'' \<and>
   login example_bcrypt example_jwt (Some ''s'') 0
     (snd (password_write example_bcrypt (snd (password_write example_bcrypt (initial_db [example_user] [] []) 1
          \<lparr>pw_old = JStr ''rahasia'', pw_new = JStr ''satu''\<rparr>)) 1 \<lparr>pw_old = JStr ''rahasia'', pw_new = JStr ''dua''\<rparr>))
     (JStr ''sari@mail.id'') (JStr ''satu'') = login_fail"
proof -
  have u: "example_user \<in> set (users (initial_db [example_user] [] []))" by (simp add: initial_db_def)
  have i: "u_id example_user = 1" and e: "u_email example_user = ''sari@mail.id''"
    by (simp_all add: example_user_def)
  from password_change_race [OF _ _ u, where bc = example_bcrypt and p = "''rahasia''" and qa = "''satu''"
      and qb = "''dua''" and jw = example_jwt and secret = "Some ''s''" and now = 0]
  show ?thesis by (simp add: i e initial_db_def auth_example_defs)
qed

end
