(* ===== verification/Server.thy ===== *)
theory Server
  imports Donations BloodBanks Users Profile
begin

text \<open>
  The application of \<open>server.js\<close>: the four routers mounted under \<open>/api\<close>,
  the index route and the final 404 handler, over requests that carry an
  \<open>Authorization\<close> header. \<open>serve\<close> dispatches a request to its handler exactly
  as the mounting does; no route passes through \<open>authenticateToken\<close>, which
  \<open>routes/donations.js\<close> imports but never applies. The second part models the
  registrations the server runs concurrently: each \<open>POST /register\<close> is a
  thread that suspends between its \<open>SELECT\<close> and its \<open>INSERT\<close>, and
  \<open>reg_step\<close> lets any thread take its next atomic store step. The third
  part puts the body parsers and the global error handler in front of the
  routes (\<open>app_step\<close>). The lemmas show which answers have the envelope
  (\<open>wf_response\<close>), the invariants kept by requests handled one at a time,
  and the race of concurrent registrations.
\<close>

section \<open>Requests and the router\<close>

datatype api_route =
    RRegister reg_body
  | RLogin jval jval
  | RProfile row_id
  | RUpdateProfile row_id profile_body
  | RUpdatePassword row_id password_body
  | RStats row_id
  | RBanks "string option" "string option"
  | RBank row_id
  | RBankStock row_id
  | RDonation donation_req
  | RIndex
  | RUnknown string

record http_req =
  hr_authorization :: "string option"
  hr_route :: api_route

datatype api_data =
    AAuth auth_data
  | AUser user_data
  | AStats stats
  | ABank bank_data
  | ADonation donation_data

text \<open>The environment of the process: the two libraries, \<open>JWT_SECRET\<close>, the clock, the schema.\<close>

record server_env =
  env_bcrypt :: bcrypt
  env_jwt :: jwt_lib
  env_secret :: "string option"
  env_now :: nat
  env_email_unique :: bool

definition map_response :: "('a \<Rightarrow> 'b) \<Rightarrow> 'a response \<Rightarrow> 'b response" where
  "map_response f r =
     \<lparr>http_status = http_status r, success = success r, message = message r, data = map_option f (data r)\<rparr>"

definition lift_step :: "('a \<Rightarrow> 'b) \<Rightarrow> 'a response \<times> db \<Rightarrow> 'b response \<times> db" where
  "lift_step f rs = (map_response f (fst rs), snd rs)"

text \<open>
  \<open>GET /\<close>: \<open>res.json({message: 'Donor Darah API', version, endpoints})\<close>, status
  200, an object with no \<open>success\<close> and no \<open>data\<close> field (its constant
  \<open>version\<close> and \<open>endpoints\<close> fields are not modelled).
\<close>

definition index_answer :: "api_data response" where
  "index_answer = \<lparr>http_status = 200, success = None, message = Some ''Donor Darah API'', data = None\<rparr>"

fun serve_route :: "server_env \<Rightarrow> db \<Rightarrow> api_route \<Rightarrow> api_data response \<times> db" where
  "serve_route e s (RRegister b) = lift_step AAuth (register (env_bcrypt e) (env_email_unique e) s b)"
| "serve_route e s (RLogin em pw) =
     (map_response AAuth (login (env_bcrypt e) (env_jwt e) (env_secret e) (env_now e) s em pw), s)"
| "serve_route e s (RProfile i) = (map_response AUser (get_profile s i), s)"
| "serve_route e s (RUpdateProfile i b) = lift_step AUser (update_profile s i b)"
| "serve_route e s (RUpdatePassword i b) = lift_step AUser (update_password (env_bcrypt e) s i b)"
| "serve_route e s (RStats i) = (map_response AStats (get_user_stats s i), s)"
| "serve_route e s (RBanks la lo) = (map_response ABank (list_blood_banks s la lo), s)"
| "serve_route e s (RBank i) = (map_response ABank (get_blood_bank s i), s)"
| "serve_route e s (RBankStock i) = (map_response ABank (get_blood_stock s i), s)"
| "serve_route e s (RDonation rq) = lift_step ADonation (donation_handle s rq)"
| "serve_route e s RIndex = (index_answer, s)"
| "serve_route e s (RUnknown p) = (fail 404 ''Endpoint not found'', s)"

text \<open>\<open>app.use(...)\<close> in \<open>server.js\<close>: no middleware reads the \<open>Authorization\<close> header.\<close>

definition serve :: "server_env \<Rightarrow> db \<Rightarrow> http_req \<Rightarrow> api_data response \<times> db" where
  "serve e s rq = serve_route e s (hr_route rq)"

section \<open>Concurrent registrations\<close>

text \<open>
  The phases of one \<open>POST /register\<close>: not started, past its \<open>SELECT\<close> (waiting
  for \<open>bcrypt.hash\<close> and the \<open>INSERT\<close>), or answered.
\<close>

datatype reg_thread = RegStart reg_body | RegChecked reg_body | RegDone "auth_data response"

inductive reg_step :: "bcrypt \<Rightarrow> bool \<Rightarrow> db \<times> reg_thread list \<Rightarrow> db \<times> reg_thread list \<Rightarrow> bool" where
  check: "i < length ts \<Longrightarrow> ts ! i = RegStart b \<Longrightarrow>
          reg_step bc uniq (s, ts)
            (s, ts[i := (case register_check s b of Some r \<Rightarrow> RegDone r | None \<Rightarrow> RegChecked b)])"
| insert: "i < length ts \<Longrightarrow> ts ! i = RegChecked b \<Longrightarrow> register_insert bc uniq s b = (r, s') \<Longrightarrow>
          reg_step bc uniq (s, ts) (s', ts[i := RegDone r])"

abbreviation reg_steps :: "bcrypt \<Rightarrow> bool \<Rightarrow> db \<times> reg_thread list \<Rightarrow> db \<times> reg_thread list \<Rightarrow> bool" where
  "reg_steps bc uniq \<equiv> (reg_step bc uniq)\<^sup>*\<^sup>*"

inductive_cases reg_stepE: "reg_step bc uniq st st'"

section \<open>The server as a transition system\<close>

text \<open>
  The \<open>catch\<close> of each route: a route reaches the store once its validation has
  passed, and a failing statement is answered 500 with the route's message.
  Every handler writes with at most one statement, its last, so a failure
  leaves the database unchanged.
\<close>

fun route_fault :: "api_route \<Rightarrow> string option" where
  "route_fault (RRegister b) =
     (if register_fields b then Some ''Terjadi kesalahan saat registrasi'' else None)"
| "route_fault (RLogin em pw) =
     (if truthy em \<and> truthy pw then Some ''Terjadi kesalahan saat login'' else None)"
| "route_fault (RProfile i) = Some ''Gagal mengambil profil user''"
| "route_fault (RUpdateProfile i b) =
     (if truthy (pb_name b) \<and> truthy (pb_phone b) \<and> truthy (pb_blood_type b) \<and> truthy (pb_address b)
      then Some ''Gagal mengupdate profile'' else None)"
| "route_fault (RUpdatePassword i b) =
     (if truthy (pw_old b) \<and> truthy (pw_new b) then Some ''Gagal mengupdate password'' else None)"
| "route_fault (RStats i) = Some ''Gagal mengambil statistik user''"
| "route_fault (RBanks la lo) = Some ''Gagal mengambil data PMI''"
| "route_fault (RBank i) = Some ''Gagal mengambil data PMI''"
| "route_fault (RBankStock i) = Some ''Gagal mengambil data stok darah''"
| "route_fault (RDonation rq) = (if reaches_store rq then Some (fault_message rq) else None)"
| "route_fault RIndex = None"
| "route_fault (RUnknown p) = None"

inductive server_step :: "server_env \<Rightarrow> db \<Rightarrow> http_req \<Rightarrow> api_data response \<Rightarrow> db \<Rightarrow> bool" where
  served: "serve e s rq = (r, s') \<Longrightarrow> server_step e s rq r s'"
| store_fault: "route_fault (hr_route rq) = Some m \<Longrightarrow> server_step e s rq (fail 500 m) s"

text \<open>Requests handled one at a time from a database with no user and no donation.\<close>

inductive server_reachable :: "server_env \<Rightarrow> db \<Rightarrow> bool" where
  init: "server_reachable e (initial_db [] bs ss)"
| step: "server_reachable e s \<Longrightarrow> server_step e s rq r s' \<Longrightarrow> server_reachable e s'"

text \<open>
  The invariant of the users table: ids distinct, positive and below the
  \<open>AUTO_INCREMENT\<close> counter, emails distinct.
\<close>

definition users_inv :: "db \<Rightarrow> bool" where
  "users_inv s \<longleftrightarrow>
     0 < next_user_id s \<and> distinct (map u_id (users s)) \<and> distinct (map u_email (users s)) \<and>
     list_all (\<lambda>u. 0 < u_id u \<and> u_id u < next_user_id s) (users s)"

inductive_cases server_stepE: "server_step e s rq r s'"

text \<open>An environment built from the example instances of \<open>Auth\<close>.\<close>

definition example_env :: server_env where
  "example_env = \<lparr>env_bcrypt = example_bcrypt, env_jwt = example_jwt, env_secret = Some ''s'',
                   env_now = 0, env_email_unique = False\<rparr>"

section \<open>Body parsers and the error handler\<close>

text \<open>
  \<open>bodyParser.json()\<close> and \<open>bodyParser.urlencoded()\<close> run before every route.
  A body they cannot read (malformed JSON, over the size limit) makes them call
  \<open>next(err)\<close> with \<open>err.status\<close> (400 or 413) and a message; Express then skips
  every router, \<open>GET /\<close> and the 404 handler, none of which takes an error, and
  calls the four-argument handler, which answers 500 with \<open>err.message\<close>.
\<close>

datatype body_parse = BodyParsed | BodyRejected nat string

text \<open>A reply of the application: a route's envelope, or the error handler's
  status, \<open>success\<close>, \<open>message\<close> and \<open>error\<close>.\<close>

datatype app_reply = RouteReply "api_data response" | ErrorReply nat bool string string

definition error_handler :: "string \<Rightarrow> app_reply" where
  "error_handler m = ErrorReply 500 False ''Internal server error'' m"

inductive app_step :: "server_env \<Rightarrow> db \<Rightarrow> body_parse \<Rightarrow> http_req \<Rightarrow> app_reply \<Rightarrow> db \<Rightarrow> bool" where
  parsed: "server_step e s rq r s' \<Longrightarrow> app_step e s BodyParsed rq (RouteReply r) s'"
| rejected: "app_step e s (BodyRejected st m) rq (error_handler m) s"

inductive_cases app_step_rejectedE: "app_step e s (BodyRejected st m) rq out s'"

section \<open>Lemmas\<close>

lemma race_schedule:
  assumes "register_check s b1 = None" and "register_check s b2 = None"
  shows "reg_steps bc uniq (s, [RegStart b1, RegStart b2])
           (snd (register_insert bc uniq (snd (register_insert bc uniq s b1)) b2),
            [RegDone (fst (register_insert bc uniq s b1)),
             RegDone (fst (register_insert bc uniq (snd (register_insert bc uniq s b1)) b2))])"
proof -
  let ?i1 = "register_insert bc uniq s b1"
  let ?i2 = "register_insert bc uniq (snd ?i1) b2"
  have "reg_step bc uniq (s, [RegStart b1, RegStart b2]) (s, [RegChecked b1, RegStart b2])"
    using reg_step.check [of 0 "[RegStart b1, RegStart b2]" b1 bc uniq s] assms(1) by simp
  moreover have "reg_step bc uniq (s, [RegChecked b1, RegStart b2]) (s, [RegChecked b1, RegChecked b2])"
    using reg_step.check [of 1 "[RegChecked b1, RegStart b2]" b2 bc uniq s] assms(2) by simp
  moreover have "reg_step bc uniq (s, [RegChecked b1, RegChecked b2]) (snd ?i1, [RegDone (fst ?i1), RegChecked b2])"
    using reg_step.insert [of 0 "[RegChecked b1, RegChecked b2]" b1 bc uniq s "fst ?i1" "snd ?i1"] by simp
  moreover have "reg_step bc uniq (snd ?i1, [RegDone (fst ?i1), RegChecked b2])
                   (snd ?i2, [RegDone (fst ?i1), RegDone (fst ?i2)])"
    using reg_step.insert [of 1 "[RegDone (fst ?i1), RegChecked b2]" b2 bc uniq "snd ?i1"
                              "fst ?i2" "snd ?i2"] by simp
  ultimately show ?thesis by (meson converse_rtranclp_into_rtranclp rtranclp.rtrancl_refl)
qed

lemma race_checks_pass:
  "register_check (initial_db [] [] []) example_reg = None"
  "register_check (initial_db [] [] []) (example_reg\<lparr>rb_password := JStr ''lain''\<rparr>) = None"
  by (simp_all add: register_check_def register_fields_def example_reg_def users_with_email_def initial_db_def)

lemma donation_handle_other_tables:
  "users (snd (donation_handle s rq)) = users s \<and> next_user_id (snd (donation_handle s rq)) = next_user_id s \<and>
   blood_banks (snd (donation_handle s rq)) = blood_banks s \<and>
   blood_stock (snd (donation_handle s rq)) = blood_stock s"
  by (cases rq) (auto simp: create_donation_def update_donation_status_def delete_donation_def
                      split: option.split prod.split)

lemma register_other_tables:
  "donations (snd (register bc uniq s b)) = donations s \<and>
   next_donation_id (snd (register bc uniq s b)) = next_donation_id s \<and>
   blood_banks (snd (register bc uniq s b)) = blood_banks s \<and>
   blood_stock (snd (register bc uniq s b)) = blood_stock s"
  by (auto simp: register_def register_insert_def insert_user_def split: option.split jval.split)

lemma register_users_inv:
  assumes "users_inv s" shows "users_inv (snd (register bc uniq s b))"
proof (cases "http_status (fst (register bc uniq s b)) = 201")
  case True
  then obtain p u where c: "register_check s b = None"
      and u: "user_of_body (next_user_id s) (bc_hash bc p) b = Some u"
      and s': "snd (register bc uniq s b) = s\<lparr>users := users s @ [u], next_user_id := next_user_id s + 1\<rparr>"
    by (rule register_created [OF prod.collapse [symmetric]])
  from user_of_body_Some [OF u] have i: "u_id u = next_user_id s"
    and e: "sql_text (rb_email b) = Some (u_email u)" by simp_all
  from c e have "users_with_email s (u_email u) = []" by (auto simp: register_check_None)
  then have "u_email u \<notin> set (map u_email (users s))"
    by (auto simp: users_with_email_def filter_empty_conv)
  moreover have "u_id u \<notin> set (map u_id (users s))"
    using assms i by (auto simp: users_inv_def list_all_iff)
  ultimately show ?thesis using assms i s' by (auto simp: users_inv_def list_all_iff)
next
  case False
  then have "snd (register bc uniq s b) = s"
    by (auto simp: register_def register_insert_def ok_msg_data_def split: option.splits jval.splits)
  with assms show ?thesis by simp
qed

lemma users_inv_map:
  assumes "\<And>u. u_id (f u) = u_id u \<and> u_email (f u) = u_email u" and "users_inv s"
  shows "users_inv (s\<lparr>users := map f (users s)\<rparr>)"
proof -
  have "u_id \<circ> f = u_id" and "u_email \<circ> f = u_email" using assms(1) by (simp_all add: fun_eq_iff)
  with assms show ?thesis by (simp add: users_inv_def list_all_iff)
qed

lemma donation_inv_users_update [simp]: "donation_inv (s\<lparr>users := us\<rparr>) = donation_inv s"
  by (simp add: donation_inv_def)

lemma wf_map_response [simp]: "wf_response (map_response f r) = wf_response r"
  by (simp add: wf_response_def map_response_def)

lemma index_answer_not_wf: "\<not> wf_response index_answer"
  by (simp add: wf_response_def index_answer_def)

lemma serve_inv:
  assumes "donation_inv s \<and> users_inv s" and "serve e s rq = (r, s')"
  shows "donation_inv s' \<and> users_inv s'"
proof (cases "hr_route rq")
  case (RRegister b)
  then have s': "s' = snd (register (env_bcrypt e) (env_email_unique e) s b)"
    using assms(2) by (auto simp: serve_def lift_step_def)
  have "donation_inv s'" using assms(1) register_other_tables [of "env_bcrypt e" "env_email_unique e" s b]
    by (simp add: s' donation_inv_def)
  then show ?thesis using assms(1) s' by (simp add: register_users_inv)
next
  case (RUpdateProfile i b)
  obtain f where eq: "snd (update_profile s i b) = s\<lparr>users := map f (users s)\<rparr>"
      and f: "\<forall>u. u_id (f u) = u_id u \<and> u_email (f u) = u_email u"
    using update_profile_users by blast
  have "s' = s\<lparr>users := map f (users s)\<rparr>"
    using RUpdateProfile assms(2) eq by (auto simp: serve_def lift_step_def)
  with assms(1) f show ?thesis by (simp add: users_inv_map)
next
  case (RUpdatePassword i b)
  obtain f where eq: "snd (update_password (env_bcrypt e) s i b) = s\<lparr>users := map f (users s)\<rparr>"
      and f: "\<forall>u. u_id (f u) = u_id u \<and> u_email (f u) = u_email u"
    using update_password_users by blast
  have "s' = s\<lparr>users := map f (users s)\<rparr>"
    using RUpdatePassword assms(2) eq by (auto simp: serve_def lift_step_def)
  with assms(1) f show ?thesis by (simp add: users_inv_map)
next
  case (RDonation d)
  then have s': "s' = snd (donation_handle s d)" using assms(2) by (auto simp: serve_def lift_step_def)
  have "donation_inv s'"
    using assms(1) s' donation_handle_inv [of s d "fst (donation_handle s d)" s'] by simp
  moreover have "users_inv s'"
    using assms(1) donation_handle_other_tables [of s d] by (simp add: s' users_inv_def)
  ultimately show ?thesis by simp
qed (use assms in \<open>auto simp: serve_def\<close>)

section \<open>Properties of the server\<close>

text \<open>
  C7. No route is behind the token gate: a request with no
  \<open>Authorization\<close> header completes any donation and updates any
  user's profile.
\<close>

theorem unauthenticated_updates_served:
  "serve e s \<lparr>hr_authorization = None,
      hr_route = RDonation (ReqUpdateStatus i (JStr ''completed'') JUndef)\<rparr> =
     (map_response ADonation (ok_msg 200 ''Status donor berhasil diupdate''),
      s\<lparr>donations := map (set_status i Completed None) (donations s)\<rparr>) \<and>
   serve e s \<lparr>hr_authorization = None, hr_route = RUpdateProfile i b\<rparr> =
     lift_step AUser (update_profile s i b)"
proof -
  have "JStr ''completed'' = JStr (status_name Completed)" by simp
  then have "update_donation_status s i (JStr ''completed'') JUndef =
      (ok_msg 200 ''Status donor berhasil diupdate'', s\<lparr>donations := map (set_status i Completed None) (donations s)\<rparr>)"
    by (simp only: update_valid_status) simp
  then show ?thesis by (simp add: serve_def lift_step_def)
qed

text \<open>
  C8. The registration race: without a unique index, two registrations with
  the same email that both pass their check before either inserts are both
  answered 201, the users table then holds the email twice, and the second
  user can never log in, because login only checks the password of the first
  row with the email.
\<close>

theorem register_race_duplicates:
  "\<exists>s' r1 r2.
     reg_steps example_bcrypt False
       (initial_db [] [] [], [RegStart example_reg, RegStart (example_reg\<lparr>rb_password := JStr ''lain''\<rparr>)])
       (s', [RegDone r1, RegDone r2]) \<and>
     http_status r1 = 201 \<and> http_status r2 = 201 \<and>
     map u_email (users s') = [''sari@mail.id'', ''sari@mail.id''] \<and>
     login example_bcrypt example_jwt (Some ''s'') 0 s' (JStr ''sari@mail.id'') (JStr ''lain'') = login_fail"
proof -
  let ?b1 = "example_reg" and ?b2 = "example_reg\<lparr>rb_password := JStr ''lain''\<rparr>"
  let ?s0 = "initial_db [] [] []"
  let ?i1 = "register_insert example_bcrypt False ?s0 ?b1"
  let ?i2 = "register_insert example_bcrypt False (snd ?i1) ?b2"
  have run: "reg_steps example_bcrypt False (?s0, [RegStart ?b1, RegStart ?b2])
               (snd ?i2, [RegDone (fst ?i1), RegDone (fst ?i2)])"
    using race_checks_pass by (rule race_schedule)
  have u2: "users (snd ?i2) =
      [\<lparr>u_id = 1, u_name = ''Sari'', u_email = ''sari@mail.id'', u_password = ''$2a$10$rahasia'',
        u_phone = ''0812'', u_blood_type = ''O+'', u_address = ''Bandung''\<rparr>,
       \<lparr>u_id = 2, u_name = ''Sari'', u_email = ''sari@mail.id'', u_password = ''$2a$10$lain'',
        u_phone = ''0812'', u_blood_type = ''O+'', u_address = ''Bandung''\<rparr>]"
    by (simp add: register_insert_def user_of_body_def insert_user_def example_reg_def example_bcrypt_def
                  initial_db_def)
  have h1: "http_status (fst ?i1) = 201" and h2: "http_status (fst ?i2) = 201"
    by (simp_all add: register_insert_def user_of_body_def insert_user_def example_reg_def
                      example_bcrypt_def initial_db_def ok_msg_data_def)
  have l: "login example_bcrypt example_jwt (Some ''s'') 0 (snd ?i2) (JStr ''sari@mail.id'') (JStr ''lain'') =
           login_fail"
    unfolding login_def users_with_email_def u2 by (simp add: example_bcrypt_def login_fail_def)
  show ?thesis
  proof (intro exI conjI)
    show "reg_steps example_bcrypt False (?s0, [RegStart ?b1, RegStart ?b2])
            (snd ?i2, [RegDone (fst ?i1), RegDone (fst ?i2)])" by (rule run)
  qed (simp_all add: h1 h2 u2 l)
qed

text \<open>
  C12. The whole server, requests handled one at a time with store failures
  on every route, keeps both tables consistent: in every reachable database
  donation ids and user ids are distinct, positive and below their counters,
  and user emails are distinct.
\<close>

theorem server_reachable_inv:
  assumes "server_reachable e s"
  shows "donation_inv s \<and> users_inv s"
  using assms
proof (induction rule: server_reachable.induct)
  case (init bs ss)
  show ?case by (simp add: initial_db_def donation_inv_def users_inv_def)
next
  case (step s rq r s')
  from step.hyps(2) show ?case
  proof (cases rule: server_step.cases)
    case served
    with step.IH show ?thesis by (rule serve_inv)
  next
    case (store_fault m)
    with step.IH show ?thesis by simp
  qed
qed

theorem server_reachable_inv_witness:
  "server_reachable example_env
     (snd (serve example_env (initial_db [] [] []) \<lparr>hr_authorization = None, hr_route = RRegister example_reg\<rparr>)) \<and>
   users_inv (snd (serve example_env (initial_db [] [] []) \<lparr>hr_authorization = None, hr_route = RRegister example_reg\<rparr>)) \<and>
   map u_email (users (snd (serve example_env (initial_db [] [] [])
      \<lparr>hr_authorization = None, hr_route = RRegister example_reg\<rparr>))) = [''sari@mail.id'']"
proof -
  let ?rq = "\<lparr>hr_authorization = None, hr_route = RRegister example_reg\<rparr>"
  have "server_step example_env (initial_db [] [] []) ?rq (fst (serve example_env (initial_db [] [] []) ?rq))
          (snd (serve example_env (initial_db [] [] []) ?rq))"
    by (rule server_step.served) simp
  then have r: "server_reachable example_env (snd (serve example_env (initial_db [] [] []) ?rq))"
    by (rule server_reachable.step [OF server_reachable.init])
  have "map u_email (users (snd (serve example_env (initial_db [] [] []) ?rq))) = [''sari@mail.id'']"
    by (simp add: serve_def lift_step_def example_env_def register_def register_check_def register_insert_def
                  user_of_body_def insert_user_def auth_example_defs register_fields_def users_with_email_def
                  initial_db_def)
  with r server_reachable_inv [OF r] show ?thesis by simp
qed

text \<open>
  C21. No request writes the blood-bank tables: every server step, store
  failures included, leaves \<open>blood_banks\<close> and
  \<open>blood_stock\<close> unchanged (the ranking service is read-only).
\<close>

theorem banks_read_only:
  assumes "server_step e s rq r s'"
  shows "blood_banks s' = blood_banks s \<and> blood_stock s' = blood_stock s"
  using assms
proof (cases rule: server_step.cases)
  case served
  show ?thesis
  proof (cases "hr_route rq")
    case (RRegister b)
    with served show ?thesis using register_other_tables [of "env_bcrypt e" "env_email_unique e" s b]
      by (auto simp: serve_def lift_step_def)
  next
    case (RUpdateProfile i b)
    with served show ?thesis using update_profile_users [of s i b] by (auto simp: serve_def lift_step_def)
  next
    case (RUpdatePassword i b)
    with served show ?thesis using update_password_users [of "env_bcrypt e" s i b]
      by (auto simp: serve_def lift_step_def)
  next
    case (RDonation d)
    with served show ?thesis using donation_handle_other_tables [of s d] by (auto simp: serve_def lift_step_def)
  qed (use served in \<open>auto simp: serve_def\<close>)
qed simp

theorem banks_read_only_witness:
  "blood_banks (snd (serve example_env (initial_db [] [\<lparr>bb_id = 3, bb_name = ''PMI Kota'', latitude = -6.9,
      longitude = 107.6, bb_address = ''Jl. Aceh''\<rparr>] [])
      \<lparr>hr_authorization = None, hr_route = RDonation (ReqDelete 3)\<rparr>)) =
     [\<lparr>bb_id = 3, bb_name = ''PMI Kota'', latitude = -6.9, longitude = 107.6, bb_address = ''Jl. Aceh''\<rparr>]"
proof -
  let ?s = "initial_db [] [\<lparr>bb_id = 3, bb_name = ''PMI Kota'', latitude = -6.9,
      longitude = 107.6, bb_address = ''Jl. Aceh''\<rparr>] []"
  let ?rq = "\<lparr>hr_authorization = None, hr_route = RDonation (ReqDelete 3)\<rparr>"
  have "server_step example_env ?s ?rq (fst (serve example_env ?s ?rq)) (snd (serve example_env ?s ?rq))"
    by (rule server_step.served) simp
  from banks_read_only [OF this] show ?thesis by (simp add: initial_db_def)
qed

text \<open>
  C13. Response envelope: every answer of the server, from a route or from a
  store fault, has the envelope the specification promises (a status among
  200, 201, 400, 401, 404, 500, \<open>success\<close> true exactly when the status is
  below 400, a failure with a message and no data) except the answer of
  \<open>GET /\<close>, the one object without a \<open>success\<close> field.
\<close>

theorem server_responses_well_formed:
  assumes "server_step e s rq r s'"
  shows "wf_response r \<longleftrightarrow> hr_route rq \<noteq> RIndex"
  using assms
proof (cases rule: server_step.cases)
  case served
  then show ?thesis
    by (cases "hr_route rq")
       (auto simp: serve_def lift_step_def wf_donation_handle wf_register wf_login wf_user_routes
                   wf_bank_routes wf_get_user_stats index_answer_not_wf)
next
  case (store_fault m)
  then have "hr_route rq \<noteq> RIndex" by auto
  with store_fault show ?thesis by simp
qed

theorem server_responses_well_formed_witness:
  "wf_response (fst (serve example_env (initial_db [] [] [])
     \<lparr>hr_authorization = None, hr_route = RDonation (ReqHistory 7)\<rparr>)) \<and>
   \<not> wf_response (fst (serve example_env (initial_db [] [] [])
     \<lparr>hr_authorization = None, hr_route = RIndex\<rparr>))"
proof -
  let ?s = "initial_db [] [] []"
  let ?rq = "\<lparr>hr_authorization = None, hr_route = RDonation (ReqHistory 7)\<rparr>"
  let ?ri = "\<lparr>hr_authorization = None, hr_route = RIndex\<rparr>"
  have "server_step example_env ?s ?rq (fst (serve example_env ?s ?rq)) (snd (serve example_env ?s ?rq))"
    by (rule server_step.served) simp
  moreover have "server_step example_env ?s ?ri (fst (serve example_env ?s ?ri)) (snd (serve example_env ?s ?ri))"
    by (rule server_step.served) simp
  ultimately show ?thesis
    using server_responses_well_formed [of example_env ?s ?rq] server_responses_well_formed [of example_env ?s ?ri]
    by simp
qed

text \<open>
  C11. The abstract donation table through the whole server: a step, on any
  route and with store failures, either leaves the table (as a map with its
  counter) unchanged or applies the abstract operation of its donation
  request.
\<close>

theorem server_step_refines_table:
  assumes "server_step e s rq r s'" and "donation_inv s"
  shows "donation_abs s' = donation_abs s \<or>
         (\<exists>d. hr_route rq = RDonation d \<and> donation_abs s' = donation_spec d (donation_abs s))"
  using assms(1)
proof (cases rule: server_step.cases)
  case served
  show ?thesis
  proof (cases "hr_route rq")
    case (RRegister b)
    with served show ?thesis using register_other_tables [of "env_bcrypt e" "env_email_unique e" s b]
      by (auto simp: serve_def lift_step_def donation_abs_def)
  next
    case (RUpdateProfile i b)
    with served show ?thesis using update_profile_users [of s i b]
      by (auto simp: serve_def lift_step_def donation_abs_def)
  next
    case (RUpdatePassword i b)
    with served show ?thesis using update_password_users [of "env_bcrypt e" s i b]
      by (auto simp: serve_def lift_step_def donation_abs_def)
  next
    case (RDonation d)
    with served show ?thesis using donation_handle_abs [OF assms(2), of d]
      by (auto simp: serve_def lift_step_def)
  qed (use served in \<open>auto simp: serve_def\<close>)
qed simp

theorem server_step_refines_table_witness:
  "donation_abs (snd (serve example_env example_db \<lparr>hr_authorization = None, hr_route = RDonation (ReqDelete 2)\<rparr>)) =
     donation_abs example_db \<or>
   (\<exists>d. RDonation (ReqDelete 2) = RDonation d \<and>
      donation_abs (snd (serve example_env example_db \<lparr>hr_authorization = None, hr_route = RDonation (ReqDelete 2)\<rparr>)) =
        donation_spec d (donation_abs example_db))"
proof -
  let ?rq = "\<lparr>hr_authorization = None, hr_route = RDonation (ReqDelete 2)\<rparr>"
  have "server_step example_env example_db ?rq (fst (serve example_env example_db ?rq))
          (snd (serve example_env example_db ?rq))"
    by (rule server_step.served) simp
  from server_step_refines_table [OF this] show ?thesis by (simp add: example_db_def donation_inv_def)
qed

end
