(* ===== verification/Pool.thy ===== *)
theory Pool
  imports Prelude
begin

text \<open>
  The connection pool of \<open>config/database.js\<close>: \<open>mysql.createPool\<close> with its
  options read from the environment, the pool's \<open>getConnection\<close> and
  \<open>release\<close> (the behaviour \<open>mysql2\<close> documents for \<open>waitForConnections\<close>,
  \<open>connectionLimit\<close> and \<open>queueLimit\<close>), and the startup test of the file.
  Each \<open>db.query\<close> of a route takes a connection from the pool for the
  statement and releases it after. Requests are numbered;
  the pool's state counts its connections and lists the requests that hold
  one and, in order, those that wait.
\<close>

section \<open>Configuration\<close>

record pool_cfg =
  db_host :: string
  db_user :: string
  db_password :: string
  db_name :: string
  db_port :: jval
  wait_for_connections :: bool
  connection_limit :: nat
  queue_limit :: nat

text \<open>\<open>process.env.K || d\<close>: an unset or empty variable gives the default.\<close>

definition env_str :: "(string \<Rightarrow> string option) \<Rightarrow> string \<Rightarrow> string \<Rightarrow> string" where
  "env_str env k d = (case env k of Some v \<Rightarrow> if v = [] then d else v | None \<Rightarrow> d)"

text \<open>
  The options of \<open>createPool\<close>; \<open>port\<close> is the string of \<open>DB_PORT\<close> when it is
  set and the number 3306 otherwise.
\<close>

definition pool_config :: "(string \<Rightarrow> string option) \<Rightarrow> pool_cfg" where
  "pool_config env =
     \<lparr>db_host = env_str env ''DB_HOST'' ''localhost'',
      db_user = env_str env ''DB_USER'' ''root'',
      db_password = env_str env ''DB_PASSWORD'' [],
      db_name = env_str env ''DB_NAME'' ''donor_darah_db'',
      db_port = (case env ''DB_PORT'' of Some v \<Rightarrow> if v = [] then JNum 3306 else JStr v | None \<Rightarrow> JNum 3306),
      wait_for_connections = True,
      connection_limit = 10,
      queue_limit = 0\<rparr>"

section \<open>The pool\<close>

record pool =
  all_conns :: nat
  free_conns :: nat
  holders :: "nat list"
  waiting :: "nat list"

definition empty_pool :: pool where
  "empty_pool = \<lparr>all_conns = 0, free_conns = 0, holders = [], waiting = []\<rparr>"

datatype pool_error = ConnectFailed | NoConnections | QueueLimitReached

text \<open>
  \<open>getConnection\<close> for request \<open>r\<close>: an idle connection if there is one; else a
  new one below the limit (0 is no limit), which fails when the server cannot
  be reached (\<open>ok\<close> false); else an error without \<open>waitForConnections\<close>, an
  error when the queue is at a positive \<open>queueLimit\<close>, and otherwise a place at
  the end of the queue.
\<close>

definition get_connection :: "pool_cfg \<Rightarrow> bool \<Rightarrow> nat \<Rightarrow> pool \<Rightarrow> pool_error + pool" where
  "get_connection c ok r p =
     (if 0 < free_conns p then Inr (p\<lparr>free_conns := free_conns p - 1, holders := holders p @ [r]\<rparr>)
      else if connection_limit c = 0 \<or> all_conns p < connection_limit c then
        (if ok then Inr (p\<lparr>all_conns := all_conns p + 1, holders := holders p @ [r]\<rparr>)
         else Inl ConnectFailed)
      else if \<not> wait_for_connections c then Inl NoConnections
      else if 0 < queue_limit c \<and> queue_limit c \<le> length (waiting p) then Inl QueueLimitReached
      else Inr (p\<lparr>waiting := waiting p @ [r]\<rparr>))"

text \<open>
  \<open>connection.release()\<close> by request \<open>r\<close>: the connection goes to the first
  waiting request, or back to the idle ones when none waits.
\<close>

definition release_connection :: "nat \<Rightarrow> pool \<Rightarrow> pool" where
  "release_connection r p =
     (case waiting p of
        [] \<Rightarrow> p\<lparr>holders := remove1 r (holders p), free_conns := free_conns p + 1\<rparr>
      | w # ws \<Rightarrow> p\<lparr>holders := remove1 r (holders p) @ [w], waiting := ws\<rparr>)"

text \<open>
  The startup test: \<open>pool.getConnection\<close>, an error logged when it fails,
  otherwise the success message and \<open>connection.release()\<close>. Request 0 is the
  test's own.
\<close>

definition startup_test :: "pool_cfg \<Rightarrow> bool \<Rightarrow> pool \<Rightarrow> string \<times> pool" where
  "startup_test c ok p =
     (case get_connection c ok 0 p of
        Inl e \<Rightarrow> (''Error connecting to database'', p)
      | Inr p' \<Rightarrow> (''Database connected successfully'', release_connection 0 p'))"

text \<open>
  The steps of the pool under concurrent requests: a new request asks for a
  connection (a failed attempt leaves the pool as it was), or a holder
  releases its connection.
\<close>

inductive pool_step :: "pool_cfg \<Rightarrow> bool \<Rightarrow> pool \<Rightarrow> pool \<Rightarrow> bool" where
  acquire: "r \<notin> set (holders p @ waiting p) \<Longrightarrow> get_connection c ok r p = Inr p' \<Longrightarrow> pool_step c ok p p'"
| release: "r \<in> set (holders p) \<Longrightarrow> pool_step c ok p (release_connection r p)"

inductive pool_reachable :: "pool_cfg \<Rightarrow> bool \<Rightarrow> pool \<Rightarrow> bool" where
  init: "pool_reachable c ok empty_pool"
| step: "pool_reachable c ok p \<Longrightarrow> pool_step c ok p p' \<Longrightarrow> pool_reachable c ok p'"

text \<open>
  The invariant: the holders are the connections in use, no connection above
  the limit, no idle connection while a request waits, no request twice.
\<close>

definition pool_inv :: "pool_cfg \<Rightarrow> pool \<Rightarrow> bool" where
  "pool_inv c p \<longleftrightarrow>
     free_conns p \<le> all_conns p \<and> length (holders p) + free_conns p = all_conns p \<and>
     (connection_limit c = 0 \<or> all_conns p \<le> connection_limit c) \<and>
     (waiting p = [] \<or> free_conns p = 0) \<and> distinct (holders p @ waiting p)"

section \<open>Lemmas\<close>

lemma pool_config_simps [simp]:
  "connection_limit (pool_config env) = 10"
  "wait_for_connections (pool_config env) = True"
  "queue_limit (pool_config env) = 0"
  by (simp_all add: pool_config_def)

lemma pool_inv_empty [simp]: "pool_inv c empty_pool"
  by (simp add: pool_inv_def empty_pool_def)

lemma get_connection_inv:
  assumes "pool_inv c p" and "r \<notin> set (holders p @ waiting p)" and "get_connection c ok r p = Inr p'"
  shows "pool_inv c p'"
  using assms by (auto simp: pool_inv_def get_connection_def split: if_splits)

lemma release_connection_inv:
  assumes "pool_inv c p" and "r \<in> set (holders p)"
  shows "pool_inv c (release_connection r p)"
proof -
  have "0 < length (holders p)" using assms(2) by (rule length_pos_if_in_set)
  with assms show ?thesis
    by (cases "waiting p")
       (auto simp: pool_inv_def release_connection_def length_remove1 simp del: length_greater_0_conv)
qed

text \<open>\<open>n\<close> requests, one after the other, each open a connection of their own.\<close>

lemma pool_reachable_fill:
  "n \<le> connection_limit c \<Longrightarrow>
   pool_reachable c True \<lparr>all_conns = n, free_conns = 0, holders = [1..<Suc n], waiting = []\<rparr>"
proof (induction n)
  case 0
  show ?case using pool_reachable.init [of c True] by (simp add: empty_pool_def)
next
  case (Suc n)
  then have r: "pool_reachable c True \<lparr>all_conns = n, free_conns = 0, holders = [1..<Suc n], waiting = []\<rparr>"
    by simp
  have "pool_step c True \<lparr>all_conns = n, free_conns = 0, holders = [1..<Suc n], waiting = []\<rparr>
          \<lparr>all_conns = Suc n, free_conns = 0, holders = [1..<Suc (Suc n)], waiting = []\<rparr>"
    using Suc.prems by (intro pool_step.acquire [where r = "Suc n"]) (simp_all add: get_connection_def)
  with r show ?case by (rule pool_reachable.step)
qed

lemma pool_reachable_inv: "pool_reachable c ok p \<Longrightarrow> pool_inv c p"
proof (induction rule: pool_reachable.induct)
  case (step p p')
  from step.hyps(2) step.IH show ?case
    by (cases rule: pool_step.cases) (auto intro: get_connection_inv release_connection_inv)
qed simp

section \<open>Properties of the pool\<close>

text \<open>
  C22. Connection bound and no refusal: whatever the interleaving of requests
  and releases, the pool configured by \<open>config/database.js\<close> never opens
  more than its 10 connections, so at most 10 statements run at once, and
  while the server answers, a new request for a connection is never refused
  (\<open>waitForConnections: true\<close>, \<open>queueLimit: 0\<close>): it gets a connection or a
  place in the queue, however many wait.
\<close>

theorem pool_connections_bounded:
  assumes "pool_reachable (pool_config env) True p"
  shows "all_conns p \<le> 10 \<and> length (holders p) \<le> 10 \<and>
         (\<exists>p'. get_connection (pool_config env) True r p = Inr p')"
  using pool_reachable_inv [OF assms] by (auto simp: pool_inv_def get_connection_def)

theorem pool_connections_bounded_witness:
  "all_conns \<lparr>all_conns = 10, free_conns = 0, holders = [1..<11], waiting = [11]\<rparr> \<le> 10 \<and>
   length (holders \<lparr>all_conns = 10, free_conns = 0, holders = [1..<11], waiting = [11]\<rparr>) \<le> 10 \<and>
   (\<exists>p'. get_connection (pool_config Map.empty) True 12
           \<lparr>all_conns = 10, free_conns = 0, holders = [1..<11], waiting = [11]\<rparr> = Inr p')"
proof -
  have "pool_reachable (pool_config Map.empty) True
          \<lparr>all_conns = 10, free_conns = 0, holders = [1..<Suc 10], waiting = []\<rparr>"
    by (rule pool_reachable_fill) simp
  moreover have "pool_step (pool_config Map.empty) True
          \<lparr>all_conns = 10, free_conns = 0, holders = [1..<Suc 10], waiting = []\<rparr>
          \<lparr>all_conns = 10, free_conns = 0, holders = [1..<11], waiting = [11]\<rparr>"
    by (rule pool_step.acquire [where r = 11]) (simp_all add: get_connection_def upt_rec)
  ultimately have "pool_reachable (pool_config Map.empty) True
          \<lparr>all_conns = 10, free_conns = 0, holders = [1..<11], waiting = [11]\<rparr>"
    by (rule pool_reachable.step)
  then show ?thesis by (rule pool_connections_bounded)
qed

text \<open>
  The startup test of \<open>config/database.js\<close>: with the server reachable it
  logs success and leaves one idle connection in the pool; otherwise it logs
  the error and the pool stays empty.
\<close>

theorem startup_test_outcomes:
  "startup_test (pool_config env) True empty_pool =
     (''Database connected successfully'', empty_pool\<lparr>all_conns := 1, free_conns := 1\<rparr>) \<and>
   startup_test (pool_config env) False empty_pool = (''Error connecting to database'', empty_pool)"
  by (simp add: startup_test_def get_connection_def release_connection_def empty_pool_def)

end
