(* ===== verification/Spec2Isabelle.thy ===== *)
theory Spec2Isabelle
  imports Server Pool
begin

text \<open>
  \<^bold>\<open>Verification development for the Donor Darah API\<close> (\<open>src/donor-darah-api\<close>),
  the Express/MySQL backend of a blood-donation app.

  \<^bold>\<open>The program.\<close> \<open>server.js\<close> mounts four routers under \<open>/api\<close>; every
  handler reads the request (body parsed by \<open>bodyParser.json\<close> or
  \<open>urlencoded\<close>, route parameters, query strings), validates it with
  JavaScript truthiness, issues one to three parameterised statements through
  the \<open>mysql2\<close> pool of \<open>config/database.js\<close>, and answers with the envelope
  \<open>{success, message, data}\<close>; a failing statement lands in the handler's
  \<open>catch\<close> and is answered 500. The donation routes own the only mutable
  domain state (the \<open>donation_history\<close> table and its status lifecycle); the
  blood-bank routes rank banks by haversine distance; the statistics route
  aggregates the completed donations the donation routes write.

  \<^bold>\<open>Theories.\<close>
  \<^item> \<open>Prelude\<close>: JSON values (\<open>jval\<close>) and JavaScript truthiness (\<open>truthy\<close>,
    the \<open>!x\<close> of every validation); \<open>insort_desc\<close>/\<open>sort_desc\<close>, the stable
    choice for \<open>ORDER BY \<dots> DESC\<close>, with \<open>order_by_desc\<close>, the contract of such a
    query; \<open>keyed\<close>, a table read as a map from its
    key column; shared list lemmas (unique keys, one-row updates and deletes).
  \<^item> \<open>Store\<close>: the tables as lists of row records (\<open>user_row\<close>, \<open>bank_row\<close>,
    \<open>stock_row\<close>, \<open>donation_row\<close>), the database record \<open>db\<close> with the
    \<open>AUTO_INCREMENT\<close> counters, the store's column conversions (\<open>sql_int\<close>
    with \<open>parse_int_text\<close>: white space around an optional sign and digits;
    \<open>sql_text\<close>, \<open>sql_nullable_text\<close>; modelled from MySQL's documented
    behaviour in strict mode, since the schema is not in \<open>src/\<close>), the JSON
    answer \<open>response\<close> (status, an optional \<open>success\<close> field, message, data)
    and the envelope of the specification \<open>wf_response\<close>.
  \<^item> \<open>Donations\<close> (\<open>routes/donations.js\<close>): one definition per handler
    (\<open>get_user_donations\<close>, \<open>create_donation\<close>, \<open>update_donation_status\<close>,
    \<open>get_donation\<close>, \<open>delete_donation\<close>), each from the database and the request
    to the response and the new database; the router \<open>donation_handle\<close>; the
    step relation \<open>donation_step\<close> (a handler's result, or a store failure on
    its single statement, answered 500 with the database unchanged, possible
    only after validation passed); \<open>donation_reachable\<close>; the table invariant
    \<open>donation_inv\<close>; the documented lifecycle \<open>lifecycle\<close>; the abstract table
    \<open>donation_abs\<close> (a map from id to row and the counter) with its operations
    \<open>donation_spec\<close>.
  \<^item> \<open>BloodBanks\<close> (\<open>routes/bloodBanks.js\<close>): \<open>calculate_distance\<close>
    (\<open>calculateDistance\<close>, with \<open>js_atan2\<close> for \<open>Math.atan2\<close>), \<open>parse_float\<close>
    for \<open>parseFloat\<close> on decimal notation, the distances as JavaScript numbers
    (\<open>js_distance\<close>, \<open>NaN\<close> being \<open>None\<close>), the comparator \<open>js_sub\<close> and
    \<open>js_sort\<close> (\<open>Array.prototype.sort\<close>: stable, a \<open>NaN\<close> comparison counting
    as equal), \<open>rank_banks\<close> (the \<open>forEach\<close> annotation and the sort),
    \<open>list_blood_banks\<close>, \<open>get_blood_bank\<close>, \<open>get_blood_stock\<close>.
  \<^item> \<open>Users\<close> (\<open>routes/users.js\<close>, \<open>GET /stats/:id\<close>): \<open>completed_rows\<close>,
    \<open>sql_count\<close> (a number), \<open>sql_sum\<close> (\<open>NULL\<close> or a \<open>DECIMAL\<close>, which
    \<open>mysql2\<close> returns as a string), \<open>js_or\<close> (the \<open>|| 0\<close>), \<open>last_completed\<close>
    (\<open>ORDER BY \<dots> DESC LIMIT 1\<close>), \<open>stats_reads\<close> (the three queries, each
    on the database as it is when it runs), \<open>user_stats\<close> (the three on one
    state, the JSON object of the answer), \<open>get_user_stats\<close>.
  \<^item> \<open>Auth\<close> (\<open>routes/auth.js\<close>, \<open>middleware/auth.js\<close>): the library
    interfaces \<open>bcrypt\<close> (hash, compare) and \<open>jwt_lib\<close> (sign, verify) as
    records of functions; \<open>register\<close> as the composition of \<open>register_check\<close>
    (validation and the duplicate-email \<open>SELECT\<close>) and \<open>register_insert\<close>
    (\<open>bcrypt.hash\<close> and the \<open>INSERT\<close>, through \<open>insert_user\<close>, whose flag says
    whether the schema has a \<open>UNIQUE\<close> index on \<open>email\<close>); \<open>login\<close>;
    \<open>bearer_token\<close> (\<open>split(' ')[1]\<close> with \<open>js_split\<close>), its reference
    \<open>bearer_ref\<close> (the word after the first space) and \<open>authenticate_token\<close>;
    example instances of the interfaces.
  \<^item> \<open>Profile\<close> (\<open>routes/users.js\<close>): \<open>get_profile\<close>, \<open>update_profile\<close>,
    \<open>update_password\<close>, and its two phases \<open>password_check\<close> (validation,
    \<open>SELECT\<close>, \<open>bcrypt.compare\<close>) and \<open>password_write\<close> (\<open>bcrypt.hash\<close>,
    \<open>UPDATE\<close>), which other requests may separate.
  \<^item> \<open>Server\<close> (\<open>server.js\<close>): \<open>serve\<close>, the dispatch of a request with its
    \<open>Authorization\<close> header to the mounted routers, the index route
    (\<open>index_answer\<close>, an object without \<open>success\<close>) and the 404 handler; the whole server as the step relation \<open>server_step\<close> (a
    request served, or a failing statement answered 500 by the route's
    \<open>catch\<close>, \<open>route_fault\<close>) with \<open>server_reachable\<close> and the users-table
    invariant \<open>users_inv\<close>; concurrent registrations as the step relation \<open>reg_step\<close>
    over the database and a list of threads, each \<open>RegStart\<close>, \<open>RegChecked\<close>
    (past its \<open>SELECT\<close>) or \<open>RegDone\<close>; the body parsers and the global error
    handler as \<open>app_step\<close> (a rejected body, \<open>BodyRejected\<close>, goes to
    \<open>error_handler\<close>; a parsed one to \<open>server_step\<close>).
  \<^item> \<open>Pool\<close> (\<open>config/database.js\<close>): \<open>pool_config\<close> (the \<open>createPool\<close>
    options from the environment), the pool state \<open>pool\<close>, \<open>get_connection\<close>
    and \<open>release_connection\<close> (\<open>mysql2\<close>'s documented behaviour for
    \<open>waitForConnections\<close>, \<open>connectionLimit\<close>, \<open>queueLimit\<close>),
    \<open>startup_test\<close> (the \<open>getConnection\<close>/\<open>release\<close> at load time), the step
    relation \<open>pool_step\<close> of interleaved requests and releases with
    \<open>pool_reachable\<close> and the invariant \<open>pool_inv\<close>.
  \<^item> this theory: the statistics route among other requests (\<open>stats_run\<close>:
    any donation steps, \<open>donation_any\<close>, before, between and after its three
    reads) and the properties that span the donation routes and the
    statistics.

  \<^bold>\<open>What is proved.\<close> For the donation routes: the functional behaviour of
  each handler on its branches, validation errors included and robust under
  store failures; that the status update checks only membership in the four
  statuses, so transitions outside \<open>lifecycle\<close> happen in reachable runs;
  that delete and update report success for absent ids; that create checks
  neither the blood type nor the sign of the quantity, accepts the string
  "0", and answers a non-numeric quantity 500 instead of 400; that every
  request changes the table as the abstract map operation (\<open>donation_spec\<close>)
  changes \<open>donation_abs\<close> (data refinement under \<open>donation_inv\<close>, lifted to
  every server step); that a status update without notes erases the notes.
  The history view refines the \<open>ORDER BY donation_date DESC\<close> contract. For
  the blood banks: the code's \<open>atan2\<close> formula is the haversine distance
  \<open>2 R arcsin (sqrt a)\<close> with \<open>a\<close> in [0, 1] and the distance in [0, 6371\<pi>] for
  every input; the ranked list is a stable, distance-sorted permutation of the
  table (the JavaScript sort equals \<open>sort_key\<close> on numbers); an unparsable
  location gives \<open>NaN\<close> distances, a comparator that is \<open>NaN\<close> on every pair,
  and hence the table order; the detail and stock views. For the statistics:
  they refine their specification (count, sum, latest date of completed
  donations), except that the sum is answered as a JSON string; read from one
  state they are consistent, but a status update between the three queries
  gives an answer no state gives; across components, a completing update adds
  the donation to the statistics and a delete of a completed donation removes
  it. For authentication: registration outcomes (duplicate, success with the
  hashed password), the round trips register/login, password change/login,
  profile update/read and login/gate (under the library contracts, stated as
  hypotheses at the one input used), the equivalence of the token extraction
  with the word after the first space, that the gate ignores the scheme word,
  that profile and password updates never change ids or emails, and that two
  interleaved password changes both succeed while the first new password is
  lost. For the server: requests handled one at a time, store failures
  included, keep the users invariant (distinct positive ids below the counter,
  distinct emails, resting on the duplicate check of \<open>register\<close>) and the
  donation invariant in every reachable database, and no step writes the
  blood-bank tables; the donation and profile routes serve requests without a
  token; interleaved registrations can store one email twice and lock the
  second user out; every answer, from a route or a store failure, has the
  envelope of the specification exactly when it is not the answer of
  \<open>GET /\<close>. For the pool configured by \<open>config/database.js\<close>: at most 10
  connections in every reachable state (rule induction over \<open>pool_reachable\<close>
  with \<open>pool_inv\<close>) and no request refused while the server answers.

  \<^bold>\<open>Choices.\<close> No loop of the program needs fuel: every recursion of the model
  is structural (insertion sorts, digit parsers, string splitting, list
  traversals), and the registration threads have at most two store steps
  each. JavaScript numbers in request bodies are \<open>int\<close> (truthiness depends
  only on zero); the distance uses \<open>real\<close> with \<open>NaN\<close> as \<open>None\<close>, so rounding of
  doubles is not modelled. SQL \<open>ORDER BY\<close> leaves ties open; the model picks
  the stable order and the theorems are stated against the contract where
  that matters. String order is the code-point order of \<open>List_Lexorder\<close>,
  which is MySQL's order under a binary collation and on ISO dates; under
  MySQL 8's default \<open>utf8mb4_0900_ai_ci\<close> punctuation is ordered differently
  (\<open>A-\<close> before \<open>A+\<close>), so the stock order of \<open>get_blood_stock\<close> assumes a
  binary collation. String equality in \<open>WHERE email = ?\<close> is exact (a binary
  collation). Route parameters are integers. A bank's coordinates are the
  reals of its \<open>DECIMAL\<close> columns (\<open>parseFloat\<close> of their text). The clock is
  a number of seconds and \<open>JWT_SECRET\<close> an optional string of the environment
  \<open>server_env\<close>.

  \<^bold>\<open>Not modelled.\<close> The schema, which is not in \<open>src/\<close>: the widths of the
  integer columns (integers are unbounded \<open>int\<close> and the \<open>AUTO_INCREMENT\<close>
  counters never run out or skip values after a failed insert), the
  validation of \<open>DATE\<close> values (\<open>donation_date\<close> is stored as the text sent),
  foreign keys, \<open>NULL\<close> coordinates, and the rounding of fractional literals
  into integer columns (modelled as a rejected statement). The internals of
  bcrypt and JWT (only their contracts are used), the \<open>created_at\<close> column,
  the conversion of \<open>DATE\<close> values (\<open>mysql2\<close> returns \<open>Date\<close> objects, which
  JSON prints as UTC timestamps; dates are kept as their ISO text), the
  internals of \<open>mysql2\<close> (only the documented pool policy is modelled, on a
  pool whose connections are never lost; which connection a statement uses
  does not change its result, so the routes read the database directly), the
  constant \<open>version\<close> and \<open>endpoints\<close> fields of \<open>GET /\<close>, CORS (it only adds
  headers), the error handler for exceptions other than the body parsers'
  (every handler catches its own), \<open>app.listen\<close> and \<open>console\<close> logging.
  Store failures are steps of \<open>donation_step\<close> and \<open>server_step\<close>; the
  concurrent registrations of \<open>reg_step\<close> run on a store that answers.
\<close>

section \<open>The statistics route among other requests\<close>

text \<open>
  Other requests run between the three statements of \<open>GET /stats/:id\<close>: any
  donation request, a store failure included, may take a step before, between
  and after the reads.
\<close>

inductive donation_any :: "db \<Rightarrow> db \<Rightarrow> bool" where
  "donation_step s rq r s' \<Longrightarrow> donation_any s s'"

inductive stats_run :: "db \<Rightarrow> row_id \<Rightarrow> stats response \<Rightarrow> db \<Rightarrow> bool" where
  "donation_any\<^sup>*\<^sup>* s s1 \<Longrightarrow> donation_any\<^sup>*\<^sup>* s1 s2 \<Longrightarrow> donation_any\<^sup>*\<^sup>* s2 s3 \<Longrightarrow>
   donation_any\<^sup>*\<^sup>* s3 s' \<Longrightarrow> stats_run s uid (ok_data 200 (stats_reads s1 s2 s3 uid)) s'"

section \<open>Properties across the donation routes and the statistics\<close>

text \<open>
  C5. The documented lifecycle is not enforced: in a reachable database a
  \<open>completed\<close> donation is moved back to \<open>pending\<close> by a single status update,
  a transition \<open>lifecycle\<close> does not contain (nor does it contain the jump
  from \<open>pending\<close> to \<open>completed\<close> that produced the completed row).
\<close>

theorem lifecycle_violation_reachable:
  "\<exists>s r s'. donation_reachable s \<and>
     donation_step s (ReqUpdateStatus 1 (JStr ''pending'') JUndef) r s' \<and>
     map d_status (donations s) = [Completed] \<and> map d_status (donations s') = [Pending] \<and>
     \<not> lifecycle Completed Pending \<and> \<not> lifecycle Pending Completed"
proof -
  define b where "b = \<lparr>cb_user_id = JNum 1, cb_blood_bank_id = JNum 1, cb_donation_date = JStr ''2024-01-05'',
       cb_blood_type = JStr ''A+'', cb_quantity = JNum 350, cb_notes = JUndef\<rparr>"
  define s1 where "s1 = snd (donation_handle (initial_db [] [] []) (ReqCreate b))"
  define s2 where "s2 = snd (donation_handle s1 (ReqUpdateStatus 1 (JStr (status_name Completed)) JUndef))"
  let ?rq = "ReqUpdateStatus 1 (JStr (status_name Pending)) JUndef"
  have r2: "donation_reachable s2"
    unfolding s2_def s1_def by (intro donation_reachable_handle donation_reachable.init)
  have "donations s1 = [\<lparr>d_id = 1, d_user_id = 1, d_bank_id = 1, d_date = ''2024-01-05'',
      d_blood_type = ''A+'', d_quantity = 350, d_status = Pending, d_notes = None\<rparr>]"
    by (simp add: s1_def b_def create_donation_def required_present_def donation_of_body_def initial_db_def)
  then have s2: "donations s2 = [\<lparr>d_id = 1, d_user_id = 1, d_bank_id = 1, d_date = ''2024-01-05'',
      d_blood_type = ''A+'', d_quantity = 350, d_status = Completed, d_notes = None\<rparr>]"
    unfolding s2_def donation_handle.simps update_valid_status by (simp add: set_status_def)
  then have s3: "map d_status (donations (snd (donation_handle s2 ?rq))) = [Pending]"
    unfolding donation_handle.simps update_valid_status by (simp add: set_status_def)
  have "\<not> lifecycle Completed Pending" and "\<not> lifecycle Pending Completed"
    by (auto elim: lifecycle.cases)
  with r2 donation_step_handle [of s2 ?rq] s2 s3 show ?thesis by fastforce
qed

text \<open>
  C6. Completing a donation through the status update (from any other status)
  adds it to the owner's statistics: one more donation and its quantity more
  in the total.
\<close>

theorem complete_adds_to_stats:
  assumes "distinct (map d_id (donations s))" and "x \<in> set (donations s)"
    and "d_status x \<noteq> Completed" and "sql_nullable_text n = Some m"
    and "update_donation_status s (d_id x) (JStr (status_name Completed)) n = (r, s')"
  shows "total_donations (user_stats s' (d_user_id x)) =
           JNum (int (length (completed_rows s (d_user_id x))) + 1) \<and>
         total_blood_donated (user_stats s' (d_user_id x)) =
           JStr (int_text (sum_list (map d_quantity (completed_rows s (d_user_id x))) + d_quantity x))"
proof -
  let ?P = "\<lambda>r. d_user_id r = d_user_id x \<and> d_status r = Completed"
  let ?f = "set_status (d_id x) Completed m"
  have eq: "update_donation_status s (d_id x) (JStr (status_name Completed)) n =
      (ok_msg 200 ''Status donor berhasil diupdate'', s\<lparr>donations := map ?f (donations s)\<rparr>)"
    using assms(4) by (simp only: update_valid_status) simp
  from assms(5) [unfolded eq] have s': "donations s' = map ?f (donations s)"
    by auto
  have fx: "?f x = x\<lparr>d_status := Completed, d_notes := m\<rparr>" by (simp add: set_status_def)
  have "mset (filter ?P (map ?f (donations s))) = add_mset (?f x) (mset (filter ?P (donations s)))"
    using assms(1,2,3) fx by (intro filter_map_update_one [where g = d_id]) auto
  note h = mset_add_sum_length [OF this, of d_quantity]
  have c': "completed_rows s' (d_user_id x) = filter ?P (map ?f (donations s))"
    by (simp only: completed_rows_def s')
  have c: "completed_rows s (d_user_id x) = filter ?P (donations s)"
    by (simp only: completed_rows_def)
  have q: "d_quantity (?f x) = d_quantity x" by (simp add: fx)
  have ne: "filter ?P (map ?f (donations s)) \<noteq> []"
    using conjunct2 [OF h] by (metis Zero_not_Suc list.size(3))
  show ?thesis
    unfolding total_donations_eq total_blood_donated_eq c' c using h q ne by (simp add: add.commute)
qed

theorem complete_adds_to_stats_witness:
  "total_donations (user_stats (snd (update_donation_status ((initial_db [] [] [])\<lparr>donations := [\<lparr>d_id = 1, d_user_id = 7, d_bank_id = 1, d_date = ''2024-01-05'', d_blood_type = ''O+'', d_quantity = 350, d_status = Approved, d_notes = None\<rparr>]\<rparr>) 1 (JStr (status_name Completed)) JUndef)) 7) = JNum 1 \<and>
   total_blood_donated (user_stats (snd (update_donation_status ((initial_db [] [] [])\<lparr>donations := [\<lparr>d_id = 1, d_user_id = 7, d_bank_id = 1, d_date = ''2024-01-05'', d_blood_type = ''O+'', d_quantity = 350, d_status = Approved, d_notes = None\<rparr>]\<rparr>) 1 (JStr (status_name Completed)) JUndef)) 7) = JStr ''350''"
proof -
  have x: "\<lparr>d_id = 1, d_user_id = 7, d_bank_id = 1, d_date = ''2024-01-05'', d_blood_type = ''O+'', d_quantity = 350, d_status = Approved, d_notes = None\<rparr> \<in> set (donations ((initial_db [] [] [])\<lparr>donations := [\<lparr>d_id = 1, d_user_id = 7, d_bank_id = 1, d_date = ''2024-01-05'', d_blood_type = ''O+'', d_quantity = 350, d_status = Approved, d_notes = None\<rparr>]\<rparr>))" by simp
  from complete_adds_to_stats [OF _ x _ _ prod.collapse [symmetric], of JUndef None]
  show ?thesis by (simp add: completed_rows_def int_text_def initial_db_def)
qed

text \<open>
  C26. Deleting a completed donation removes it from its owner's statistics,
  which therefore decrease: the delete route has no status guard, so the
  donation history can lose completed donations.
\<close>

theorem delete_completed_lowers_stats:
  assumes "distinct (map d_id (donations s))" and "x \<in> set (donations s)" and "d_status x = Completed"
  shows "total_donations (user_stats s (d_user_id x)) =
           JNum (int (length (completed_rows (snd (delete_donation s (d_id x))) (d_user_id x))) + 1)"
proof -
  have "Suc (length (filter (\<lambda>r. d_user_id r = d_user_id x \<and> d_status r = Completed)
           (filter (\<lambda>r. d_id r \<noteq> d_id x) (donations s)))) =
        length (filter (\<lambda>r. d_user_id r = d_user_id x \<and> d_status r = Completed) (donations s))"
    using assms by (intro filter_delete_one) auto
  then show ?thesis by (simp add: delete_donation_def completed_rows_def flip: of_nat_Suc)
qed

theorem delete_completed_lowers_stats_witness:
  "total_donations (user_stats ((initial_db [] [] [])\<lparr>donations := [\<lparr>d_id = 1, d_user_id = 7, d_bank_id = 1, d_date = ''2024-01-05'', d_blood_type = ''O+'', d_quantity = 350, d_status = Completed, d_notes = None\<rparr>]\<rparr>) 7) = JNum 1 \<and>
   total_donations (user_stats (snd (delete_donation ((initial_db [] [] [])\<lparr>donations := [\<lparr>d_id = 1, d_user_id = 7, d_bank_id = 1, d_date = ''2024-01-05'', d_blood_type = ''O+'', d_quantity = 350, d_status = Completed, d_notes = None\<rparr>]\<rparr>) 1)) 7) = JNum 0"
proof -
  have x: "\<lparr>d_id = 1, d_user_id = 7, d_bank_id = 1, d_date = ''2024-01-05'', d_blood_type = ''O+'', d_quantity = 350, d_status = Completed, d_notes = None\<rparr> \<in> set (donations ((initial_db [] [] [])\<lparr>donations := [\<lparr>d_id = 1, d_user_id = 7, d_bank_id = 1, d_date = ''2024-01-05'', d_blood_type = ''O+'', d_quantity = 350, d_status = Completed, d_notes = None\<rparr>]\<rparr>))" by simp
  from delete_completed_lowers_stats [OF _ x] show ?thesis
    by (simp add: completed_rows_def delete_donation_def initial_db_def)
qed

text \<open>
  C9. Torn statistics: the three reads of \<open>GET /stats/:id\<close> are not one
  snapshot. With a completing status update between the \<open>COUNT\<close> and the
  \<open>SUM\<close>, a reachable database answers 0 donations and 450 ml, an answer no
  single database state gives.
\<close>

theorem stats_torn_read:
  "\<exists>s x s'. donation_reachable s \<and> stats_run s 7 (ok_data 200 x) s' \<and>
     total_donations x = JNum 0 \<and> total_blood_donated x = JStr ''450'' \<and> (\<forall>t. user_stats t 7 \<noteq> x)"
proof -
  define b where "b = \<lparr>cb_user_id = JNum 7, cb_blood_bank_id = JNum 1, cb_donation_date = JStr ''2024-01-05'',
       cb_blood_type = JStr ''A+'', cb_quantity = JNum 450, cb_notes = JUndef\<rparr>"
  define s1 where "s1 = snd (donation_handle (initial_db [] [] []) (ReqCreate b))"
  define s2 where "s2 = snd (donation_handle s1 (ReqUpdateStatus 1 (JStr (status_name Completed)) JUndef))"
  have r1: "donation_reachable s1"
    unfolding s1_def by (intro donation_reachable_handle donation_reachable.init)
  have d1: "donations s1 = [\<lparr>d_id = 1, d_user_id = 7, d_bank_id = 1, d_date = ''2024-01-05'',
      d_blood_type = ''A+'', d_quantity = 450, d_status = Pending, d_notes = None\<rparr>]"
    by (simp add: s1_def b_def create_donation_def required_present_def donation_of_body_def initial_db_def)
  then have d2: "donations s2 = [\<lparr>d_id = 1, d_user_id = 7, d_bank_id = 1, d_date = ''2024-01-05'',
      d_blood_type = ''A+'', d_quantity = 450, d_status = Completed, d_notes = None\<rparr>]"
    unfolding s2_def donation_handle.simps update_valid_status by (simp add: set_status_def)
  have "donation_any s1 s2"
    unfolding s2_def by (rule donation_any.intros, rule donation_step_handle)
  then have run: "stats_run s1 7 (ok_data 200 (stats_reads s1 s2 s2 7)) s2"
    by (intro stats_run.intros) auto
  let ?x = "stats_reads s1 s2 s2 7"
  have c: "total_donations ?x = JNum 0" using d1 by (simp add: completed_rows_def)
  have t: "total_blood_donated ?x = JStr ''450''" using d2 by (simp add: completed_rows_def int_text_def)
  have "user_stats t 7 \<noteq> ?x" for t
  proof
    assume e: "user_stats t 7 = ?x"
    have a: "total_donations (user_stats t 7) = JNum 0" using c by (simp only: e)
    have b: "total_blood_donated (user_stats t 7) = JStr ''450''" using t by (simp only: e)
    from a have "total_blood_donated (user_stats t 7) = JNum 0" using stats_consistent [of t 7] by blast
    with b show False by simp
  qed
  with r1 run c t show ?thesis by blast
qed

end
